theory Spec2Isabelle
  imports Complex_Main "HOL-Library.Word"
begin

unbundle bit_operations_syntax

section \<open>Software rasterizer (GPU/Software/Rasterizer.cpp)\<close>

type_synonym u8 = "8 word"
type_synonym u16 = "16 word"
type_synonym u32 = "32 word"

subsection \<open>Data\<close>

text \<open>
  The C++ \<^verbatim>\<open>float\<close> is kept abstract: the rasterizer is modelled over any type
  \<open>'f\<close> of float values together with the operations the source applies to them
  (conversion from \<^verbatim>\<open>int\<close>, \<^verbatim>\<open>+\<close>, \<^verbatim>\<open>*\<close>, \<^verbatim>\<open>/\<close>, the constant
  \<^verbatim>\<open>1.0f\<close>, and the casts \<^verbatim>\<open>(int)\<close> and \<^verbatim>\<open>(u16)\<close>). Every theorem that
  quantifies over the operations holds for IEEE single precision as for any other
  arithmetic.
\<close>

record 'f float_ops =
  f_of_int :: "int \<Rightarrow> 'f"
  f_one :: "'f"
  f_add :: "'f \<Rightarrow> 'f \<Rightarrow> 'f"
  f_mul :: "'f \<Rightarrow> 'f \<Rightarrow> 'f"
  f_div :: "'f \<Rightarrow> 'f \<Rightarrow> 'f"
  f_to_int :: "'f \<Rightarrow> int"
  f_to_u16 :: "'f \<Rightarrow> u16"

text \<open>
  \<^verbatim>\<open>DrawingCoords\<close> and \<^verbatim>\<open>VertexData\<close> are declared in headers outside the
  sources at hand. The fields the rasterizer reads are modelled by their values: integer
  screen coordinates and depth (the source casts the coordinates to \<^verbatim>\<open>int\<close> before
  any arithmetic on them), the clip-space \<^verbatim>\<open>w\<close> and the texture coordinates as floats,
  and the four colour channels as integers (the source shifts them).
\<close>

record DrawingCoords =
  pos_x :: int
  pos_y :: int
  pos_z :: int

record 'f VertexData =
  drawpos :: DrawingCoords
  clippos_w :: "'f"
  texturecoords_s :: "'f"
  texturecoords_t :: "'f"
  color0_r :: int
  color0_g :: int
  color0_b :: int
  color0_a :: int

datatype GEComparison =
  GE_COMP_NEVER | GE_COMP_ALWAYS | GE_COMP_EQUAL | GE_COMP_NOTEQUAL
| GE_COMP_LESS | GE_COMP_LEQUAL | GE_COMP_GREATER | GE_COMP_GEQUAL

text \<open>
  The GPU state snapshot \<^verbatim>\<open>gstate\<close>: the registers and accessors that the
  rasterizer reads. The accessors are defined in \<^verbatim>\<open>GPUState.h\<close>, outside the
  sources at hand, so their results are fields of the snapshot.
\<close>

record GPUgstate =
  texformat :: u32
  texaddr :: "int \<Rightarrow> u32"
  texbufwidth :: "int \<Rightarrow> u32"
  texsize :: "int \<Rightarrow> u32"
  clearmode :: u32
  shademodel :: u32
  FrameBufStride :: int
  DepthBufStride :: int
  isModeClear :: bool
  isModeThrough :: bool
  isDepthTestEnabled :: bool
  isDepthWriteEnabled :: bool
  isTextureMapEnabled :: bool
  getDepthTestFunc :: GEComparison
  getScissorX1 :: int
  getScissorY1 :: int
  getScissorX2 :: int
  getScissorY2 :: int

text \<open>
  Memory. \<^verbatim>\<open>fb\<close> is addressed in 32-bit pixels and \<^verbatim>\<open>depthbuf\<close> in 16-bit
  values (the source only accesses them at byte offsets \<^verbatim>\<open>4*(x + y*stride)\<close>
  and \<^verbatim>\<open>2*(x + y*stride)\<close>); emulated memory, from which texels are read, is
  addressed in bytes. \<open>writes\<close> is the trace of the calls to \<^verbatim>\<open>SetPixelColor\<close>
  and \<^verbatim>\<open>SetPixelDepth\<close>, oldest first. The three memories are kept apart: a
  texture that lies in the render target, or colour and depth buffers that overlap, are
  not modelled, and no property below is about a value read after such a write.
\<close>

datatype pixel_write = ColorWrite int int u32 | DepthWrite int int u16

record raster_mem =
  fb :: "int \<Rightarrow> u32"
  depthbuf :: "int \<Rightarrow> u16"
  writes :: "pixel_write list"

type_synonym memory = "int \<Rightarrow> u8"

text \<open>
  Constants of \<^verbatim>\<open>ge_constants.h\<close>, which is outside the sources at hand; the
  values are the PSP's register encodings.
\<close>

definition GE_TFMT_5650 :: u32 where "GE_TFMT_5650 = 0"
definition GE_TFMT_5551 :: u32 where "GE_TFMT_5551 = 1"
definition GE_TFMT_4444 :: u32 where "GE_TFMT_4444 = 2"
definition GE_TFMT_8888 :: u32 where "GE_TFMT_8888 = 3"
definition GE_SHADE_GOURAUD :: u32 where "GE_SHADE_GOURAUD = 1"

subsection \<open>The arithmetic of \<^verbatim>\<open>int\<close>\<close>

text \<open>
  The source's \<^verbatim>\<open>int\<close> has 32 bits. A result of \<^verbatim>\<open>int\<close> arithmetic that may leave
  the range is taken modulo \<open>2\<^sup>3\<^sup>2\<close> into \<open>[-2\<^sup>3\<^sup>1, 2\<^sup>3\<^sup>1)\<close>, which is what the
  two's-complement machine instructions compute (C++ leaves signed overflow undefined).
  This is written out for the differences and products of \<^verbatim>\<open>orient2d\<close>, for the
  products of an attribute and an edge weight in the interpolation, and for the texel
  offset of \<^verbatim>\<open>SampleNearest\<close>. The pixel offsets of the buffer accessors and the
  loop counters of \<^verbatim>\<open>DrawTriangle\<close> are computed on unbounded integers; they stay
  in range for screen coordinates from 0 to below \<open>2\<^sup>1\<^sup>5\<close> and buffer strides up
  to 2048, to which the properties of the accessors and of the loops below are
  restricted.
\<close>

definition int32 :: "int \<Rightarrow> int" where
  "int32 i = (i + 2147483648) mod 4294967296 - 2147483648"

subsection \<open>orient2d\<close>

definition orient2d :: "DrawingCoords \<Rightarrow> DrawingCoords \<Rightarrow> DrawingCoords \<Rightarrow> int" where
  "orient2d v0 v1 v2 =
     int32 (int32 (int32 (pos_x v1 - pos_x v0) * int32 (pos_y v2 - pos_y v0))
            - int32 (int32 (pos_y v1 - pos_y v0) * int32 (pos_x v2 - pos_x v0)))"

subsection \<open>SampleNearest\<close>

text \<open>
  One branch per texture format, in the source's order. Each \<^verbatim>\<open>u8\<close> local is an
  8-bit word; where the source computes on the promoted \<^verbatim>\<open>int\<close> before storing
  into a \<^verbatim>\<open>u8\<close>, the model computes on 32 bits and truncates. \<open>b0\<close> is
  \<^verbatim>\<open>*srcptr\<close> and \<open>b1\<close> is \<^verbatim>\<open>*(srcptr+1)\<close>.
\<close>

definition pack_rgba :: "u8 \<Rightarrow> u8 \<Rightarrow> u8 \<Rightarrow> u8 \<Rightarrow> u32" where
  "pack_rgba r g b a =
     push_bit 24 (ucast r) OR push_bit 16 (ucast g) OR push_bit 8 (ucast b) OR ucast a"

definition decode_4444 :: "u8 \<Rightarrow> u8 \<Rightarrow> u32" where
  "decode_4444 b0 b1 =
     (let r = drop_bit 4 b0;
          g = b0 AND 0xF;
          b = drop_bit 4 b1;
          a = b1 AND 0xF;
          r = push_bit 4 r OR r;
          g = push_bit 4 g OR g;
          b = push_bit 4 b OR b;
          a = push_bit 4 a OR a
      in pack_rgba r g b a)"

definition decode_5551 :: "u8 \<Rightarrow> u8 \<Rightarrow> u32" where
  "decode_5551 b0 b1 =
     (let r = b0 AND 0x1F;
          g = drop_bit 5 (b0 AND 0xE0) OR push_bit 3 (b1 AND 0x3);
          b = (ucast (drop_bit 2 (((ucast b0 :: u32) + 1) AND 0x7C)) :: u8);
          a = drop_bit 7 b1;
          r = push_bit 3 r OR drop_bit 2 r;
          g = push_bit 3 g OR drop_bit 2 g;
          b = push_bit 3 b OR drop_bit 2 b;
          a = (if a \<noteq> 0 then 0xff else 0)
      in pack_rgba r g b a)"

definition decode_5650 :: "u8 \<Rightarrow> u8 \<Rightarrow> u32" where
  "decode_5650 b0 b1 =
     (let r = b0 AND 0x1F;
          g = drop_bit 5 (b0 AND 0xE0) OR push_bit 3 (b1 AND 0x7);
          b = (ucast (drop_bit 3 (((ucast b0 :: u32) + 1) AND 0xF8)) :: u8);
          a = 0xff;
          r = push_bit 3 r OR drop_bit 2 r;
          g = push_bit 2 g OR drop_bit 4 g;
          b = push_bit 3 b OR drop_bit 2 b
      in pack_rgba r g b a)"

text \<open>
  \<^verbatim>\<open>Memory::GetPointer\<close> is outside the sources at hand; the texel bytes are read
  from emulated memory at the byte address \<open>texaddr\<close> plus the source's offset, an
  \<^verbatim>\<open>int\<close>.
  A texture format other than the four handled ones makes the source fall off the end
  of the function without a return value: \<open>None\<close>.
\<close>

definition SampleNearest ::
  "'f float_ops \<Rightarrow> GPUgstate \<Rightarrow> memory \<Rightarrow> int \<Rightarrow> 'f \<Rightarrow> 'f \<Rightarrow> u32 option" where
  "SampleNearest ops gstate mem level s t =
     (let texfmt = texformat gstate AND 0xF;
          taddr = (texaddr gstate level AND 0xFFFFF0)
                    OR (push_bit 8 (texbufwidth gstate level) AND 0x0F000000);
          srcptr = uint taddr;
          width = (2::int) ^ unat (texsize gstate level AND 0xf);
          height = (2::int) ^ unat (drop_bit 8 (texsize gstate level) AND 0xf);
          u = f_to_int ops (f_mul ops s (f_of_int ops width));
          v = f_to_int ops (f_mul ops t (f_of_int ops height))
      in if texfmt = GE_TFMT_4444 then
           (let p = srcptr + int32 (2 * v * width + 2 * u)
            in Some (decode_4444 (mem p) (mem (p + 1))))
         else if texfmt = GE_TFMT_5551 then
           (let p = srcptr + int32 (2 * v * width + 2 * u)
            in Some (decode_5551 (mem p) (mem (p + 1))))
         else if texfmt = GE_TFMT_5650 then
           (let p = srcptr + int32 (2 * v * width + 2 * u)
            in Some (decode_5650 (mem p) (mem (p + 1))))
         else if texfmt = GE_TFMT_8888 then
           (let p = srcptr + int32 (4 * v * width + 4 * u)
            in Some (pack_rgba (mem p) (mem (p + 1)) (mem (p + 2)) (mem (p + 3))))
         else None)"

subsection \<open>Pixel accessors and the depth test\<close>

definition SetPixelColor :: "GPUgstate \<Rightarrow> int \<Rightarrow> int \<Rightarrow> u32 \<Rightarrow> raster_mem \<Rightarrow> raster_mem" where
  "SetPixelColor gstate x y val m =
     m\<lparr>fb := (fb m)(x + y * FrameBufStride gstate := val),
       writes := writes m @ [ColorWrite x y val]\<rparr>"

definition GetPixelDepth :: "GPUgstate \<Rightarrow> int \<Rightarrow> int \<Rightarrow> raster_mem \<Rightarrow> u16" where
  "GetPixelDepth gstate x y m = depthbuf m (x + y * DepthBufStride gstate)"

definition SetPixelDepth :: "GPUgstate \<Rightarrow> int \<Rightarrow> int \<Rightarrow> u16 \<Rightarrow> raster_mem \<Rightarrow> raster_mem" where
  "SetPixelDepth gstate x y val m =
     m\<lparr>depthbuf := (depthbuf m)(x + y * DepthBufStride gstate := val),
       writes := writes m @ [DepthWrite x y val]\<rparr>"

text \<open>
  \<^verbatim>\<open>getDepthTestFunc\<close> decodes a three-bit register field, so the eight cases of
  the source's \<^verbatim>\<open>switch\<close> are all the values there are. The three vertex
  arguments of the source are unused and left out.
\<close>

definition DepthTestPassed :: "GPUgstate \<Rightarrow> int \<Rightarrow> int \<Rightarrow> u16 \<Rightarrow> raster_mem \<Rightarrow> bool" where
  "DepthTestPassed gstate x y z m =
     (let reference_z = GetPixelDepth gstate x y m
      in if isModeClear gstate then True
         else (case getDepthTestFunc gstate of
                 GE_COMP_NEVER \<Rightarrow> False
               | GE_COMP_ALWAYS \<Rightarrow> True
               | GE_COMP_EQUAL \<Rightarrow> z = reference_z
               | GE_COMP_NOTEQUAL \<Rightarrow> z \<noteq> reference_z
               | GE_COMP_LESS \<Rightarrow> z < reference_z
               | GE_COMP_LEQUAL \<Rightarrow> z \<le> reference_z
               | GE_COMP_GREATER \<Rightarrow> z > reference_z
               | GE_COMP_GEQUAL \<Rightarrow> z \<ge> reference_z))"

subsection \<open>DrawTriangle\<close>

text \<open>
  The source writes the perspective-correct interpolation out once per attribute:
  \<^verbatim>\<open>(a0 * w0 / cw0 + a1 * w1 / cw1 + a2 * w2 / cw2) / den\<close>. With an integer
  attribute (depth, colour channel) the product \<^verbatim>\<open>a * w\<close> is a 32-bit \<^verbatim>\<open>int\<close>
  product, converted to float for the division; with a float attribute (texture
  coordinate) the weight is converted first and the product is a float product.
\<close>

definition interp_int ::
  "'f float_ops \<Rightarrow> int \<Rightarrow> int \<Rightarrow> int \<Rightarrow> int \<Rightarrow> int \<Rightarrow> int \<Rightarrow> 'f \<Rightarrow> 'f \<Rightarrow> 'f \<Rightarrow> 'f \<Rightarrow> 'f" where
  "interp_int ops a0 a1 a2 w0 w1 w2 cw0 cw1 cw2 den =
     f_div ops
       (f_add ops
          (f_add ops (f_div ops (f_of_int ops (int32 (a0 * w0))) cw0)
                     (f_div ops (f_of_int ops (int32 (a1 * w1))) cw1))
          (f_div ops (f_of_int ops (int32 (a2 * w2))) cw2))
       den"

definition interp_float ::
  "'f float_ops \<Rightarrow> 'f \<Rightarrow> 'f \<Rightarrow> 'f \<Rightarrow> int \<Rightarrow> int \<Rightarrow> int \<Rightarrow> 'f \<Rightarrow> 'f \<Rightarrow> 'f \<Rightarrow> 'f \<Rightarrow> 'f" where
  "interp_float ops a0 a1 a2 w0 w1 w2 cw0 cw1 cw2 den =
     f_div ops
       (f_add ops
          (f_add ops (f_div ops (f_mul ops a0 (f_of_int ops w0)) cw0)
                     (f_div ops (f_mul ops a1 (f_of_int ops w1)) cw1))
          (f_div ops (f_mul ops a2 (f_of_int ops w2)) cw2))
       den"

definition persp_den :: "'f float_ops \<Rightarrow> int \<Rightarrow> int \<Rightarrow> int \<Rightarrow> 'f \<Rightarrow> 'f \<Rightarrow> 'f \<Rightarrow> 'f" where
  "persp_den ops w0 w1 w2 cw0 cw1 cw2 =
     f_add ops
       (f_add ops (f_mul ops (f_div ops (f_one ops) cw0) (f_of_int ops w0))
                  (f_mul ops (f_div ops (f_one ops) cw1) (f_of_int ops w1)))
       (f_mul ops (f_div ops (f_one ops) cw2) (f_of_int ops w2))"

text \<open>
  In Gouraud mode the four channel values are added in \<^verbatim>\<open>int\<close> arithmetic and the
  sum is stored into the \<^verbatim>\<open>u32\<close> local \<^verbatim>\<open>color\<close>, which keeps it modulo
  \<open>2\<^sup>3\<^sup>2\<close>; so does the flat colour, assembled with shifts.
\<close>

definition base_color ::
  "'f float_ops \<Rightarrow> GPUgstate \<Rightarrow> 'f VertexData \<Rightarrow> 'f VertexData \<Rightarrow> 'f VertexData
     \<Rightarrow> int \<Rightarrow> int \<Rightarrow> int \<Rightarrow> 'f \<Rightarrow> u32" where
  "base_color ops gstate v0 v1 v2 w0 w1 w2 den =
     (let cw0 = clippos_w v0; cw1 = clippos_w v1; cw2 = clippos_w v2
      in if shademodel gstate AND 1 = GE_SHADE_GOURAUD then
           word_of_int
             (f_to_int ops (interp_int ops (color0_r v0) (color0_r v1) (color0_r v2) w0 w1 w2 cw0 cw1 cw2 den)
              + f_to_int ops (interp_int ops (color0_g v0) (color0_g v1) (color0_g v2) w0 w1 w2 cw0 cw1 cw2 den) * 256
              + f_to_int ops (interp_int ops (color0_b v0) (color0_b v1) (color0_b v2) w0 w1 w2 cw0 cw1 cw2 den) * 256 * 256
              + f_to_int ops (interp_int ops (color0_a v0) (color0_a v1) (color0_a v2) w0 w1 w2 cw0 cw1 cw2 den) * 256 * 256 * 256)
         else
           word_of_int
             (color0_r v2 OR push_bit 8 (color0_g v2) OR push_bit 16 (color0_b v2)
                OR push_bit 24 (color0_a v2)))"

text \<open>
  The body of the two loops, for the pixel \<open>(x, y)\<close>, in three parts.
  \<open>pixel_color\<close> is the final value of the local \<^verbatim>\<open>color\<close>: the base colour,
  with the texture sample combined into it by the source's \<^verbatim>\<open>|=\<close> when texture
  mapping is enabled outside clear mode; it is \<open>None\<close> when \<^verbatim>\<open>SampleNearest\<close>
  has no return value. \<open>shade_pixel\<close> is the part of the body after the depth test,
  ending in \<^verbatim>\<open>SetPixelColor\<close>. \<open>DrawPixel\<close> is the whole body; the source's
  \<^verbatim>\<open>continue\<close> after a failed depth test returns the memory as it is.
\<close>

definition pixel_color ::
  "'f float_ops \<Rightarrow> GPUgstate \<Rightarrow> memory \<Rightarrow> 'f VertexData \<Rightarrow> 'f VertexData \<Rightarrow> 'f VertexData
     \<Rightarrow> int \<Rightarrow> int \<Rightarrow> int \<Rightarrow> 'f \<Rightarrow> u32 option" where
  "pixel_color ops gstate mem v0 v1 v2 w0 w1 w2 den =
     (let cw0 = clippos_w v0; cw1 = clippos_w v1; cw2 = clippos_w v2;
          s = interp_float ops (texturecoords_s v0) (texturecoords_s v1) (texturecoords_s v2)
                w0 w1 w2 cw0 cw1 cw2 den;
          t = interp_float ops (texturecoords_t v0) (texturecoords_t v1) (texturecoords_t v2)
                w0 w1 w2 cw0 cw1 cw2 den;
          color = base_color ops gstate v0 v1 v2 w0 w1 w2 den
      in if isTextureMapEnabled gstate \<and> \<not> isModeClear gstate then
           (case SampleNearest ops gstate mem 0 s t of
              None \<Rightarrow> None
            | Some tex \<Rightarrow> Some (color OR tex))
         else Some color)"

definition shade_pixel ::
  "'f float_ops \<Rightarrow> GPUgstate \<Rightarrow> memory \<Rightarrow> 'f VertexData \<Rightarrow> 'f VertexData \<Rightarrow> 'f VertexData
     \<Rightarrow> int \<Rightarrow> int \<Rightarrow> int \<Rightarrow> int \<Rightarrow> int \<Rightarrow> 'f \<Rightarrow> raster_mem \<Rightarrow> raster_mem option" where
  "shade_pixel ops gstate mem v0 v1 v2 x y w0 w1 w2 den m =
     (case pixel_color ops gstate mem v0 v1 v2 w0 w1 w2 den of
        None \<Rightarrow> None
      | Some color \<Rightarrow> Some (SetPixelColor gstate x y color m))"

definition DrawPixel ::
  "'f float_ops \<Rightarrow> GPUgstate \<Rightarrow> memory \<Rightarrow> 'f VertexData \<Rightarrow> 'f VertexData \<Rightarrow> 'f VertexData
     \<Rightarrow> int \<Rightarrow> int \<Rightarrow> raster_mem \<Rightarrow> raster_mem option" where
  "DrawPixel ops gstate mem v0 v1 v2 x y m =
     (let p = \<lparr>pos_x = x, pos_y = y, pos_z = 0\<rparr>;
          w0 = orient2d (drawpos v1) (drawpos v2) p;
          w1 = orient2d (drawpos v2) (drawpos v0) p;
          w2 = orient2d (drawpos v0) (drawpos v1) p
      in if w0 \<ge> 0 \<and> w1 \<ge> 0 \<and> w2 \<ge> 0 then
           (let den = persp_den ops w0 w1 w2 (clippos_w v0) (clippos_w v1) (clippos_w v2)
            in if (isDepthTestEnabled gstate \<and> \<not> isModeThrough gstate) \<or> isModeClear gstate then
                 (let z = f_to_u16 ops
                            (interp_int ops (pos_z (drawpos v0)) (pos_z (drawpos v1)) (pos_z (drawpos v2))
                               w0 w1 w2 (clippos_w v0) (clippos_w v1) (clippos_w v2) den)
                  in if \<not> DepthTestPassed gstate x y z m then Some m
                     else if isDepthWriteEnabled gstate \<or> clearmode gstate AND 0x40 \<noteq> 0 then
                       shade_pixel ops gstate mem v0 v1 v2 x y w0 w1 w2 den (SetPixelDepth gstate x y z m)
                     else shade_pixel ops gstate mem v0 v1 v2 x y w0 w1 w2 den m)
               else shade_pixel ops gstate mem v0 v1 v2 x y w0 w1 w2 den m)
         else Some m)"

text \<open>The inner loop over \<^verbatim>\<open>p.x\<close> and the outer loop over \<^verbatim>\<open>p.y\<close>.\<close>

function DrawTriangle_row ::
  "'f float_ops \<Rightarrow> GPUgstate \<Rightarrow> memory \<Rightarrow> 'f VertexData \<Rightarrow> 'f VertexData \<Rightarrow> 'f VertexData
     \<Rightarrow> int \<Rightarrow> int \<Rightarrow> int \<Rightarrow> raster_mem \<Rightarrow> raster_mem option" where
  "DrawTriangle_row ops gstate mem v0 v1 v2 maxX y x m =
     (if x \<le> maxX then
        (case DrawPixel ops gstate mem v0 v1 v2 x y m of
           None \<Rightarrow> None
         | Some m' \<Rightarrow> DrawTriangle_row ops gstate mem v0 v1 v2 maxX y (x + 1) m')
      else Some m)"
  by pat_completeness auto
termination
  by (relation "measure (\<lambda>(ops, gstate, mem, v0, v1, v2, maxX, y, x, m). nat (maxX + 1 - x))") auto

declare DrawTriangle_row.simps [simp del]

function DrawTriangle_rows ::
  "'f float_ops \<Rightarrow> GPUgstate \<Rightarrow> memory \<Rightarrow> 'f VertexData \<Rightarrow> 'f VertexData \<Rightarrow> 'f VertexData
     \<Rightarrow> int \<Rightarrow> int \<Rightarrow> int \<Rightarrow> int \<Rightarrow> raster_mem \<Rightarrow> raster_mem option" where
  "DrawTriangle_rows ops gstate mem v0 v1 v2 minX maxX maxY y m =
     (if y \<le> maxY then
        (case DrawTriangle_row ops gstate mem v0 v1 v2 maxX y minX m of
           None \<Rightarrow> None
         | Some m' \<Rightarrow> DrawTriangle_rows ops gstate mem v0 v1 v2 minX maxX maxY (y + 1) m')
      else Some m)"
  by pat_completeness auto
termination
  by (relation "measure (\<lambda>(ops, gstate, mem, v0, v1, v2, minX, maxX, maxY, y, m). nat (maxY + 1 - y))") auto

declare DrawTriangle_rows.simps [simp del]

definition tri_minX :: "GPUgstate \<Rightarrow> 'f VertexData \<Rightarrow> 'f VertexData \<Rightarrow> 'f VertexData \<Rightarrow> int" where
  "tri_minX gstate v0 v1 v2 =
     max (min (min (pos_x (drawpos v0)) (pos_x (drawpos v1))) (pos_x (drawpos v2))) (getScissorX1 gstate)"

definition tri_maxX :: "GPUgstate \<Rightarrow> 'f VertexData \<Rightarrow> 'f VertexData \<Rightarrow> 'f VertexData \<Rightarrow> int" where
  "tri_maxX gstate v0 v1 v2 =
     min (max (max (pos_x (drawpos v0)) (pos_x (drawpos v1))) (pos_x (drawpos v2))) (getScissorX2 gstate)"

definition tri_minY :: "GPUgstate \<Rightarrow> 'f VertexData \<Rightarrow> 'f VertexData \<Rightarrow> 'f VertexData \<Rightarrow> int" where
  "tri_minY gstate v0 v1 v2 =
     max (min (min (pos_y (drawpos v0)) (pos_y (drawpos v1))) (pos_y (drawpos v2))) (getScissorY1 gstate)"

definition tri_maxY :: "GPUgstate \<Rightarrow> 'f VertexData \<Rightarrow> 'f VertexData \<Rightarrow> 'f VertexData \<Rightarrow> int" where
  "tri_maxY gstate v0 v1 v2 =
     min (max (max (pos_y (drawpos v0)) (pos_y (drawpos v1))) (pos_y (drawpos v2))) (getScissorY2 gstate)"

definition DrawTriangle ::
  "'f float_ops \<Rightarrow> GPUgstate \<Rightarrow> memory \<Rightarrow> 'f VertexData \<Rightarrow> 'f VertexData \<Rightarrow> 'f VertexData
     \<Rightarrow> raster_mem \<Rightarrow> raster_mem option" where
  "DrawTriangle ops gstate mem v0 v1 v2 m =
     DrawTriangle_rows ops gstate mem v0 v1 v2
       (tri_minX gstate v0 v1 v2) (tri_maxX gstate v0 v1 v2) (tri_maxY gstate v0 v1 v2)
       (tri_minY gstate v0 v1 v2) m"

section \<open>Draw engine (GPU/Vulkan/DrawEngineVulkan.cpp)\<close>

subsection \<open>Data\<close>

text \<open>
  The primitive kinds with their numeric values, which the source compares
  (\<^verbatim>\<open>prim > 0\<close>, \<^verbatim>\<open>prim > 2\<close>); the values 0 to 6 are the positions in the
  source's topology table \<^verbatim>\<open>prim[8]\<close>.
\<close>

datatype GEPrimitiveType =
  GE_PRIM_POINTS | GE_PRIM_LINES | GE_PRIM_LINE_STRIP | GE_PRIM_TRIANGLES
| GE_PRIM_TRIANGLE_STRIP | GE_PRIM_TRIANGLE_FAN | GE_PRIM_RECTANGLES
| GE_PRIM_KEEP_PREVIOUS | GE_PRIM_INVALID

fun prim_value :: "GEPrimitiveType \<Rightarrow> int" where
  "prim_value GE_PRIM_POINTS = 0"
| "prim_value GE_PRIM_LINES = 1"
| "prim_value GE_PRIM_LINE_STRIP = 2"
| "prim_value GE_PRIM_TRIANGLES = 3"
| "prim_value GE_PRIM_TRIANGLE_STRIP = 4"
| "prim_value GE_PRIM_TRIANGLE_FAN = 5"
| "prim_value GE_PRIM_RECTANGLES = 6"
| "prim_value GE_PRIM_KEEP_PREVIOUS = 7"
| "prim_value GE_PRIM_INVALID = - 1"

definition GE_VTYPE_WEIGHT_MASK :: u32 where "GE_VTYPE_WEIGHT_MASK = push_bit 9 3"
definition GE_VTYPE_IDX_NONE :: u32 where "GE_VTYPE_IDX_NONE = push_bit 11 0"
definition GE_VTYPE_IDX_8BIT :: u32 where "GE_VTYPE_IDX_8BIT = push_bit 11 1"
definition GE_VTYPE_IDX_16BIT :: u32 where "GE_VTYPE_IDX_16BIT = push_bit 11 2"
definition GE_VTYPE_IDX_MASK :: u32 where "GE_VTYPE_IDX_MASK = push_bit 11 3"
definition GE_VTYPE_IDX_SHIFT :: nat where "GE_VTYPE_IDX_SHIFT = 11"

text \<open>
  \<^verbatim>\<open>DeferredDrawCall\<close>. Pointers are addresses, 0 for the null pointer. The struct
  is declared in the header, outside the sources at hand; the index bounds, which the
  source casts to \<^verbatim>\<open>int\<close> where it reads them, are integers, and so are the
  counters of the engine (the source's \<^verbatim>\<open>int\<close>, without overflow).
\<close>

record DeferredDrawCall =
  dc_verts :: int
  dc_inds :: int
  dc_vertType :: u32
  dc_indexType :: u32
  dc_prim :: GEPrimitiveType
  dc_vertexCount :: int
  dc_indexLowerBound :: int
  dc_indexUpperBound :: int

text \<open>
  The collaborators outside this file are modelled by what the engine asks of them.
  A vertex decoder is the vertex type it was set up with
  (\<^verbatim>\<open>dec->SetVertexType(vtype, ...)\<close>). The index generator and the decoder's
  \<^verbatim>\<open>DecodeVerts\<close> are kept as the traces of the calls made to them, oldest first:
  \<^verbatim>\<open>TranslatePrim\<close> with the index width in bits of the overload that the source
  selects, \<^verbatim>\<open>DecodeVerts\<close> with the decoder called, the number of the first decoded
  vertex written (\<^verbatim>\<open>decodedVerts_\<close>), the source vertex data and the index range.
\<close>

datatype VertexDecoder = VertexDecoder u32

datatype indexgen_call =
  IG_SetIndex int
| IG_AddPrim GEPrimitiveType int
| IG_TranslatePrim GEPrimitiveType int nat int int
| IG_Advance int
| IG_Reset

datatype decode_call = DecodeVertsCall "VertexDecoder option" int int int int

text \<open>
  The members of \<^verbatim>\<open>DrawEngineVulkan\<close> that the modelled functions read or write
  (a member \<^verbatim>\<open>name_\<close> of the source is the field \<open>name\<close>). \<open>drawCalls\<close> is the
  array of deferred calls, which keeps the entries of earlier batches until they are
  overwritten.
\<close>

record DrawEngine =
  decodedVerts :: int
  prevPrim :: GEPrimitiveType
  lastVType :: u32
  numDrawCalls :: int
  vertexCountInDrawCalls :: int
  decodeCounter :: int
  dcid :: u32
  dec :: "VertexDecoder option"
  decoderMap :: "u32 \<rightharpoonup> VertexDecoder"
  drawCalls :: "int \<Rightarrow> DeferredDrawCall"
  indexGen :: "indexgen_call list"
  decoded :: "decode_call list"

text \<open>
  The two capacity constants, defined in headers outside the sources at hand, are
  parameters.
\<close>

record limits =
  MAX_DEFERRED_DRAW_CALLS :: int
  VERTEX_BUFFER_MAX :: int

text \<open>
  What a call reads from outside the engine: the functions of the index generator, the
  vertex decoder and \<^verbatim>\<open>GetIndexBounds\<close> that return a value, the GPU state and the
  configuration. All are outside the sources at hand and are parameters.
\<close>

record environment =
  PrimCompatible :: "GEPrimitiveType \<Rightarrow> GEPrimitiveType \<Rightarrow> bool"
  indexGen_Prim :: "indexgen_call list \<Rightarrow> int"
  VertexSize :: "VertexDecoder \<Rightarrow> int"
  GetIndexBounds :: "int \<Rightarrow> int \<Rightarrow> u32 \<Rightarrow> int \<times> int"
  getUVGenMode :: u32
  getTextureAddress0 :: u32
  getFrameBufAddress :: u32
  bSoftwareSkinning :: bool
  bDisableSlowFramebufEffects :: bool

subsection \<open>The vertex decoder in use\<close>

definition GetVertexDecoder :: "u32 \<Rightarrow> DrawEngine \<Rightarrow> VertexDecoder \<times> DrawEngine" where
  "GetVertexDecoder vtype s =
     (case decoderMap s vtype of
        Some d \<Rightarrow> (d, s)
      | None \<Rightarrow> (VertexDecoder vtype, s\<lparr>decoderMap := (decoderMap s)(vtype \<mapsto> VertexDecoder vtype)\<rparr>))"

definition SetupVertexDecoderInternal :: "environment \<Rightarrow> u32 \<Rightarrow> DrawEngine \<Rightarrow> DrawEngine" where
  "SetupVertexDecoderInternal env vertType s =
     (let vertTypeID = (vertType AND 0xFFFFFF) OR push_bit 24 (getUVGenMode env)
      in if vertTypeID \<noteq> lastVType s then
           (case GetVertexDecoder vertTypeID s of
              (d, s') \<Rightarrow> s'\<lparr>dec := Some d, lastVType := vertTypeID\<rparr>)
         else s)"

subsection \<open>DecodeVertsStep\<close>

text \<open>
  Step 1 of the indexed path, the look-ahead loop from \<open>j\<close>: it returns the widened
  bounds and \<^verbatim>\<open>lastMatch\<close>.
\<close>

function merge_scan ::
  "(int \<Rightarrow> DeferredDrawCall) \<Rightarrow> int \<Rightarrow> int \<Rightarrow> int \<Rightarrow> int \<Rightarrow> int \<Rightarrow> int \<Rightarrow> int \<times> int \<times> int" where
  "merge_scan dcs totalCalls v j lo hi lastMatch =
     (if j < totalCalls then
        (if dc_verts (dcs j) \<noteq> v then (lo, hi, lastMatch)
         else merge_scan dcs totalCalls v (j + 1)
                (min lo (dc_indexLowerBound (dcs j))) (max hi (dc_indexUpperBound (dcs j))) j)
      else (lo, hi, lastMatch))"
  by pat_completeness auto
termination
  by (relation "measure (\<lambda>(dcs, totalCalls, v, j, lo, hi, lastMatch). nat (totalCalls - j))") auto

declare merge_scan.simps [simp del]

text \<open>
  Step 2, one of the two translation loops from \<open>j\<close> to \<^verbatim>\<open>lastMatch\<close>, for the
  index width \<open>bits\<close>: the calls to \<^verbatim>\<open>TranslatePrim\<close> that it makes.
\<close>

function translate_loop ::
  "(int \<Rightarrow> DeferredDrawCall) \<Rightarrow> nat \<Rightarrow> int \<Rightarrow> int \<Rightarrow> int \<Rightarrow> indexgen_call list" where
  "translate_loop dcs bits indexLowerBound lastMatch j =
     (if j \<le> lastMatch then
        IG_TranslatePrim (dc_prim (dcs j)) (dc_vertexCount (dcs j)) bits (dc_inds (dcs j))
          indexLowerBound
        # translate_loop dcs bits indexLowerBound lastMatch (j + 1)
      else [])"
  by pat_completeness auto
termination
  by (relation "measure (\<lambda>(dcs, bits, indexLowerBound, lastMatch, j). nat (lastMatch + 1 - j))") auto

declare translate_loop.simps [simp del]

text \<open>
  \<^verbatim>\<open>DecodeVertsStep\<close>, in the source's order. \<open>DecodeVertsStep_plain\<close> is the
  branch of a call without indices. In the indexed branch, \<open>translate_switch\<close> is
  step 2 (the \<^verbatim>\<open>switch\<close> on the index type of the call at the cursor, with no case
  for a type other than 8 or 16 bits), and \<open>decode_merged\<close> is the overflow check
  with its early \<^verbatim>\<open>return\<close>, followed by steps 3 and 4.
\<close>

definition DecodeVertsStep_plain :: "DeferredDrawCall \<Rightarrow> DrawEngine \<Rightarrow> DrawEngine" where
  "DecodeVertsStep_plain dc s =
     s\<lparr>decoded := decoded s
            @ [DecodeVertsCall (dec s) (decodedVerts s) (dc_verts dc)
                 (dc_indexLowerBound dc) (dc_indexUpperBound dc)],
       decodedVerts := decodedVerts s + (dc_indexUpperBound dc - dc_indexLowerBound dc + 1),
       indexGen := indexGen s @ [IG_AddPrim (dc_prim dc) (dc_vertexCount dc)]\<rparr>"

definition translate_switch :: "u32 \<Rightarrow> int \<Rightarrow> int \<Rightarrow> int \<Rightarrow> DrawEngine \<Rightarrow> DrawEngine" where
  "translate_switch indexType indexLowerBound lastMatch i s =
     (if indexType = drop_bit GE_VTYPE_IDX_SHIFT GE_VTYPE_IDX_8BIT then
        s\<lparr>indexGen := indexGen s @ translate_loop (drawCalls s) 8 indexLowerBound lastMatch i\<rparr>
      else if indexType = drop_bit GE_VTYPE_IDX_SHIFT GE_VTYPE_IDX_16BIT then
        s\<lparr>indexGen := indexGen s @ translate_loop (drawCalls s) 16 indexLowerBound lastMatch i\<rparr>
      else s)"

definition decode_merged :: "limits \<Rightarrow> int \<Rightarrow> int \<Rightarrow> int \<Rightarrow> int \<Rightarrow> DrawEngine \<Rightarrow> DrawEngine" where
  "decode_merged lims verts indexLowerBound indexUpperBound lastMatch s =
     (let vertexCount = indexUpperBound - indexLowerBound + 1
      in if decodedVerts s + vertexCount > VERTEX_BUFFER_MAX lims then s
         else
           s\<lparr>decoded := decoded s
                  @ [DecodeVertsCall (dec s) (decodedVerts s) verts indexLowerBound indexUpperBound],
             decodedVerts := decodedVerts s + vertexCount,
             indexGen := indexGen s @ [IG_Advance vertexCount],
             decodeCounter := lastMatch\<rparr>)"

definition DecodeVertsStep_indexed :: "limits \<Rightarrow> DeferredDrawCall \<Rightarrow> DrawEngine \<Rightarrow> DrawEngine" where
  "DecodeVertsStep_indexed lims dc s =
     (case merge_scan (drawCalls s) (numDrawCalls s) (dc_verts dc) (decodeCounter s + 1)
             (dc_indexLowerBound dc) (dc_indexUpperBound dc) (decodeCounter s) of
        (indexLowerBound, indexUpperBound, lastMatch) \<Rightarrow>
          decode_merged lims (dc_verts dc) indexLowerBound indexUpperBound lastMatch
            (translate_switch (dc_indexType dc) indexLowerBound lastMatch (decodeCounter s) s))"

definition DecodeVertsStep :: "limits \<Rightarrow> DrawEngine \<Rightarrow> DrawEngine" where
  "DecodeVertsStep lims s0 =
     (let dc = drawCalls s0 (decodeCounter s0);
          s = s0\<lparr>indexGen := indexGen s0 @ [IG_SetIndex (decodedVerts s0)]\<rparr>
      in if dc_indexType dc = drop_bit GE_VTYPE_IDX_SHIFT GE_VTYPE_IDX_NONE
         then DecodeVertsStep_plain dc s
         else DecodeVertsStep_indexed lims dc s)"

subsection \<open>DecodeVerts\<close>

lemma merge_scan_lastMatch:
  "merge_scan dcs totalCalls v j lo hi lastMatch = (lo', hi', lastMatch') \<Longrightarrow> lastMatch \<le> j
     \<Longrightarrow> lastMatch \<le> lastMatch'"
proof (induction dcs totalCalls v j lo hi lastMatch rule: merge_scan.induct)
  case (1 dcs totalCalls v j lo hi lastMatch)
  show ?case
  proof (cases "j < totalCalls \<and> dc_verts (dcs j) = v")
    case True
    with "1.prems"(1) have
      "merge_scan dcs totalCalls v (j + 1) (min lo (dc_indexLowerBound (dcs j)))
         (max hi (dc_indexUpperBound (dcs j))) j = (lo', hi', lastMatch')"
      by (subst (asm) merge_scan.simps) simp
    with True "1.IH" have "j \<le> lastMatch'" by simp
    with "1.prems"(2) show ?thesis by simp
  next
    case False
    with "1.prems"(1) have "lastMatch' = lastMatch"
      by (subst (asm) merge_scan.simps) (auto split: if_splits)
    then show ?thesis by simp
  qed
qed

lemma translate_switch_fields [simp]:
  "numDrawCalls (translate_switch t lo lm i s) = numDrawCalls s"
  "vertexCountInDrawCalls (translate_switch t lo lm i s) = vertexCountInDrawCalls s"
  "decodeCounter (translate_switch t lo lm i s) = decodeCounter s"
  "decodedVerts (translate_switch t lo lm i s) = decodedVerts s"
  "decoded (translate_switch t lo lm i s) = decoded s"
  "drawCalls (translate_switch t lo lm i s) = drawCalls s"
  "dec (translate_switch t lo lm i s) = dec s"
  "lastVType (translate_switch t lo lm i s) = lastVType s"
  "decoderMap (translate_switch t lo lm i s) = decoderMap s"
  "prevPrim (translate_switch t lo lm i s) = prevPrim s"
  by (simp_all add: translate_switch_def)

lemma decode_merged_fields [simp]:
  "numDrawCalls (decode_merged lims v lo hi lm s) = numDrawCalls s"
  "vertexCountInDrawCalls (decode_merged lims v lo hi lm s) = vertexCountInDrawCalls s"
  "drawCalls (decode_merged lims v lo hi lm s) = drawCalls s"
  "dec (decode_merged lims v lo hi lm s) = dec s"
  "lastVType (decode_merged lims v lo hi lm s) = lastVType s"
  "decoderMap (decode_merged lims v lo hi lm s) = decoderMap s"
  "prevPrim (decode_merged lims v lo hi lm s) = prevPrim s"
  by (simp_all add: decode_merged_def Let_def)

lemma DecodeVertsStep_plain_fields [simp]:
  "numDrawCalls (DecodeVertsStep_plain dc s) = numDrawCalls s"
  "vertexCountInDrawCalls (DecodeVertsStep_plain dc s) = vertexCountInDrawCalls s"
  "decodeCounter (DecodeVertsStep_plain dc s) = decodeCounter s"
  "drawCalls (DecodeVertsStep_plain dc s) = drawCalls s"
  "dec (DecodeVertsStep_plain dc s) = dec s"
  "lastVType (DecodeVertsStep_plain dc s) = lastVType s"
  "decoderMap (DecodeVertsStep_plain dc s) = decoderMap s"
  "prevPrim (DecodeVertsStep_plain dc s) = prevPrim s"
  by (simp_all add: DecodeVertsStep_plain_def)

lemma DecodeVertsStep_indexed_fields [simp]:
  "numDrawCalls (DecodeVertsStep_indexed lims dc s) = numDrawCalls s"
  "vertexCountInDrawCalls (DecodeVertsStep_indexed lims dc s) = vertexCountInDrawCalls s"
  "drawCalls (DecodeVertsStep_indexed lims dc s) = drawCalls s"
  "dec (DecodeVertsStep_indexed lims dc s) = dec s"
  "lastVType (DecodeVertsStep_indexed lims dc s) = lastVType s"
  "decoderMap (DecodeVertsStep_indexed lims dc s) = decoderMap s"
  "prevPrim (DecodeVertsStep_indexed lims dc s) = prevPrim s"
  by (simp_all add: DecodeVertsStep_indexed_def split: prod.splits)

lemma DecodeVertsStep_fields [simp]:
  "numDrawCalls (DecodeVertsStep lims s) = numDrawCalls s"
  "vertexCountInDrawCalls (DecodeVertsStep lims s) = vertexCountInDrawCalls s"
  "drawCalls (DecodeVertsStep lims s) = drawCalls s"
  "dec (DecodeVertsStep lims s) = dec s"
  "lastVType (DecodeVertsStep lims s) = lastVType s"
  "decoderMap (DecodeVertsStep lims s) = decoderMap s"
  "prevPrim (DecodeVertsStep lims s) = prevPrim s"
  by (simp_all add: DecodeVertsStep_def Let_def)

lemma decode_merged_decodeCounter:
  "decodeCounter s \<le> lm \<Longrightarrow> decodeCounter s \<le> decodeCounter (decode_merged lims v lo hi lm s)"
  by (simp add: decode_merged_def Let_def)

lemma DecodeVertsStep_indexed_decodeCounter:
  "decodeCounter s \<le> decodeCounter (DecodeVertsStep_indexed lims dc s)"
proof -
  obtain lo hi lm where
    m: "merge_scan (drawCalls s) (numDrawCalls s) (dc_verts dc) (decodeCounter s + 1)
          (dc_indexLowerBound dc) (dc_indexUpperBound dc) (decodeCounter s) = (lo, hi, lm)"
    by (cases "merge_scan (drawCalls s) (numDrawCalls s) (dc_verts dc) (decodeCounter s + 1)
          (dc_indexLowerBound dc) (dc_indexUpperBound dc) (decodeCounter s)") auto
  then have "decodeCounter s \<le> lm"
    by (rule merge_scan_lastMatch) simp
  then have "decodeCounter (translate_switch (dc_indexType dc) lo lm (decodeCounter s) s) \<le> lm"
    by simp
  then show ?thesis
    using decode_merged_decodeCounter[of "translate_switch (dc_indexType dc) lo lm (decodeCounter s) s" lm]
    by (simp add: DecodeVertsStep_indexed_def m)
qed

lemma DecodeVertsStep_decodeCounter:
  "decodeCounter s \<le> decodeCounter (DecodeVertsStep lims s)"
  using DecodeVertsStep_indexed_decodeCounter
          [of "s\<lparr>indexGen := indexGen s @ [IG_SetIndex (decodedVerts s)]\<rparr>"]
  by (simp add: DecodeVertsStep_def Let_def)

text \<open>The loop of \<^verbatim>\<open>DecodeVerts\<close>, and \<^verbatim>\<open>DecodeVerts\<close> with its sanity check.\<close>

function DecodeVerts_loop :: "limits \<Rightarrow> DrawEngine \<Rightarrow> DrawEngine" where
  "DecodeVerts_loop lims s =
     (if decodeCounter s < numDrawCalls s then
        DecodeVerts_loop lims
          ((DecodeVertsStep lims s)\<lparr>decodeCounter := decodeCounter (DecodeVertsStep lims s) + 1\<rparr>)
      else s)"
  by pat_completeness auto
termination
proof (relation "measure (\<lambda>(lims, s). nat (numDrawCalls s - decodeCounter s))")
  show "wf (measure (\<lambda>(lims, s). nat (numDrawCalls s - decodeCounter s)))"
    by simp
next
  fix lims :: limits and s :: DrawEngine
  assume "decodeCounter s < numDrawCalls s"
  then show "((lims, (DecodeVertsStep lims s)\<lparr>decodeCounter := decodeCounter (DecodeVertsStep lims s) + 1\<rparr>),
              (lims, s)) \<in> measure (\<lambda>(lims, s). nat (numDrawCalls s - decodeCounter s))"
    using DecodeVertsStep_decodeCounter[of s lims] by simp
qed

declare DecodeVerts_loop.simps [simp del]

definition DecodeVerts :: "limits \<Rightarrow> environment \<Rightarrow> DrawEngine \<Rightarrow> DrawEngine" where
  "DecodeVerts lims env s0 =
     (let s = DecodeVerts_loop lims s0
      in if indexGen_Prim env (indexGen s) < 0
         then s\<lparr>indexGen := indexGen s @ [IG_AddPrim GE_PRIM_POINTS 0]\<rparr>
         else s)"

subsection \<open>Flush\<close>

text \<open>
  \<^verbatim>\<open>DoFlush\<close>, as far as the engine's own state goes: both of its branches (hardware
  and software transform) call \<^verbatim>\<open>DecodeVerts\<close>, and the function ends by resetting
  the batch. The shader selection, the commands issued to the host, the statistics and
  the writes to \<^verbatim>\<open>gstate_c\<close> in between are outside the engine's state and are not
  modelled.
\<close>

definition DoFlush :: "limits \<Rightarrow> environment \<Rightarrow> DrawEngine \<Rightarrow> DrawEngine" where
  "DoFlush lims env s0 =
     (let s = DecodeVerts lims env s0
      in s\<lparr>indexGen := indexGen s @ [IG_Reset],
           decodedVerts := 0,
           numDrawCalls := 0,
           vertexCountInDrawCalls := 0,
           decodeCounter := 0,
           dcid := 0,
           prevPrim := GE_PRIM_INVALID\<rparr>)"

text \<open>
  Modelled from the spec: \<^verbatim>\<open>Flush\<close> is the inline wrapper of the header, outside the
  sources at hand: ``no-op if zero draw calls are pending''. The source's comment on
  \<^verbatim>\<open>DoFlush\<close> says the same: ``The inline wrapper in the header checks for
  numDrawCalls == 0''.
\<close>

definition Flush :: "limits \<Rightarrow> environment \<Rightarrow> DrawEngine \<Rightarrow> DrawEngine" where
  "Flush lims env s = (if numDrawCalls s = 0 then s else DoFlush lims env s)"

subsection \<open>SubmitPrim\<close>

definition rotl13 :: "u32 \<Rightarrow> u32" where
  "rotl13 w = word_rotl 13 w"

definition dcid_mix :: "u32 \<Rightarrow> int \<Rightarrow> int \<Rightarrow> u32 \<Rightarrow> int \<Rightarrow> GEPrimitiveType \<Rightarrow> u32" where
  "dcid_mix dhash verts inds vertType vertexCount prim =
     (let dhash = rotl13 (dhash XOR word_of_int verts);
          dhash = rotl13 (dhash XOR word_of_int inds);
          dhash = rotl13 (dhash XOR vertType);
          dhash = rotl13 (dhash XOR word_of_int vertexCount)
      in dhash XOR word_of_int (prim_value prim))"

text \<open>
  \<^verbatim>\<open>SubmitPrim\<close>, in the source's order and in stages: the flush before the call
  is taken up (\<open>flush_before\<close>), the primitive kind that the call stands for
  (\<open>resolve_prim\<close>) and the update of \<^verbatim>\<open>prevPrim_\<close> (\<open>note_prim\<close>), the test
  that rejects the call (\<open>below_minimum\<close>), the new entry of \<^verbatim>\<open>drawCalls\<close> with
  the hash and the counters (\<open>append_call\<close>), the eager decoding under software
  skinning (\<open>skinning_decode\<close>), and the flush of a rectangle that samples the
  render target (\<open>flush_after\<close>).
\<close>

definition flush_before ::
  "limits \<Rightarrow> environment \<Rightarrow> GEPrimitiveType \<Rightarrow> int \<Rightarrow> DrawEngine \<Rightarrow> DrawEngine" where
  "flush_before lims env prim vertexCount s =
     (if \<not> PrimCompatible env (prevPrim s) prim
         \<or> numDrawCalls s \<ge> MAX_DEFERRED_DRAW_CALLS lims
         \<or> vertexCountInDrawCalls s + vertexCount > VERTEX_BUFFER_MAX lims
      then Flush lims env s else s)"

definition resolve_prim :: "GEPrimitiveType \<Rightarrow> DrawEngine \<Rightarrow> GEPrimitiveType" where
  "resolve_prim prim s =
     (if prim = GE_PRIM_KEEP_PREVIOUS
      then (if prevPrim s \<noteq> GE_PRIM_INVALID then prevPrim s else GE_PRIM_POINTS)
      else prim)"

definition note_prim :: "GEPrimitiveType \<Rightarrow> DrawEngine \<Rightarrow> DrawEngine" where
  "note_prim prim s = (if prim = GE_PRIM_KEEP_PREVIOUS then s else s\<lparr>prevPrim := prim\<rparr>)"

definition below_minimum :: "int \<Rightarrow> GEPrimitiveType \<Rightarrow> bool" where
  "below_minimum vertexCount prim =
     ((vertexCount < 2 \<and> prim_value prim > 0)
      \<or> (vertexCount < 3 \<and> prim_value prim > 2 \<and> prim \<noteq> GE_PRIM_RECTANGLES))"

definition append_call ::
  "environment \<Rightarrow> int \<Rightarrow> int \<Rightarrow> GEPrimitiveType \<Rightarrow> int \<Rightarrow> u32 \<Rightarrow> DrawEngine \<Rightarrow> DrawEngine" where
  "append_call env verts inds prim vertexCount vertType s =
     (let bounds = (if inds \<noteq> 0 then GetIndexBounds env inds vertexCount vertType
                    else (0, vertexCount - 1));
          dc = \<lparr>dc_verts = verts, dc_inds = inds, dc_vertType = vertType,
                dc_indexType = drop_bit GE_VTYPE_IDX_SHIFT (vertType AND GE_VTYPE_IDX_MASK),
                dc_prim = prim, dc_vertexCount = vertexCount,
                dc_indexLowerBound = fst bounds, dc_indexUpperBound = snd bounds\<rparr>
      in s\<lparr>drawCalls := (drawCalls s)(numDrawCalls s := dc),
           dcid := dcid_mix (dcid s) verts inds vertType vertexCount prim,
           numDrawCalls := numDrawCalls s + 1,
           vertexCountInDrawCalls := vertexCountInDrawCalls s + vertexCount\<rparr>)"

definition skinning_decode :: "limits \<Rightarrow> environment \<Rightarrow> u32 \<Rightarrow> DrawEngine \<Rightarrow> DrawEngine" where
  "skinning_decode lims env vertType s =
     (if bSoftwareSkinning env \<and> vertType AND GE_VTYPE_WEIGHT_MASK \<noteq> 0
      then (DecodeVertsStep lims s)\<lparr>decodeCounter := decodeCounter (DecodeVertsStep lims s) + 1\<rparr>
      else s)"

definition flush_after :: "limits \<Rightarrow> environment \<Rightarrow> GEPrimitiveType \<Rightarrow> DrawEngine \<Rightarrow> DrawEngine" where
  "flush_after lims env prim s =
     (if prim = GE_PRIM_RECTANGLES
         \<and> getTextureAddress0 env AND 0x3FFFFFFF = getFrameBufAddress env AND 0x3FFFFFFF
      then (if \<not> bDisableSlowFramebufEffects env then Flush lims env s else s)
      else s)"

text \<open>
  \<^verbatim>\<open>SubmitPrim\<close> returns the engine and the value stored in \<^verbatim>\<open>*bytesRead\<close>. The
  result is \<open>None\<close> when \<^verbatim>\<open>dec_\<close> is null where the source calls
  \<^verbatim>\<open>dec_->VertexSize()\<close>.
\<close>

definition SubmitPrim ::
  "limits \<Rightarrow> environment \<Rightarrow> int \<Rightarrow> int \<Rightarrow> GEPrimitiveType \<Rightarrow> int \<Rightarrow> u32 \<Rightarrow> DrawEngine
     \<Rightarrow> (DrawEngine \<times> int) option" where
  "SubmitPrim lims env verts inds prim0 vertexCount vertType s0 =
     (let s1 = flush_before lims env prim0 vertexCount s0;
          prim = resolve_prim prim0 s1;
          s2 = SetupVertexDecoderInternal env vertType (note_prim prim0 s1)
      in case dec s2 of
           None \<Rightarrow> None
         | Some d \<Rightarrow>
             (let bytesRead = vertexCount * VertexSize env d
              in if below_minimum vertexCount prim then Some (s2, bytesRead)
                 else
                   Some (flush_after lims env prim
                           (skinning_decode lims env vertType
                              (append_call env verts inds prim vertexCount vertType s2)),
                         bytesRead)))"

text \<open>
  A sequence of calls to \<^verbatim>\<open>SubmitPrim\<close>, each with the environment it runs in; the
  result is the engine after the last call.
\<close>

record submission =
  sub_env :: environment
  sub_verts :: int
  sub_inds :: int
  sub_prim :: GEPrimitiveType
  sub_vertexCount :: int
  sub_vertType :: u32

fun Submit_all :: "limits \<Rightarrow> DrawEngine \<Rightarrow> submission list \<Rightarrow> DrawEngine option" where
  "Submit_all lims s [] = Some s"
| "Submit_all lims s (c # cs) =
     (case SubmitPrim lims (sub_env c) (sub_verts c) (sub_inds c) (sub_prim c)
             (sub_vertexCount c) (sub_vertType c) s of
        None \<Rightarrow> None
      | Some (s', bytesRead) \<Rightarrow> Submit_all lims s' cs)"

text \<open>The engine as the constructor leaves it; \<^verbatim>\<open>dec_\<close> has no decoder yet.\<close>

definition new_DrawEngine :: DrawEngine where
  "new_DrawEngine =
     \<lparr>decodedVerts = 0, prevPrim = GE_PRIM_INVALID, lastVType = - 1, numDrawCalls = 0,
      vertexCountInDrawCalls = 0, decodeCounter = 0, dcid = 0, dec = None,
      decoderMap = Map.empty,
      drawCalls = (\<lambda>_. \<lparr>dc_verts = 0, dc_inds = 0, dc_vertType = 0, dc_indexType = 0,
                         dc_prim = GE_PRIM_POINTS, dc_vertexCount = 0,
                         dc_indexLowerBound = 0, dc_indexUpperBound = 0\<rparr>),
      indexGen = [], decoded = []\<rparr>"

section \<open>Example inputs\<close>

text \<open>
  For evaluating the rasterizer at concrete inputs the float operations are instantiated
  with exact rational arithmetic. \<^verbatim>\<open>(int)\<close> truncates towards zero as in C, and
  \<^verbatim>\<open>(u16)\<close> truncates and keeps the low 16 bits, the result of converting
  through \<^verbatim>\<open>int\<close> (C++ leaves the conversion of a value outside the range
  undefined). The example inputs use integers and \<^verbatim>\<open>w = 1\<close> only.
\<close>

definition c_trunc :: "rat \<Rightarrow> int" where
  "c_trunc q = (if 0 \<le> q then \<lfloor>q\<rfloor> else - \<lfloor>- q\<rfloor>)"

definition exact_ops :: "rat float_ops" where
  "exact_ops =
     \<lparr>f_of_int = of_int, f_one = 1, f_add = (+), f_mul = (*), f_div = (/),
      f_to_int = c_trunc, f_to_u16 = (\<lambda>q. word_of_int (c_trunc q))\<rparr>"

text \<open>
  A vertex at screen position \<open>(x, y)\<close> with depth \<open>z\<close>, \<^verbatim>\<open>w = 1\<close>, texture
  coordinates \<open>(0, 0)\<close> and the colour \<open>(r, 0, 0, 0)\<close>; a GPU state with
  scissor rectangle \<open>(0,0)-(20,20)\<close>, buffer strides of 512 pixels, flat shading, and
  depth test, texturing and clear mode off; and empty buffers with an empty trace.
\<close>

definition vertex_at :: "int \<Rightarrow> int \<Rightarrow> int \<Rightarrow> int \<Rightarrow> rat VertexData" where
  "vertex_at x y z r =
     \<lparr>drawpos = \<lparr>pos_x = x, pos_y = y, pos_z = z\<rparr>, clippos_w = 1,
      texturecoords_s = 0, texturecoords_t = 0,
      color0_r = r, color0_g = 0, color0_b = 0, color0_a = 0\<rparr>"

definition ex_gstate :: GPUgstate where
  "ex_gstate =
     \<lparr>texformat = 3, texaddr = (\<lambda>_. 0), texbufwidth = (\<lambda>_. 0), texsize = (\<lambda>_. 0),
      clearmode = 0, shademodel = 0, FrameBufStride = 512, DepthBufStride = 512,
      isModeClear = False, isModeThrough = False, isDepthTestEnabled = False,
      isDepthWriteEnabled = False, isTextureMapEnabled = False,
      getDepthTestFunc = GE_COMP_LESS,
      getScissorX1 = 0, getScissorY1 = 0, getScissorX2 = 20, getScissorY2 = 20\<rparr>"

definition ex_mem :: raster_mem where
  "ex_mem = \<lparr>fb = (\<lambda>_. 0), depthbuf = (\<lambda>_. 0), writes = []\<rparr>"

text \<open>
  The same state with the scissor rectangle \<open>(2,2)-(5,5)\<close>; the state with the
  depth test and the depth write enabled and the compare function \<open>f\<close>; and buffers
  that hold the depth \<open>d\<close> at every pixel.
\<close>

definition cut_gstate :: GPUgstate where
  "cut_gstate =
     ex_gstate\<lparr>getScissorX1 := 2, getScissorY1 := 2, getScissorX2 := 5, getScissorY2 := 5\<rparr>"

definition depth_gstate :: "GEComparison \<Rightarrow> GPUgstate" where
  "depth_gstate f =
     ex_gstate\<lparr>isDepthTestEnabled := True, isDepthWriteEnabled := True, getDepthTestFunc := f\<rparr>"

definition depth_mem :: "u16 \<Rightarrow> raster_mem" where
  "depth_mem d = \<lparr>fb = (\<lambda>_. 0), depthbuf = (\<lambda>_. d), writes = []\<rparr>"

text \<open>
  Texturing enabled on a one-texel 8-8-8-8 texture at address 0 whose bytes are
  \<open>00 00 00 0F\<close>.
\<close>

definition tex_gstate :: GPUgstate where
  "tex_gstate = ex_gstate\<lparr>isTextureMapEnabled := True\<rparr>"

definition tex_memory :: memory where
  "tex_memory = (\<lambda>a. if a = 3 then 0x0F else 0)"

text \<open>
  A one-texel 5-5-5-1 texture at address 0 whose bytes are \<open>00 7C\<close>: the 16-bit
  texel \<open>0x7C00\<close>, with the blue field 31 and the other fields 0.
\<close>

definition gstate_5551 :: GPUgstate where
  "gstate_5551 = ex_gstate\<lparr>texformat := 1\<rparr>"

definition memory_5551 :: memory where
  "memory_5551 = (\<lambda>a. if a = 1 then 0x7C else 0)"

text \<open>
  For the draw engine: the capacities 128 and 65536; an environment in which every two
  primitive kinds are compatible (so that no flush is due to incompatibility), every
  vertex is 12 bytes, software skinning is off and the texture is not the render target;
  and a call without indices of \<open>n\<close> vertices of the kind \<open>prim\<close>.
\<close>

definition ex_lims :: limits where
  "ex_lims = \<lparr>MAX_DEFERRED_DRAW_CALLS = 128, VERTEX_BUFFER_MAX = 65536\<rparr>"

definition ex_env :: environment where
  "ex_env =
     \<lparr>PrimCompatible = (\<lambda>p q. True), indexGen_Prim = (\<lambda>calls. 0), VertexSize = (\<lambda>d. 12),
      GetIndexBounds = (\<lambda>inds n vertType. (0, 0)), getUVGenMode = 0,
      getTextureAddress0 = 0, getFrameBufAddress = 0x04000000,
      bSoftwareSkinning = False, bDisableSlowFramebufEffects = False\<rparr>"

definition ex_call :: "GEPrimitiveType \<Rightarrow> int \<Rightarrow> submission" where
  "ex_call prim n =
     \<lparr>sub_env = ex_env, sub_verts = 0x08800000, sub_inds = 0, sub_prim = prim,
      sub_vertexCount = n, sub_vertType = 0\<rparr>"

text \<open>
  An engine in the middle of decoding a batch of three calls of three 16-bit indices
  each, with the decoder of their vertex type in use: the first call, with the index
  bounds \<open>[0, 9]\<close>, has been decoded into the vertices 0 to 9; the second and
  third share other vertex data, with the index bounds \<open>[0, 65530]\<close> and
  \<open>[5, 20]\<close>.
\<close>

definition over_state :: DrawEngine where
  "over_state =
     \<lparr>decodedVerts = 10, prevPrim = GE_PRIM_TRIANGLES, lastVType = 0x1000, numDrawCalls = 3,
      vertexCountInDrawCalls = 9, decodeCounter = 1, dcid = 0,
      dec = Some (VertexDecoder 0x1000),
      decoderMap = [0x1000 \<mapsto> VertexDecoder 0x1000],
      drawCalls = (\<lambda>j.
        if j = 0 then
          \<lparr>dc_verts = 0x08800000, dc_inds = 0x08A00020, dc_vertType = 0x1000, dc_indexType = 2,
           dc_prim = GE_PRIM_TRIANGLES, dc_vertexCount = 3,
           dc_indexLowerBound = 0, dc_indexUpperBound = 9\<rparr>
        else if j = 1 then
          \<lparr>dc_verts = 0x08900000, dc_inds = 0x08A00000, dc_vertType = 0x1000, dc_indexType = 2,
           dc_prim = GE_PRIM_TRIANGLES, dc_vertexCount = 3,
           dc_indexLowerBound = 0, dc_indexUpperBound = 65530\<rparr>
        else if j = 2 then
          \<lparr>dc_verts = 0x08900000, dc_inds = 0x08A00010, dc_vertType = 0x1000, dc_indexType = 2,
           dc_prim = GE_PRIM_TRIANGLES, dc_vertexCount = 3,
           dc_indexLowerBound = 5, dc_indexUpperBound = 20\<rparr>
        else
          \<lparr>dc_verts = 0, dc_inds = 0, dc_vertType = 0, dc_indexType = 0,
           dc_prim = GE_PRIM_POINTS, dc_vertexCount = 0,
           dc_indexLowerBound = 0, dc_indexUpperBound = 0\<rparr>),
      indexGen = [IG_SetIndex 0, IG_TranslatePrim GE_PRIM_TRIANGLES 3 16 0x08A00020 0, IG_Advance 10],
      decoded = [DecodeVertsCall (Some (VertexDecoder 0x1000)) 0 0x08800000 0 9]\<rparr>"

text \<open>
  The same engine with the index bounds \<open>[0, 100]\<close> and \<open>[5, 200]\<close>, and a
  memory that holds the 16-bit indices \<open>0, 50, 100\<close> of the second call and
  \<open>5, 100, 200\<close> of the third.
\<close>

definition fit_state :: DrawEngine where
  "fit_state =
     over_state\<lparr>drawCalls := (\<lambda>j.
        if j = 1 then (drawCalls over_state 1)\<lparr>dc_indexUpperBound := 100\<rparr>
        else if j = 2 then (drawCalls over_state 2)\<lparr>dc_indexUpperBound := 200\<rparr>
        else drawCalls over_state j)\<rparr>"

definition fit_memory :: memory where
  "fit_memory =
     (\<lambda>a. if a = 0x08A00002 then 50 else if a = 0x08A00004 then 100
          else if a = 0x08A00010 then 5 else if a = 0x08A00012 then 100
          else if a = 0x08A00014 then 200 else 0)"

text \<open>
  A call of three 16-bit indices whose index bounds are \<open>[0, 65000]\<close>, in an
  environment that resolves them so.
\<close>

definition wide_env :: environment where
  "wide_env = ex_env\<lparr>GetIndexBounds := (\<lambda>inds n vertType. (0, 65000))\<rparr>"

definition wide_call :: submission where
  "wide_call =
     \<lparr>sub_env = wide_env, sub_verts = 0x08900000, sub_inds = 0x08A00000,
      sub_prim = GE_PRIM_TRIANGLES, sub_vertexCount = 3, sub_vertType = 0x1000\<rparr>"

section \<open>Vocabulary of the claims\<close>

subsection \<open>Rasterizer\<close>

text \<open>
  The depth-compare table as the specification words it, on the unsigned values of the
  incoming depth \<open>z\<close> and the buffer's depth \<open>r\<close>.
\<close>

fun depth_compare_table :: "GEComparison \<Rightarrow> nat \<Rightarrow> nat \<Rightarrow> bool" where
  "depth_compare_table GE_COMP_NEVER z r = False"
| "depth_compare_table GE_COMP_ALWAYS z r = True"
| "depth_compare_table GE_COMP_EQUAL z r = (z = r)"
| "depth_compare_table GE_COMP_NOTEQUAL z r = (z \<noteq> r)"
| "depth_compare_table GE_COMP_LESS z r = (z < r)"
| "depth_compare_table GE_COMP_LEQUAL z r = (z \<le> r)"
| "depth_compare_table GE_COMP_GREATER z r = (z > r)"
| "depth_compare_table GE_COMP_GEQUAL z r = (z \<ge> r)"

text \<open>Depth testing applies: enabled and not in through mode, or clear mode.\<close>

definition depth_test_applies :: "GPUgstate \<Rightarrow> bool" where
  "depth_test_applies gstate =
     ((isDepthTestEnabled gstate \<and> \<not> isModeThrough gstate) \<or> isModeClear gstate)"

text \<open>Depth is written: depth write is enabled, or bit \<^verbatim>\<open>0x40\<close> of \<^verbatim>\<open>clearmode\<close> is set.\<close>

definition depth_write_on :: "GPUgstate \<Rightarrow> bool" where
  "depth_write_on gstate = (isDepthWriteEnabled gstate \<or> clearmode gstate AND 0x40 \<noteq> 0)"

text \<open>
  The layout of the two buffers in the specification's words: row-major, the pixel
  \<open>(x, y)\<close> at the place \<open>x + y * stride\<close>, counted in pixels.
\<close>

definition pixel_index :: "int \<Rightarrow> int \<Rightarrow> int \<Rightarrow> int" where
  "pixel_index stride x y = x + y * stride"

text \<open>
  The ranges to which the properties are restricted: screen coordinates (of the
  vertices, of the scissor rectangle, of a pixel) from 0 to below \<open>2\<^sup>1\<^sup>5\<close>, and buffer
  strides from 0 to 2048. The PSP's screen coordinates and strides lie within them.
\<close>

definition coord_ok :: "int \<Rightarrow> bool" where
  "coord_ok c = (0 \<le> c \<and> c < 32768)"

definition vertex_ok :: "'f VertexData \<Rightarrow> bool" where
  "vertex_ok v = (coord_ok (pos_x (drawpos v)) \<and> coord_ok (pos_y (drawpos v)))"

definition gstate_ok :: "GPUgstate \<Rightarrow> bool" where
  "gstate_ok gstate =
     (coord_ok (getScissorX1 gstate) \<and> coord_ok (getScissorY1 gstate)
      \<and> coord_ok (getScissorX2 gstate) \<and> coord_ok (getScissorY2 gstate)
      \<and> 0 \<le> FrameBufStride gstate \<and> FrameBufStride gstate \<le> 2048
      \<and> 0 \<le> DepthBufStride gstate \<and> DepthBufStride gstate \<le> 2048)"

text \<open>
  The edge function of the specification,
  \<open>edge(a,b,c) = (b.x-a.x)(c.y-a.y) - (b.y-a.y)(c.x-a.x)\<close>, on the integers; the three
  edge weights of the pixel \<open>(x, y)\<close>; and the pixel is covered when the three are
  non-negative.
\<close>

definition edge :: "int \<times> int \<Rightarrow> int \<times> int \<Rightarrow> int \<times> int \<Rightarrow> int" where
  "edge a b c = (fst b - fst a) * (snd c - snd a) - (snd b - snd a) * (fst c - fst a)"

definition screen_pos :: "'f VertexData \<Rightarrow> int \<times> int" where
  "screen_pos v = (pos_x (drawpos v), pos_y (drawpos v))"

definition weight0 :: "'f VertexData \<Rightarrow> 'f VertexData \<Rightarrow> 'f VertexData \<Rightarrow> int \<Rightarrow> int \<Rightarrow> int" where
  "weight0 v0 v1 v2 x y = edge (screen_pos v1) (screen_pos v2) (x, y)"

definition weight1 :: "'f VertexData \<Rightarrow> 'f VertexData \<Rightarrow> 'f VertexData \<Rightarrow> int \<Rightarrow> int \<Rightarrow> int" where
  "weight1 v0 v1 v2 x y = edge (screen_pos v2) (screen_pos v0) (x, y)"

definition weight2 :: "'f VertexData \<Rightarrow> 'f VertexData \<Rightarrow> 'f VertexData \<Rightarrow> int \<Rightarrow> int \<Rightarrow> int" where
  "weight2 v0 v1 v2 x y = edge (screen_pos v0) (screen_pos v1) (x, y)"

definition covered :: "'f VertexData \<Rightarrow> 'f VertexData \<Rightarrow> 'f VertexData \<Rightarrow> int \<Rightarrow> int \<Rightarrow> bool" where
  "covered v0 v1 v2 x y =
     (0 \<le> weight0 v0 v1 v2 x y \<and> 0 \<le> weight1 v0 v1 v2 x y \<and> 0 \<le> weight2 v0 v1 v2 x y)"

text \<open>
  The bounding box of the triangle and the scissor rectangle, both with their borders.
\<close>

definition in_bounding_box ::
  "'f VertexData \<Rightarrow> 'f VertexData \<Rightarrow> 'f VertexData \<Rightarrow> int \<Rightarrow> int \<Rightarrow> bool" where
  "in_bounding_box v0 v1 v2 x y =
     (Min {pos_x (drawpos v0), pos_x (drawpos v1), pos_x (drawpos v2)} \<le> x
      \<and> x \<le> Max {pos_x (drawpos v0), pos_x (drawpos v1), pos_x (drawpos v2)}
      \<and> Min {pos_y (drawpos v0), pos_y (drawpos v1), pos_y (drawpos v2)} \<le> y
      \<and> y \<le> Max {pos_y (drawpos v0), pos_y (drawpos v1), pos_y (drawpos v2)})"

definition in_scissor :: "GPUgstate \<Rightarrow> int \<Rightarrow> int \<Rightarrow> bool" where
  "in_scissor gstate x y =
     (getScissorX1 gstate \<le> x \<and> x \<le> getScissorX2 gstate
      \<and> getScissorY1 gstate \<le> y \<and> y \<le> getScissorY2 gstate)"

text \<open>
  The values that the loop body computes at the pixel \<open>(x, y)\<close>, from the edge
  weights: the perspective-correction denominator, the depth, the texture coordinates
  and the base colour.
\<close>

definition pixel_den ::
  "'f float_ops \<Rightarrow> 'f VertexData \<Rightarrow> 'f VertexData \<Rightarrow> 'f VertexData \<Rightarrow> int \<Rightarrow> int \<Rightarrow> 'f" where
  "pixel_den ops v0 v1 v2 x y =
     persp_den ops (weight0 v0 v1 v2 x y) (weight1 v0 v1 v2 x y) (weight2 v0 v1 v2 x y)
       (clippos_w v0) (clippos_w v1) (clippos_w v2)"

definition pixel_z ::
  "'f float_ops \<Rightarrow> 'f VertexData \<Rightarrow> 'f VertexData \<Rightarrow> 'f VertexData \<Rightarrow> int \<Rightarrow> int \<Rightarrow> u16" where
  "pixel_z ops v0 v1 v2 x y =
     f_to_u16 ops
       (interp_int ops (pos_z (drawpos v0)) (pos_z (drawpos v1)) (pos_z (drawpos v2))
          (weight0 v0 v1 v2 x y) (weight1 v0 v1 v2 x y) (weight2 v0 v1 v2 x y)
          (clippos_w v0) (clippos_w v1) (clippos_w v2) (pixel_den ops v0 v1 v2 x y))"

definition pixel_s ::
  "'f float_ops \<Rightarrow> 'f VertexData \<Rightarrow> 'f VertexData \<Rightarrow> 'f VertexData \<Rightarrow> int \<Rightarrow> int \<Rightarrow> 'f" where
  "pixel_s ops v0 v1 v2 x y =
     interp_float ops (texturecoords_s v0) (texturecoords_s v1) (texturecoords_s v2)
       (weight0 v0 v1 v2 x y) (weight1 v0 v1 v2 x y) (weight2 v0 v1 v2 x y)
       (clippos_w v0) (clippos_w v1) (clippos_w v2) (pixel_den ops v0 v1 v2 x y)"

definition pixel_t ::
  "'f float_ops \<Rightarrow> 'f VertexData \<Rightarrow> 'f VertexData \<Rightarrow> 'f VertexData \<Rightarrow> int \<Rightarrow> int \<Rightarrow> 'f" where
  "pixel_t ops v0 v1 v2 x y =
     interp_float ops (texturecoords_t v0) (texturecoords_t v1) (texturecoords_t v2)
       (weight0 v0 v1 v2 x y) (weight1 v0 v1 v2 x y) (weight2 v0 v1 v2 x y)
       (clippos_w v0) (clippos_w v1) (clippos_w v2) (pixel_den ops v0 v1 v2 x y)"

definition pixel_base_color ::
  "'f float_ops \<Rightarrow> GPUgstate \<Rightarrow> 'f VertexData \<Rightarrow> 'f VertexData \<Rightarrow> 'f VertexData \<Rightarrow> int \<Rightarrow> int \<Rightarrow> u32" where
  "pixel_base_color ops gstate v0 v1 v2 x y =
     base_color ops gstate v0 v1 v2
       (weight0 v0 v1 v2 x y) (weight1 v0 v1 v2 x y) (weight2 v0 v1 v2 x y)
       (pixel_den ops v0 v1 v2 x y)"

text \<open>
  The depth test passes at the pixel \<open>(x, y)\<close>: clear mode, or the table on the
  interpolated depth and the depth that the buffer holds at the pixel.
\<close>

definition depth_passes ::
  "'f float_ops \<Rightarrow> GPUgstate \<Rightarrow> 'f VertexData \<Rightarrow> 'f VertexData \<Rightarrow> 'f VertexData \<Rightarrow> int \<Rightarrow> int
     \<Rightarrow> raster_mem \<Rightarrow> bool" where
  "depth_passes ops gstate v0 v1 v2 x y m =
     (isModeClear gstate
      \<or> depth_compare_table (getDepthTestFunc gstate) (unat (pixel_z ops v0 v1 v2 x y))
           (unat (depthbuf m (pixel_index (DepthBufStride gstate) x y))))"

text \<open>
  The texture format is one of the four that \<^verbatim>\<open>SampleNearest\<close> handles; and the
  state in which the rasterizer samples a texture of another format, where the source's
  behaviour is undefined.
\<close>

definition supported_texfmt :: "u32 \<Rightarrow> bool" where
  "supported_texfmt f =
     (f = GE_TFMT_4444 \<or> f = GE_TFMT_5551 \<or> f = GE_TFMT_5650 \<or> f = GE_TFMT_8888)"

definition texture_undefined :: "GPUgstate \<Rightarrow> bool" where
  "texture_undefined gstate =
     (isTextureMapEnabled gstate \<and> \<not> isModeClear gstate
        \<and> \<not> supported_texfmt (texformat gstate AND 0xF))"

text \<open>
  The colour that the loop body passes to \<^verbatim>\<open>SetPixelColor\<close> at the pixel
  \<open>(x, y)\<close>; there is none where \<^verbatim>\<open>SampleNearest\<close> has no return value.
\<close>

definition pixel_final_color ::
  "'f float_ops \<Rightarrow> GPUgstate \<Rightarrow> memory \<Rightarrow> 'f VertexData \<Rightarrow> 'f VertexData \<Rightarrow> 'f VertexData
     \<Rightarrow> int \<Rightarrow> int \<Rightarrow> u32 option" where
  "pixel_final_color ops gstate mem v0 v1 v2 x y =
     (if isTextureMapEnabled gstate \<and> \<not> isModeClear gstate then
        (case SampleNearest ops gstate mem 0 (pixel_s ops v0 v1 v2 x y) (pixel_t ops v0 v1 v2 x y) of
           None \<Rightarrow> None
         | Some tex \<Rightarrow> Some (pixel_base_color ops gstate v0 v1 v2 x y OR tex))
      else Some (pixel_base_color ops gstate v0 v1 v2 x y))"

text \<open>
  The positions of the \<^verbatim>\<open>SetPixelColor\<close> calls and of the \<^verbatim>\<open>SetPixelDepth\<close>
  calls in a trace of writes.
\<close>

fun color_written_at :: "pixel_write \<Rightarrow> (int \<times> int) list" where
  "color_written_at (ColorWrite x y c) = [(x, y)]"
| "color_written_at (DepthWrite x y z) = []"

fun depth_written_at :: "pixel_write \<Rightarrow> (int \<times> int) list" where
  "depth_written_at (ColorWrite x y c) = []"
| "depth_written_at (DepthWrite x y z) = [(x, y)]"

definition color_positions :: "pixel_write list \<Rightarrow> (int \<times> int) list" where
  "color_positions ws = concat (map color_written_at ws)"

definition depth_positions :: "pixel_write list \<Rightarrow> (int \<times> int) list" where
  "depth_positions ws = concat (map depth_written_at ws)"

text \<open>
  What a trace of writes does to the buffers, in the layout of the specification: a
  colour write stores its value at the pixel's place in the colour buffer, a depth
  write at the pixel's place in the depth buffer.
\<close>

fun store_write ::
  "GPUgstate \<Rightarrow> (int \<Rightarrow> u32) \<times> (int \<Rightarrow> u16) \<Rightarrow> pixel_write \<Rightarrow> (int \<Rightarrow> u32) \<times> (int \<Rightarrow> u16)" where
  "store_write gstate (f, d) (ColorWrite x y c) = (f(pixel_index (FrameBufStride gstate) x y := c), d)"
| "store_write gstate (f, d) (DepthWrite x y z) = (f, d(pixel_index (DepthBufStride gstate) x y := z))"

definition stored :: "GPUgstate \<Rightarrow> pixel_write list \<Rightarrow> (int \<Rightarrow> u32) \<times> (int \<Rightarrow> u16)
    \<Rightarrow> (int \<Rightarrow> u32) \<times> (int \<Rightarrow> u16)" where
  "stored gstate ws b = foldl (store_write gstate) b ws"

text \<open>
  A write of the trace is a colour write that carries the colour computed at its pixel.
\<close>

fun writes_color ::
  "'f float_ops \<Rightarrow> GPUgstate \<Rightarrow> memory \<Rightarrow> 'f VertexData \<Rightarrow> 'f VertexData \<Rightarrow> 'f VertexData
     \<Rightarrow> pixel_write \<Rightarrow> bool" where
  "writes_color ops gstate mem v0 v1 v2 (ColorWrite x y c)
     = (pixel_final_color ops gstate mem v0 v1 v2 x y = Some c)"
| "writes_color ops gstate mem v0 v1 v2 (DepthWrite x y z) = False"

text \<open>
  The 5-5-5-1 unpack rule in the specification's words, on the 16-bit little-endian
  texel made of the bytes \<open>b0\<close> and \<open>b1\<close>: \<open>R\<close> is bits 0 to 4, \<open>G\<close> bits
  5 to 9, \<open>B\<close> bits 10 to 14, each expanded by \<^verbatim>\<open>(x<<3) | (x>>2)\<close>, and bit 15 is
  the alpha, expanded to \<open>0x00\<close> or \<open>0xFF\<close>. The result is packed as
  \<^verbatim>\<open>SampleNearest\<close> packs it.
\<close>

definition expand5 :: "u16 \<Rightarrow> u8" where
  "expand5 x = ucast (push_bit 3 x OR drop_bit 2 x)"

definition unpack_5551_spec :: "u8 \<Rightarrow> u8 \<Rightarrow> u32" where
  "unpack_5551_spec b0 b1 =
     (let texel = (push_bit 8 (ucast b1) OR ucast b0 :: u16)
      in pack_rgba (expand5 (texel AND 0x1F))
                   (expand5 (drop_bit 5 texel AND 0x1F))
                   (expand5 (drop_bit 10 texel AND 0x1F))
                   (if bit texel 15 then 0xFF else 0))"

text \<open>
  The float arithmetic satisfies the unit laws \<^verbatim>\<open>x / 1.0f = x\<close> and
  \<^verbatim>\<open>1.0f * x = x\<close>, as IEEE 754 arithmetic does.
\<close>

definition unit_laws :: "'f float_ops \<Rightarrow> bool" where
  "unit_laws ops =
     ((\<forall>x. f_div ops x (f_one ops) = x) \<and> (\<forall>x. f_mul ops (f_one ops) x = x))"

subsection \<open>Draw engine\<close>

text \<open>
  The effective vertex format, which selects the decoder: the vertex type with the
  UV-generation mode folded in.
\<close>

definition effective_vtype :: "environment \<Rightarrow> u32 \<Rightarrow> u32" where
  "effective_vtype env vertType = (vertType AND 0xFFFFFF) OR push_bit 24 (getUVGenMode env)"

text \<open>
  The decoder in use is the one of the last vertex type set up (none has been set up as
  long as \<^verbatim>\<open>lastVType_\<close> is \<open>-1\<close>), and the cache maps a vertex type to its
  decoder.
\<close>

definition dec_ok :: "DrawEngine \<Rightarrow> bool" where
  "dec_ok s =
     ((\<forall>k d. decoderMap s k = Some d \<longrightarrow> d = VertexDecoder k)
      \<and> (lastVType s = - 1 \<or> dec s = Some (VertexDecoder (lastVType s))))"

text \<open>
  The engine that \<^verbatim>\<open>SubmitPrim\<close> leaves, and the two batch counters of an engine.
\<close>

definition submitted ::
  "limits \<Rightarrow> environment \<Rightarrow> int \<Rightarrow> int \<Rightarrow> GEPrimitiveType \<Rightarrow> int \<Rightarrow> u32 \<Rightarrow> DrawEngine \<Rightarrow> DrawEngine" where
  "submitted lims env verts inds prim0 vertexCount vertType s0 =
     (let s1 = flush_before lims env prim0 vertexCount s0;
          prim = resolve_prim prim0 s1;
          s2 = SetupVertexDecoderInternal env vertType (note_prim prim0 s1)
      in if below_minimum vertexCount prim then s2
         else flush_after lims env prim
                (skinning_decode lims env vertType
                   (append_call env verts inds prim vertexCount vertType s2)))"

definition counters :: "DrawEngine \<Rightarrow> int \<times> int" where
  "counters s = (numDrawCalls s, vertexCountInDrawCalls s)"

text \<open>
  The capacity invariant of the batch counters, with the fact that an empty batch has no
  vertices; and the submissions that the amended capacity claim is about.
\<close>

definition cap_inv :: "limits \<Rightarrow> DrawEngine \<Rightarrow> bool" where
  "cap_inv lims s =
     (0 \<le> numDrawCalls s \<and> numDrawCalls s \<le> MAX_DEFERRED_DRAW_CALLS lims
      \<and> 0 \<le> vertexCountInDrawCalls s \<and> vertexCountInDrawCalls s \<le> VERTEX_BUFFER_MAX lims
      \<and> (if numDrawCalls s = 0 then vertexCountInDrawCalls s = 0 else True))"

definition call_ok :: "limits \<Rightarrow> submission \<Rightarrow> bool" where
  "call_ok lims c =
     (0 \<le> sub_vertexCount c \<and> sub_vertexCount c \<le> VERTEX_BUFFER_MAX lims
      \<and> getUVGenMode (sub_env c) \<le> 3)"

text \<open>The condition of the flush that \<^verbatim>\<open>SubmitPrim\<close> starts with.\<close>

definition flush_due :: "limits \<Rightarrow> environment \<Rightarrow> GEPrimitiveType \<Rightarrow> int \<Rightarrow> DrawEngine \<Rightarrow> bool" where
  "flush_due lims env prim vertexCount s =
     (\<not> PrimCompatible env (prevPrim s) prim
      \<or> numDrawCalls s \<ge> MAX_DEFERRED_DRAW_CALLS lims
      \<or> vertexCountInDrawCalls s + vertexCount > VERTEX_BUFFER_MAX lims)"

text \<open>
  The minimum vertex counts in the specification's words: 2 for a kind other than
  points, 3 for the polygon family, the rectangle exempt from the 3. (The sentinel
  \<^verbatim>\<open>KEEP_PREVIOUS\<close> is replaced before the test; by its value 7 the source's
  comparison treats it as a polygon kind.)
\<close>

fun min_vertices :: "GEPrimitiveType \<Rightarrow> int option" where
  "min_vertices GE_PRIM_POINTS = None"
| "min_vertices GE_PRIM_LINES = Some 2"
| "min_vertices GE_PRIM_LINE_STRIP = Some 2"
| "min_vertices GE_PRIM_TRIANGLES = Some 3"
| "min_vertices GE_PRIM_TRIANGLE_STRIP = Some 3"
| "min_vertices GE_PRIM_TRIANGLE_FAN = Some 3"
| "min_vertices GE_PRIM_RECTANGLES = Some 2"
| "min_vertices GE_PRIM_KEEP_PREVIOUS = Some 3"
| "min_vertices GE_PRIM_INVALID = None"

definition too_few :: "int \<Rightarrow> GEPrimitiveType \<Rightarrow> bool" where
  "too_few vertexCount prim =
     (case min_vertices prim of None \<Rightarrow> False | Some n \<Rightarrow> vertexCount < n)"

text \<open>
  The call at the decode cursor, whether it has indices, and the merged range and
  \<^verbatim>\<open>lastMatch\<close> that step 1 of \<^verbatim>\<open>DecodeVertsStep\<close> computes for it.
\<close>

definition cursor_call :: "DrawEngine \<Rightarrow> DeferredDrawCall" where
  "cursor_call s = drawCalls s (decodeCounter s)"

definition indexed_call :: "DeferredDrawCall \<Rightarrow> bool" where
  "indexed_call dc = (dc_indexType dc \<noteq> drop_bit GE_VTYPE_IDX_SHIFT GE_VTYPE_IDX_NONE)"

definition merged_range :: "DrawEngine \<Rightarrow> int \<times> int \<times> int" where
  "merged_range s =
     merge_scan (drawCalls s) (numDrawCalls s) (dc_verts (cursor_call s)) (decodeCounter s + 1)
       (dc_indexLowerBound (cursor_call s)) (dc_indexUpperBound (cursor_call s)) (decodeCounter s)"

text \<open>
  The run of deferred calls that starts at \<open>i\<close> and ends at \<open>k\<close>: the calls
  after \<open>i\<close> up to \<open>k\<close> share the vertex data of the call \<open>i\<close>, and the
  call after \<open>k\<close>, if there is one among the \<open>n\<close> pending calls, does not.
  \<open>run_lower\<close> and \<open>run_upper\<close> are the least lower and the greatest upper
  index bound across the run.
\<close>

definition is_run :: "(int \<Rightarrow> DeferredDrawCall) \<Rightarrow> int \<Rightarrow> int \<Rightarrow> int \<Rightarrow> bool" where
  "is_run dcs n i k =
     (i \<le> k \<and> k < n
      \<and> list_all (\<lambda>j. dc_verts (dcs j) = dc_verts (dcs i)) [i + 1..k]
      \<and> (if k + 1 < n then dc_verts (dcs (k + 1)) \<noteq> dc_verts (dcs i) else True))"

definition run_lower :: "(int \<Rightarrow> DeferredDrawCall) \<Rightarrow> int \<Rightarrow> int \<Rightarrow> int" where
  "run_lower dcs i k = Min ((\<lambda>j. dc_indexLowerBound (dcs j)) ` {i..k})"

definition run_upper :: "(int \<Rightarrow> DeferredDrawCall) \<Rightarrow> int \<Rightarrow> int \<Rightarrow> int" where
  "run_upper dcs i k = Max ((\<lambda>j. dc_indexUpperBound (dcs j)) ` {i..k})"

text \<open>
  The width in bits of the indices of a call with 8-bit or 16-bit indices, and the calls
  to \<^verbatim>\<open>TranslatePrim\<close> for the calls \<open>i\<close> to \<open>k\<close> with the offset
  \<open>lo\<close>.
\<close>

definition index_bits :: "u32 \<Rightarrow> nat option" where
  "index_bits t =
     (if t = drop_bit GE_VTYPE_IDX_SHIFT GE_VTYPE_IDX_8BIT then Some 8
      else if t = drop_bit GE_VTYPE_IDX_SHIFT GE_VTYPE_IDX_16BIT then Some 16
      else None)"

definition run_translations ::
  "(int \<Rightarrow> DeferredDrawCall) \<Rightarrow> nat \<Rightarrow> int \<Rightarrow> int \<Rightarrow> int \<Rightarrow> indexgen_call list" where
  "run_translations dcs bits lo i k =
     map (\<lambda>j. IG_TranslatePrim (dc_prim (dcs j)) (dc_vertexCount (dcs j)) bits (dc_inds (dcs j)) lo)
       [i..k]"

text \<open>
  Modelled from the spec: \<^verbatim>\<open>IndexGenerator::TranslatePrim\<close> and the index data it
  reads are outside the sources at hand. The raw index number \<open>m\<close> of an index
  buffer is the byte or the little-endian 16-bit value at its place (``raw indices (8-bit
  or 16-bit, per its format)''), and a call of \<^verbatim>\<open>TranslatePrim\<close> made after
  \<^verbatim>\<open>SetIndex(base)\<close> yields for each raw index the index
  \<open>base + raw - indexOffset\<close> (``into the shared decoded-vertex numbering, offset by
  \<open>-indexLowerBound\<close>'').
\<close>

definition raw_index :: "memory \<Rightarrow> nat \<Rightarrow> int \<Rightarrow> int \<Rightarrow> int" where
  "raw_index mem bits inds m =
     (if bits = 8 then uint (mem (inds + m))
      else uint (mem (inds + 2 * m)) + 256 * uint (mem (inds + 2 * m + 1)))"

fun TranslatePrim_indices :: "memory \<Rightarrow> int \<Rightarrow> indexgen_call \<Rightarrow> int list" where
  "TranslatePrim_indices mem base (IG_TranslatePrim prim n bits inds indexOffset) =
     map (\<lambda>m. base + raw_index mem bits inds m - indexOffset) [0..n - 1]"
| "TranslatePrim_indices mem base (IG_SetIndex i) = []"
| "TranslatePrim_indices mem base (IG_AddPrim prim n) = []"
| "TranslatePrim_indices mem base (IG_Advance n) = []"
| "TranslatePrim_indices mem base IG_Reset = []"



section \<open>Auxiliary facts\<close>

subsection \<open>Rasterizer\<close>

lemma color_positions_simps [simp]:
  "color_positions [] = []"
  "color_positions (ws @ ws') = color_positions ws @ color_positions ws'"
  "color_positions (ColorWrite x y c # ws) = (x, y) # color_positions ws"
  "color_positions (DepthWrite x y z # ws) = color_positions ws"
  by (simp_all add: color_positions_def)

lemma depth_positions_simps [simp]:
  "depth_positions [] = []"
  "depth_positions (ws @ ws') = depth_positions ws @ depth_positions ws'"
  "depth_positions (ColorWrite x y c # ws) = depth_positions ws"
  "depth_positions (DepthWrite x y z # ws) = (x, y) # depth_positions ws"
  by (simp_all add: depth_positions_def)

lemma stored_simps [simp]:
  "stored gstate [] b = b"
  "stored gstate (ws @ ws') b = stored gstate ws' (stored gstate ws b)"
  "stored gstate (ColorWrite x y c # ws) (f, d)
     = stored gstate ws (f(pixel_index (FrameBufStride gstate) x y := c), d)"
  "stored gstate (DepthWrite x y z # ws) (f, d)
     = stored gstate ws (f, d(pixel_index (DepthBufStride gstate) x y := z))"
  by (simp_all add: stored_def)

text \<open>
  Within the ranges, the 32-bit computation of \<^verbatim>\<open>orient2d\<close> does not wrap and
  yields the edge function.
\<close>

lemma int32_id: "- 2147483648 \<le> i \<Longrightarrow> i < 2147483648 \<Longrightarrow> int32 i = i"
  by (simp add: int32_def)

lemma small_product:
  fixes a b :: int
  assumes "\<bar>a\<bar> < 32768" and "\<bar>b\<bar> < 32768"
  shows "\<bar>a * b\<bar> \<le> 1073676289"
proof -
  have "\<bar>a\<bar> * \<bar>b\<bar> \<le> 32767 * 32767"
    using assms by (intro mult_mono) auto
  then show ?thesis
    by (simp add: abs_mult)
qed

lemma orient2d_edge:
  assumes "coord_ok (pos_x a)" and "coord_ok (pos_y a)" and "coord_ok (pos_x b)"
    and "coord_ok (pos_y b)" and "coord_ok x" and "coord_ok y"
  shows "orient2d a b \<lparr>pos_x = x, pos_y = y, pos_z = z\<rparr> = edge (pos_x a, pos_y a) (pos_x b, pos_y b) (x, y)"
proof -
  let ?dx = "pos_x b - pos_x a" and ?dy = "pos_y b - pos_y a"
  let ?px = "x - pos_x a" and ?py = "y - pos_y a"
  have d: "\<bar>?dx\<bar> < 32768" "\<bar>?dy\<bar> < 32768" "\<bar>?px\<bar> < 32768" "\<bar>?py\<bar> < 32768"
    using assms by (auto simp: coord_ok_def)
  have p1: "\<bar>?dx * ?py\<bar> \<le> 1073676289" and p2: "\<bar>?dy * ?px\<bar> \<le> 1073676289"
    using d by (auto intro: small_product)
  have i: "int32 ?dx = ?dx" "int32 ?dy = ?dy" "int32 ?px = ?px" "int32 ?py = ?py"
    using d by (auto intro!: int32_id)
  have j: "int32 (?dx * ?py) = ?dx * ?py" "int32 (?dy * ?px) = ?dy * ?px"
    using p1 p2 by (auto intro!: int32_id)
  have k: "int32 (?dx * ?py - ?dy * ?px) = ?dx * ?py - ?dy * ?px"
    using p1 p2 by (intro int32_id) auto
  show ?thesis
    by (simp add: orient2d_def edge_def i j k)
qed

lemma weights_orient2d:
  assumes "vertex_ok v0" and "vertex_ok v1" and "vertex_ok v2" and "coord_ok x" and "coord_ok y"
  shows "orient2d (drawpos v1) (drawpos v2) \<lparr>pos_x = x, pos_y = y, pos_z = 0\<rparr> = weight0 v0 v1 v2 x y"
    and "orient2d (drawpos v2) (drawpos v0) \<lparr>pos_x = x, pos_y = y, pos_z = 0\<rparr> = weight1 v0 v1 v2 x y"
    and "orient2d (drawpos v0) (drawpos v1) \<lparr>pos_x = x, pos_y = y, pos_z = 0\<rparr> = weight2 v0 v1 v2 x y"
  using assms
  by (simp_all add: vertex_ok_def orient2d_edge weight0_def weight1_def weight2_def screen_pos_def)

lemma DepthTestPassed_table:
  "DepthTestPassed gstate x y z m =
     (isModeClear gstate \<or>
      depth_compare_table (getDepthTestFunc gstate) (unat z)
        (unat (depthbuf m (pixel_index (DepthBufStride gstate) x y))))"
  by (cases "getDepthTestFunc gstate")
     (auto simp: DepthTestPassed_def GetPixelDepth_def pixel_index_def
        word_less_nat_alt word_le_nat_alt word_unat_eq_iff)

lemma SampleNearest_None:
  "(SampleNearest ops gstate mem level s t = None) =
     (\<not> supported_texfmt (texformat gstate AND 0xF))"
  by (auto simp: SampleNearest_def Let_def supported_texfmt_def)

lemma SampleNearest_Some:
  "SampleNearest ops gstate mem level s t = Some c \<Longrightarrow> supported_texfmt (texformat gstate AND 0xF)"
  using SampleNearest_None[of ops gstate mem level s t] by auto

lemma pixel_final_color_None:
  "(pixel_final_color ops gstate mem v0 v1 v2 x y = None) = texture_undefined gstate"
  by (auto simp: pixel_final_color_def texture_undefined_def SampleNearest_None
        split: option.splits dest: SampleNearest_Some)

lemma pixel_color_final:
  "pixel_color ops gstate mem v0 v1 v2 (weight0 v0 v1 v2 x y) (weight1 v0 v1 v2 x y)
     (weight2 v0 v1 v2 x y) (pixel_den ops v0 v1 v2 x y)
   = pixel_final_color ops gstate mem v0 v1 v2 x y"
  by (auto simp: pixel_color_def pixel_final_color_def pixel_s_def pixel_t_def
        pixel_base_color_def Let_def split: option.splits)

lemma shade_pixel_final:
  "shade_pixel ops gstate mem v0 v1 v2 x y (weight0 v0 v1 v2 x y) (weight1 v0 v1 v2 x y)
     (weight2 v0 v1 v2 x y) (pixel_den ops v0 v1 v2 x y) m
   = (case pixel_final_color ops gstate mem v0 v1 v2 x y of
        None \<Rightarrow> None
      | Some c \<Rightarrow>
          Some (m\<lparr>fb := (fb m)(pixel_index (FrameBufStride gstate) x y := c),
                  writes := writes m @ [ColorWrite x y c]\<rparr>))"
  by (simp add: shade_pixel_def pixel_color_final SetPixelColor_def pixel_index_def
        split: option.splits)

text \<open>
  The loop body at a pixel within the ranges, in the vocabulary of the claims.
\<close>

lemma DrawPixel_effect:
  assumes "vertex_ok v0" and "vertex_ok v1" and "vertex_ok v2" and "coord_ok x" and "coord_ok y"
  shows "DrawPixel ops gstate mem v0 v1 v2 x y m =
     (if \<not> covered v0 v1 v2 x y then Some m
      else if depth_test_applies gstate \<and> \<not> depth_passes ops gstate v0 v1 v2 x y m then Some m
      else (case pixel_final_color ops gstate mem v0 v1 v2 x y of
              None \<Rightarrow> None
            | Some c \<Rightarrow>
                Some (m\<lparr>fb := (fb m)(pixel_index (FrameBufStride gstate) x y := c),
                        depthbuf :=
                          (if depth_test_applies gstate \<and> depth_write_on gstate
                           then (depthbuf m)(pixel_index (DepthBufStride gstate) x y
                                               := pixel_z ops v0 v1 v2 x y)
                           else depthbuf m),
                        writes := writes m
                          @ (if depth_test_applies gstate \<and> depth_write_on gstate
                             then [DepthWrite x y (pixel_z ops v0 v1 v2 x y)] else [])
                          @ [ColorWrite x y c]\<rparr>)))"
proof -
  have den: "persp_den ops (weight0 v0 v1 v2 x y) (weight1 v0 v1 v2 x y) (weight2 v0 v1 v2 x y)
               (clippos_w v0) (clippos_w v1) (clippos_w v2) = pixel_den ops v0 v1 v2 x y"
    by (simp add: pixel_den_def)
  have z: "f_to_u16 ops
             (interp_int ops (pos_z (drawpos v0)) (pos_z (drawpos v1)) (pos_z (drawpos v2))
                (weight0 v0 v1 v2 x y) (weight1 v0 v1 v2 x y) (weight2 v0 v1 v2 x y)
                (clippos_w v0) (clippos_w v1) (clippos_w v2) (pixel_den ops v0 v1 v2 x y))
           = pixel_z ops v0 v1 v2 x y"
    by (simp add: pixel_z_def)
  have t: "DepthTestPassed gstate x y (pixel_z ops v0 v1 v2 x y) m
             = depth_passes ops gstate v0 v1 v2 x y m"
    by (simp add: DepthTestPassed_table depth_passes_def)
  show ?thesis
    unfolding DrawPixel_def weights_orient2d[OF assms] Let_def den z t shade_pixel_final
    by (auto simp: covered_def depth_test_applies_def depth_write_on_def SetPixelDepth_def
          pixel_index_def split: option.splits)
qed

lemma tri_bounds:
  "(tri_minX gstate v0 v1 v2 \<le> x \<and> x \<le> tri_maxX gstate v0 v1 v2
    \<and> tri_minY gstate v0 v1 v2 \<le> y \<and> y \<le> tri_maxY gstate v0 v1 v2)
   = (in_bounding_box v0 v1 v2 x y \<and> in_scissor gstate x y)"
  unfolding tri_minX_def tri_maxX_def tri_minY_def tri_maxY_def in_bounding_box_def
    in_scissor_def
  by (simp add: min.assoc max.assoc conj_ac)

lemma tri_bounds_range:
  assumes "gstate_ok gstate"
  shows "0 \<le> tri_minX gstate v0 v1 v2" and "tri_maxX gstate v0 v1 v2 < 32768"
    and "0 \<le> tri_minY gstate v0 v1 v2" and "tri_maxY gstate v0 v1 v2 < 32768"
  using assms
  unfolding gstate_ok_def coord_ok_def tri_minX_def tri_maxX_def tri_minY_def tri_maxY_def
  by (simp_all add: le_max_iff_disj min_less_iff_disj)

lemma DrawPixel_nodepth:
  assumes "\<not> depth_test_applies gstate" and "\<not> texture_undefined gstate"
    and "vertex_ok v0" and "vertex_ok v1" and "vertex_ok v2" and "coord_ok x" and "coord_ok y"
  shows "\<exists>m' ws. DrawPixel ops gstate mem v0 v1 v2 x y m = Some m'
           \<and> writes m' = writes m @ ws
           \<and> color_positions ws = (if covered v0 v1 v2 x y then [(x, y)] else [])
           \<and> depth_positions ws = []
           \<and> list_all (writes_color ops gstate mem v0 v1 v2) ws
           \<and> (fb m', depthbuf m') = stored gstate ws (fb m, depthbuf m)"
proof (cases "covered v0 v1 v2 x y")
  case False
  then have "DrawPixel ops gstate mem v0 v1 v2 x y m = Some m"
    by (simp add: DrawPixel_effect[OF assms(3-7)])
  with False show ?thesis by simp
next
  case True
  from assms(2) obtain c where c: "pixel_final_color ops gstate mem v0 v1 v2 x y = Some c"
    using pixel_final_color_None[of ops gstate mem v0 v1 v2 x y] by (cases "pixel_final_color ops gstate mem v0 v1 v2 x y") auto
  have "DrawPixel ops gstate mem v0 v1 v2 x y m
          = Some (m\<lparr>fb := (fb m)(pixel_index (FrameBufStride gstate) x y := c),
                    depthbuf := depthbuf m,
                    writes := writes m @ [ColorWrite x y c]\<rparr>)"
    using True assms(1) c by (simp add: DrawPixel_effect[OF assms(3-7)])
  with True c show ?thesis by simp
qed

lemma DrawTriangle_row_nodepth:
  assumes "\<not> depth_test_applies gstate" and "\<not> texture_undefined gstate"
    and "vertex_ok v0" and "vertex_ok v1" and "vertex_ok v2"
    and "0 \<le> x" and "maxX < 32768" and "coord_ok y"
  shows "\<exists>m' ws. DrawTriangle_row ops gstate mem v0 v1 v2 maxX y x m = Some m'
           \<and> writes m' = writes m @ ws
           \<and> set (color_positions ws)
               = {(x', y'). y' = y \<and> x \<le> x' \<and> x' \<le> maxX \<and> covered v0 v1 v2 x' y}
           \<and> distinct (color_positions ws)
           \<and> depth_positions ws = []
           \<and> list_all (writes_color ops gstate mem v0 v1 v2) ws
           \<and> (fb m', depthbuf m') = stored gstate ws (fb m, depthbuf m)"
  using assms
proof (induction ops gstate mem v0 v1 v2 maxX y x m rule: DrawTriangle_row.induct)
  case (1 ops gstate mem v0 v1 v2 maxX y x m)
  show ?case
  proof (cases "x \<le> maxX")
    case False
    then show ?thesis
      by (subst DrawTriangle_row.simps) auto
  next
    case True
    have cx: "coord_ok x"
      using True "1.prems"(6,7) by (simp add: coord_ok_def)
    obtain m1 ws1 where p: "DrawPixel ops gstate mem v0 v1 v2 x y m = Some m1"
        "writes m1 = writes m @ ws1"
        "color_positions ws1 = (if covered v0 v1 v2 x y then [(x, y)] else [])"
        "depth_positions ws1 = []"
        "(fb m1, depthbuf m1) = stored gstate ws1 (fb m, depthbuf m)"
        "list_all (writes_color ops gstate mem v0 v1 v2) ws1"
      using DrawPixel_nodepth[OF "1.prems"(1-5) cx "1.prems"(8)] by blast
    have x1: "0 \<le> x + 1"
      using "1.prems"(6) by simp
    obtain m2 ws2 where r: "DrawTriangle_row ops gstate mem v0 v1 v2 maxX y (x + 1) m1 = Some m2"
        "writes m2 = writes m1 @ ws2"
        "set (color_positions ws2)
           = {(x', y'). y' = y \<and> x + 1 \<le> x' \<and> x' \<le> maxX \<and> covered v0 v1 v2 x' y}"
        "distinct (color_positions ws2)"
        "depth_positions ws2 = []"
        "(fb m2, depthbuf m2) = stored gstate ws2 (fb m1, depthbuf m1)"
        "list_all (writes_color ops gstate mem v0 v1 v2) ws2"
      using "1.IH"[OF True p(1) "1.prems"(1-5) x1 "1.prems"(7,8)] by blast
    have step: "DrawTriangle_row ops gstate mem v0 v1 v2 maxX y x m = Some m2"
      using True p(1) r(1) by (subst DrawTriangle_row.simps) simp
    have p3: "set (color_positions ws1) = (if covered v0 v1 v2 x y then {(x, y)} else {})"
      and d1: "distinct (color_positions ws1)"
      by (simp_all add: p(3))
    have s: "set (color_positions (ws1 @ ws2))
            = {(x', y'). y' = y \<and> x \<le> x' \<and> x' \<le> maxX \<and> covered v0 v1 v2 x' y}"
      using True p3 r(3) by (auto simp: order_le_less)
    have "set (color_positions ws1) \<inter> set (color_positions ws2) = {}"
      unfolding p3 r(3) by auto
    then have d: "distinct (color_positions (ws1 @ ws2))"
      using d1 r(4) by simp
    have w: "writes m2 = writes m @ (ws1 @ ws2)"
      using p(2) r(2) by simp
    have z: "depth_positions (ws1 @ ws2) = []"
      using p(4) r(5) by simp
    have b: "(fb m2, depthbuf m2) = stored gstate (ws1 @ ws2) (fb m, depthbuf m)"
      using p(5) r(6) by simp
    have l: "list_all (writes_color ops gstate mem v0 v1 v2) (ws1 @ ws2)"
      using p(6) r(7) by simp
    from step w s d z l b show ?thesis by blast
  qed
qed

lemma DrawTriangle_rows_nodepth:
  assumes "\<not> depth_test_applies gstate" and "\<not> texture_undefined gstate"
    and "vertex_ok v0" and "vertex_ok v1" and "vertex_ok v2"
    and "0 \<le> minX" and "maxX < 32768" and "0 \<le> y" and "maxY < 32768"
  shows "\<exists>m' ws. DrawTriangle_rows ops gstate mem v0 v1 v2 minX maxX maxY y m = Some m'
           \<and> writes m' = writes m @ ws
           \<and> set (color_positions ws)
               = {(x', y'). y \<le> y' \<and> y' \<le> maxY \<and> minX \<le> x' \<and> x' \<le> maxX
                     \<and> covered v0 v1 v2 x' y'}
           \<and> distinct (color_positions ws)
           \<and> depth_positions ws = []
           \<and> list_all (writes_color ops gstate mem v0 v1 v2) ws
           \<and> (fb m', depthbuf m') = stored gstate ws (fb m, depthbuf m)"
  using assms
proof (induction ops gstate mem v0 v1 v2 minX maxX maxY y m rule: DrawTriangle_rows.induct)
  case (1 ops gstate mem v0 v1 v2 minX maxX maxY y m)
  show ?case
  proof (cases "y \<le> maxY")
    case False
    then show ?thesis
      by (subst DrawTriangle_rows.simps) auto
  next
    case True
    have cy: "coord_ok y"
      using True "1.prems"(8,9) by (simp add: coord_ok_def)
    obtain m1 ws1 where p: "DrawTriangle_row ops gstate mem v0 v1 v2 maxX y minX m = Some m1"
        "writes m1 = writes m @ ws1"
        "set (color_positions ws1)
           = {(x', y'). y' = y \<and> minX \<le> x' \<and> x' \<le> maxX \<and> covered v0 v1 v2 x' y}"
        "distinct (color_positions ws1)"
        "depth_positions ws1 = []"
        "(fb m1, depthbuf m1) = stored gstate ws1 (fb m, depthbuf m)"
        "list_all (writes_color ops gstate mem v0 v1 v2) ws1"
      using DrawTriangle_row_nodepth[OF "1.prems"(1-7) cy] by blast
    have y1: "0 \<le> y + 1"
      using "1.prems"(8) by simp
    obtain m2 ws2 where r:
        "DrawTriangle_rows ops gstate mem v0 v1 v2 minX maxX maxY (y + 1) m1 = Some m2"
        "writes m2 = writes m1 @ ws2"
        "set (color_positions ws2)
           = {(x', y'). y + 1 \<le> y' \<and> y' \<le> maxY \<and> minX \<le> x' \<and> x' \<le> maxX
                 \<and> covered v0 v1 v2 x' y'}"
        "distinct (color_positions ws2)"
        "depth_positions ws2 = []"
        "(fb m2, depthbuf m2) = stored gstate ws2 (fb m1, depthbuf m1)"
        "list_all (writes_color ops gstate mem v0 v1 v2) ws2"
      using "1.IH"[OF True p(1) "1.prems"(1-7) y1 "1.prems"(9)] by blast
    have step: "DrawTriangle_rows ops gstate mem v0 v1 v2 minX maxX maxY y m = Some m2"
      using True p(1) r(1) by (subst DrawTriangle_rows.simps) simp
    have s: "set (color_positions (ws1 @ ws2))
            = {(x', y'). y \<le> y' \<and> y' \<le> maxY \<and> minX \<le> x' \<and> x' \<le> maxX
                  \<and> covered v0 v1 v2 x' y'}"
      using True p(3) r(3) by (auto simp: order_le_less)
    have "set (color_positions ws1) \<inter> set (color_positions ws2) = {}"
      unfolding p(3) r(3) by auto
    then have d: "distinct (color_positions (ws1 @ ws2))"
      using p(4) r(4) by simp
    have w: "writes m2 = writes m @ (ws1 @ ws2)"
      using p(2) r(2) by simp
    have z: "depth_positions (ws1 @ ws2) = []"
      using p(5) r(5) by simp
    have b: "(fb m2, depthbuf m2) = stored gstate (ws1 @ ws2) (fb m, depthbuf m)"
      using p(6) r(6) by simp
    have l: "list_all (writes_color ops gstate mem v0 v1 v2) (ws1 @ ws2)"
      using p(7) r(7) by simp
    from step w s d z l b show ?thesis by blast
  qed
qed

text \<open>
  The buffers after a trace of colour writes to distinct places.
\<close>

lemma stored_depth_unchanged:
  "depth_positions ws = [] \<Longrightarrow> snd (stored gstate ws b) = snd b"
proof (induction ws arbitrary: b)
  case Nil
  then show ?case by simp
next
  case (Cons w ws)
  then show ?case
    by (cases w; cases b) simp_all
qed

lemma stored_color_elsewhere:
  "i \<notin> (\<lambda>(x, y). pixel_index (FrameBufStride gstate) x y) ` set (color_positions ws)
     \<Longrightarrow> fst (stored gstate ws b) i = fst b i"
proof (induction ws arbitrary: b)
  case Nil
  then show ?case by simp
next
  case (Cons w ws)
  then show ?case
    by (cases w; cases b) auto
qed

lemma stored_color_at:
  assumes "list_all (writes_color ops gstate mem v0 v1 v2) ws"
    and "distinct (map (\<lambda>(x, y). pixel_index (FrameBufStride gstate) x y) (color_positions ws))"
    and "(x, y) \<in> set (color_positions ws)"
  shows "Some (fst (stored gstate ws b) (pixel_index (FrameBufStride gstate) x y))
           = pixel_final_color ops gstate mem v0 v1 v2 x y"
  using assms
proof (induction ws arbitrary: b)
  case Nil
  then show ?case by simp
next
  case (Cons w ws)
  obtain f d where b: "b = (f, d)" by (cases b)
  from Cons.prems(1) obtain x' y' c where w: "w = ColorWrite x' y' c"
    and c: "pixel_final_color ops gstate mem v0 v1 v2 x' y' = Some c"
    by (cases w) auto
  show ?case
  proof (cases "(x, y) \<in> set (color_positions ws)")
    case True
    then show ?thesis
      using Cons.IH[of "(f(pixel_index (FrameBufStride gstate) x' y' := c), d)"] Cons.prems(1,2)
      by (simp add: w b)
  next
    case False
    with Cons.prems(3) have xy: "x = x'" "y = y'"
      by (simp_all add: w)
    have "pixel_index (FrameBufStride gstate) x' y'
            \<notin> (\<lambda>(x, y). pixel_index (FrameBufStride gstate) x y) ` set (color_positions ws)"
      using Cons.prems(2) by (simp add: w)
    then have "fst (stored gstate ws (f(pixel_index (FrameBufStride gstate) x' y' := c), d))
                 (pixel_index (FrameBufStride gstate) x' y') = c"
      by (simp add: stored_color_elsewhere)
    then show ?thesis
      by (simp add: w b xy c)
  qed
qed

lemma pixel_index_inj:
  assumes "0 < stride" and "\<And>x y. (x, y) \<in> A \<Longrightarrow> 0 \<le> x \<and> x < stride"
  shows "inj_on (\<lambda>(x, y). pixel_index stride x y) A"
proof (rule inj_onI, clarify)
  fix x y x' y'
  assume a: "(x, y) \<in> A" "(x', y') \<in> A"
    and e: "pixel_index stride x y = pixel_index stride x' y'"
  from a assms(2) have r: "0 \<le> x" "x < stride" "0 \<le> x'" "x' < stride"
    by blast+
  from e have "x - x' = (y' - y) * stride"
    by (simp add: pixel_index_def algebra_simps)
  then have "stride dvd (x - x')"
    by simp
  moreover have "\<bar>x - x'\<bar> < stride"
    using r by simp
  ultimately have "x - x' = 0"
    using zdvd_not_zless[of "\<bar>x - x'\<bar>" stride] by (cases "x = x'") auto
  then have "x = x'" by simp
  with e assms(1) show "x = x' \<and> y = y'"
    by (simp add: pixel_index_def)
qed

text \<open>
  The examples evaluated.
\<close>

lemma vertex_at_ok: "coord_ok x \<Longrightarrow> coord_ok y \<Longrightarrow> vertex_ok (vertex_at x y z r)"
  by (simp add: vertex_ok_def vertex_at_def)

lemma ex_covered:
  "covered (vertex_at 0 0 z0 r0) (vertex_at 200 0 z1 r1) (vertex_at 0 200 z2 r2) 1 1"
  "covered (vertex_at 0 0 z0 r0) (vertex_at 10 0 z1 r1) (vertex_at 0 10 z2 r2) 1 1"
  by (simp_all add: covered_def weight0_def weight1_def weight2_def edge_def screen_pos_def
        vertex_at_def)

lemma ex_pixel_z_wraps:
  "pixel_z exact_ops (vertex_at 0 0 65535 0) (vertex_at 200 0 65535 0) (vertex_at 0 200 65535 0) 1 1
     = 23697"
proof -
  have f: "\<lfloor>(26149489 :: rat) / 625\<rfloor> = 41839"
    by (simp add: floor_eq_iff)
  show ?thesis
    by (simp add: pixel_z_def pixel_den_def persp_den_def interp_int_def weight0_def weight1_def
          weight2_def edge_def screen_pos_def vertex_at_def exact_ops_def int32_def c_trunc_def f)
qed

lemma ex_pixel_z_flat:
  "pixel_z exact_ops (vertex_at 0 0 5 0) (vertex_at 10 0 5 0) (vertex_at 0 10 5 0xF0) 1 1 = 5"
  by (simp add: pixel_z_def pixel_den_def persp_den_def interp_int_def weight0_def weight1_def
        weight2_def edge_def screen_pos_def vertex_at_def exact_ops_def int32_def c_trunc_def)

lemma ex_flat_color:
  "pixel_final_color exact_ops (depth_gstate f) mem (vertex_at x0 y0 z0 r0) (vertex_at x1 y1 z1 r1)
     (vertex_at x2 y2 z2 0xF0) x y = Some 0xF0"
  by (simp add: pixel_final_color_def pixel_base_color_def base_color_def depth_gstate_def
        ex_gstate_def vertex_at_def GE_SHADE_GOURAUD_def)

lemma ex_gstate_ok: "gstate_ok ex_gstate" "gstate_ok cut_gstate" "gstate_ok tex_gstate"
  by (simp_all add: gstate_ok_def coord_ok_def ex_gstate_def cut_gstate_def tex_gstate_def)

lemma ex_nodepth:
  "\<not> depth_test_applies ex_gstate" "\<not> depth_test_applies cut_gstate"
  "\<not> depth_test_applies tex_gstate"
  by (simp_all add: depth_test_applies_def ex_gstate_def cut_gstate_def tex_gstate_def)

lemma ex_texture_defined:
  "\<not> texture_undefined ex_gstate" "\<not> texture_undefined cut_gstate"
  by (simp_all add: texture_undefined_def ex_gstate_def cut_gstate_def)

lemma ex_untextured_color:
  "pixel_final_color exact_ops ex_gstate mem (vertex_at x0 y0 z0 r0) (vertex_at x1 y1 z1 r1)
     (vertex_at x2 y2 z2 0xF0) x y = Some 0xF0"
  "pixel_final_color exact_ops cut_gstate mem (vertex_at x0 y0 z0 r0) (vertex_at x1 y1 z1 r1)
     (vertex_at x2 y2 z2 0xF0) x y = Some 0xF0"
  by (simp_all add: pixel_final_color_def pixel_base_color_def base_color_def cut_gstate_def
        ex_gstate_def vertex_at_def GE_SHADE_GOURAUD_def)

lemma ex_region:
  "((x, y) \<in> {(x, y). in_bounding_box (vertex_at 0 0 0 0) (vertex_at 10 0 0 0) (vertex_at 0 10 0 0xF0) x y
                    \<and> in_scissor ex_gstate x y
                    \<and> covered (vertex_at 0 0 0 0) (vertex_at 10 0 0 0) (vertex_at 0 10 0 0xF0) x y})
     = (0 \<le> x \<and> 0 \<le> y \<and> x + y \<le> 10)"
  "((x, y) \<in> {(x, y). in_bounding_box (vertex_at 0 0 0 0) (vertex_at 10 0 0 0) (vertex_at 0 10 0 0xF0) x y
                    \<and> in_scissor cut_gstate x y
                    \<and> covered (vertex_at 0 0 0 0) (vertex_at 10 0 0 0) (vertex_at 0 10 0 0xF0) x y})
     = (2 \<le> x \<and> 2 \<le> y \<and> x + y \<le> 10 \<and> x \<le> 5 \<and> y \<le> 5)"
  by (auto simp: in_bounding_box_def in_scissor_def covered_def weight0_def weight1_def weight2_def
        edge_def screen_pos_def vertex_at_def ex_gstate_def cut_gstate_def)

lemma tex_sample: "SampleNearest exact_ops tex_gstate tex_memory 0 0 0 = Some 0x0F"
  by (simp add: SampleNearest_def tex_gstate_def ex_gstate_def tex_memory_def exact_ops_def
        c_trunc_def int32_def GE_TFMT_4444_def GE_TFMT_5551_def GE_TFMT_5650_def GE_TFMT_8888_def
        pack_rgba_def)

lemma ex_pixel_st:
  "pixel_s exact_ops (vertex_at 0 0 0 0) (vertex_at 10 0 0 0) (vertex_at 0 10 0 r) 1 1 = 0"
  "pixel_t exact_ops (vertex_at 0 0 0 0) (vertex_at 10 0 0 0) (vertex_at 0 10 0 r) 1 1 = 0"
  by (simp_all add: pixel_s_def pixel_t_def interp_float_def vertex_at_def exact_ops_def)

lemma ex_base_color:
  "pixel_base_color exact_ops tex_gstate (vertex_at 0 0 0 0) (vertex_at 10 0 0 0)
     (vertex_at 0 10 0 0xF0) 1 1 = 0xF0"
  by (simp add: pixel_base_color_def base_color_def tex_gstate_def ex_gstate_def vertex_at_def
        GE_SHADE_GOURAUD_def)

lemma ex_tex_enabled: "isTextureMapEnabled tex_gstate" "\<not> isModeClear tex_gstate"
  by (simp_all add: tex_gstate_def ex_gstate_def)

lemma ex_tex_DrawPixel:
  "DrawPixel exact_ops tex_gstate tex_memory
      (vertex_at 0 0 0 0) (vertex_at 10 0 0 0) (vertex_at 0 10 0 0xF0) 1 1 ex_mem
     = Some \<lparr>fb = (\<lambda>_. 0)(pixel_index 512 1 1 := 0xFF), depthbuf = (\<lambda>_. 0),
             writes = [ColorWrite 1 1 0xFF]\<rparr>"
proof -
  have c: "coord_ok 0" "coord_ok 1" "coord_ok 10"
    by (simp_all add: coord_ok_def)
  have fc: "pixel_final_color exact_ops tex_gstate tex_memory
              (vertex_at 0 0 0 0) (vertex_at 10 0 0 0) (vertex_at 0 10 0 0xF0) 1 1 = Some 0xFF"
    by (simp add: pixel_final_color_def ex_tex_enabled ex_pixel_st tex_sample ex_base_color)
  have st: "FrameBufStride tex_gstate = 512"
    by (simp add: tex_gstate_def ex_gstate_def)
  show ?thesis
    using ex_covered(2)[of 0 0 0 0 0 "0xF0"] ex_nodepth(3) c
    by (simp add: DrawPixel_effect vertex_at_ok fc st ex_mem_def)
qed

subsection \<open>Draw engine\<close>

lemma DecodeVerts_loop_fields [simp]:
  "numDrawCalls (DecodeVerts_loop lims s) = numDrawCalls s"
  "vertexCountInDrawCalls (DecodeVerts_loop lims s) = vertexCountInDrawCalls s"
  "drawCalls (DecodeVerts_loop lims s) = drawCalls s"
  "dec (DecodeVerts_loop lims s) = dec s"
  "lastVType (DecodeVerts_loop lims s) = lastVType s"
  "decoderMap (DecodeVerts_loop lims s) = decoderMap s"
  "prevPrim (DecodeVerts_loop lims s) = prevPrim s"
proof (induction lims s rule: DecodeVerts_loop.induct)
  case (1 lims s)
  {
    case 1
    from "1.IH"(1) show ?case by (subst DecodeVerts_loop.simps) simp
  next
    case 2
    from "1.IH"(2) show ?case by (subst DecodeVerts_loop.simps) simp
  next
    case 3
    from "1.IH"(3) show ?case by (subst DecodeVerts_loop.simps) simp
  next
    case 4
    from "1.IH"(4) show ?case by (subst DecodeVerts_loop.simps) simp
  next
    case 5
    from "1.IH"(5) show ?case by (subst DecodeVerts_loop.simps) simp
  next
    case 6
    from "1.IH"(6) show ?case by (subst DecodeVerts_loop.simps) simp
  next
    case 7
    from "1.IH"(7) show ?case by (subst DecodeVerts_loop.simps) simp
  }
qed

lemma DecodeVerts_fields [simp]:
  "numDrawCalls (DecodeVerts lims env s) = numDrawCalls s"
  "vertexCountInDrawCalls (DecodeVerts lims env s) = vertexCountInDrawCalls s"
  "drawCalls (DecodeVerts lims env s) = drawCalls s"
  "dec (DecodeVerts lims env s) = dec s"
  "lastVType (DecodeVerts lims env s) = lastVType s"
  "decoderMap (DecodeVerts lims env s) = decoderMap s"
  by (simp_all add: DecodeVerts_def Let_def)

lemma DoFlush_fields [simp]:
  "numDrawCalls (DoFlush lims env s) = 0"
  "vertexCountInDrawCalls (DoFlush lims env s) = 0"
  "decodedVerts (DoFlush lims env s) = 0"
  "decodeCounter (DoFlush lims env s) = 0"
  "prevPrim (DoFlush lims env s) = GE_PRIM_INVALID"
  "drawCalls (DoFlush lims env s) = drawCalls s"
  "dec (DoFlush lims env s) = dec s"
  "lastVType (DoFlush lims env s) = lastVType s"
  "decoderMap (DoFlush lims env s) = decoderMap s"
  by (simp_all add: DoFlush_def Let_def)

lemma Flush_fields [simp]:
  "drawCalls (Flush lims env s) = drawCalls s"
  "dec (Flush lims env s) = dec s"
  "lastVType (Flush lims env s) = lastVType s"
  "decoderMap (Flush lims env s) = decoderMap s"
  by (simp_all add: Flush_def)

lemma Flush_counters:
  "numDrawCalls (Flush lims env s) = 0"
  "vertexCountInDrawCalls (Flush lims env s) = (if numDrawCalls s = 0 then vertexCountInDrawCalls s else 0)"
  by (simp_all add: Flush_def)

lemma small_word_bit7: "(u :: u32) \<le> 3 \<Longrightarrow> \<not> bit u 7"
proof -
  assume "u \<le> 3"
  then have "unat u \<le> 3" by (simp add: word_le_nat_alt)
  then have "unat u = 0 \<or> unat u = 1 \<or> unat u = 2 \<or> unat u = 3" by arith
  then have "u = 0 \<or> u = 1 \<or> u = 2 \<or> u = 3"
    by (auto simp: word_unat_eq_iff)
  then show ?thesis by auto
qed

lemma effective_vtype_not_minus1:
  "getUVGenMode env \<le> 3 \<Longrightarrow> effective_vtype env vertType \<noteq> - 1"
proof
  assume u: "getUVGenMode env \<le> 3" and e: "effective_vtype env vertType = - 1"
  from e have "bit (effective_vtype env vertType) 31" by simp
  then have "bit (getUVGenMode env) 7"
    by (simp add: effective_vtype_def bit_simps)
  with small_word_bit7[OF u] show False by simp
qed

lemma Setup_fields [simp]:
  "numDrawCalls (SetupVertexDecoderInternal env vt s) = numDrawCalls s"
  "vertexCountInDrawCalls (SetupVertexDecoderInternal env vt s) = vertexCountInDrawCalls s"
  "drawCalls (SetupVertexDecoderInternal env vt s) = drawCalls s"
  "prevPrim (SetupVertexDecoderInternal env vt s) = prevPrim s"
  by (simp_all add: SetupVertexDecoderInternal_def GetVertexDecoder_def Let_def
        split: option.splits)

lemma Setup_dec:
  assumes "dec_ok s" and "effective_vtype env vt \<noteq> - 1"
  shows "dec (SetupVertexDecoderInternal env vt s) = Some (VertexDecoder (effective_vtype env vt))"
    and "dec_ok (SetupVertexDecoderInternal env vt s)"
  using assms
  by (auto simp: SetupVertexDecoderInternal_def GetVertexDecoder_def Let_def dec_ok_def
        effective_vtype_def split: option.splits)

lemma dec_ok_cong:
  "decoderMap s' = decoderMap s \<Longrightarrow> lastVType s' = lastVType s \<Longrightarrow> dec s' = dec s
     \<Longrightarrow> dec_ok s' = dec_ok s"
  by (simp add: dec_ok_def)

lemma flush_before_fields [simp]:
  "drawCalls (flush_before lims env p vc s) = drawCalls s"
  "dec (flush_before lims env p vc s) = dec s"
  "lastVType (flush_before lims env p vc s) = lastVType s"
  "decoderMap (flush_before lims env p vc s) = decoderMap s"
  by (simp_all add: flush_before_def)

lemma note_prim_fields [simp]:
  "numDrawCalls (note_prim p s) = numDrawCalls s"
  "vertexCountInDrawCalls (note_prim p s) = vertexCountInDrawCalls s"
  "drawCalls (note_prim p s) = drawCalls s"
  "dec (note_prim p s) = dec s"
  "lastVType (note_prim p s) = lastVType s"
  "decoderMap (note_prim p s) = decoderMap s"
  by (simp_all add: note_prim_def)

lemma append_call_fields [simp]:
  "numDrawCalls (append_call env v i p vc vt s) = numDrawCalls s + 1"
  "vertexCountInDrawCalls (append_call env v i p vc vt s) = vertexCountInDrawCalls s + vc"
  "dec (append_call env v i p vc vt s) = dec s"
  "lastVType (append_call env v i p vc vt s) = lastVType s"
  "decoderMap (append_call env v i p vc vt s) = decoderMap s"
  by (simp_all add: append_call_def Let_def)

lemma skinning_decode_fields [simp]:
  "numDrawCalls (skinning_decode lims env vt s) = numDrawCalls s"
  "vertexCountInDrawCalls (skinning_decode lims env vt s) = vertexCountInDrawCalls s"
  "drawCalls (skinning_decode lims env vt s) = drawCalls s"
  "dec (skinning_decode lims env vt s) = dec s"
  "lastVType (skinning_decode lims env vt s) = lastVType s"
  "decoderMap (skinning_decode lims env vt s) = decoderMap s"
  by (simp_all add: skinning_decode_def)

lemma flush_after_fields [simp]:
  "drawCalls (flush_after lims env p s) = drawCalls s"
  "dec (flush_after lims env p s) = dec s"
  "lastVType (flush_after lims env p s) = lastVType s"
  "decoderMap (flush_after lims env p s) = decoderMap s"
  by (simp_all add: flush_after_def)

lemma SubmitPrim_eq:
  assumes "dec_ok s" and "effective_vtype env vt \<noteq> - 1"
  shows "SubmitPrim lims env verts inds prim vc vt s
           = Some (submitted lims env verts inds prim vc vt s,
                   vc * VertexSize env (VertexDecoder (effective_vtype env vt)))"
proof -
  let ?s1 = "note_prim prim (flush_before lims env prim vc s)"
  have "dec_ok ?s1"
    using assms(1) dec_ok_cong[of ?s1 s] by simp
  then have "dec (SetupVertexDecoderInternal env vt ?s1) = Some (VertexDecoder (effective_vtype env vt))"
    using assms(2) by (rule Setup_dec(1))
  then show ?thesis
    by (simp add: SubmitPrim_def submitted_def Let_def)
qed

lemma submitted_dec_ok:
  assumes "dec_ok s" and "effective_vtype env vt \<noteq> - 1"
  shows "dec_ok (submitted lims env verts inds prim vc vt s)"
proof -
  let ?s1 = "note_prim prim (flush_before lims env prim vc s)"
  let ?s2 = "SetupVertexDecoderInternal env vt ?s1"
  have "dec_ok ?s1"
    using assms(1) dec_ok_cong[of ?s1 s] by simp
  then have ok: "dec_ok ?s2"
    using assms(2) by (rule Setup_dec(2))
  show ?thesis
  proof (cases "below_minimum vc (resolve_prim prim (flush_before lims env prim vc s))")
    case True
    with ok show ?thesis by (simp add: submitted_def Let_def)
  next
    case False
    let ?p = "resolve_prim prim (flush_before lims env prim vc s)"
    let ?s3 = "flush_after lims env ?p (skinning_decode lims env vt (append_call env verts inds ?p vc vt ?s2))"
    have "dec_ok ?s3 = dec_ok ?s2"
      by (rule dec_ok_cong) simp_all
    with ok False show ?thesis by (simp add: submitted_def Let_def)
  qed
qed

lemma flush_before_counters:
  "numDrawCalls (flush_before lims env p vc s) = (if flush_due lims env p vc s then 0 else numDrawCalls s)"
  "vertexCountInDrawCalls (flush_before lims env p vc s)
     = (if flush_due lims env p vc s \<and> numDrawCalls s \<noteq> 0 then 0 else vertexCountInDrawCalls s)"
  by (auto simp: flush_before_def flush_due_def Flush_def)

lemma Flush_cap_inv: "cap_inv lims s \<Longrightarrow> cap_inv lims (Flush lims env s)"
  by (auto simp: cap_inv_def Flush_def)

lemma flush_after_cap_inv: "cap_inv lims s \<Longrightarrow> cap_inv lims (flush_after lims env p s)"
  by (simp add: flush_after_def Flush_cap_inv)

lemma flush_before_room:
  assumes "1 \<le> MAX_DEFERRED_DRAW_CALLS lims" and "cap_inv lims s" and "0 \<le> vc"
    and "vc \<le> VERTEX_BUFFER_MAX lims"
  shows "cap_inv lims (flush_before lims env p vc s)"
    and "numDrawCalls (flush_before lims env p vc s) < MAX_DEFERRED_DRAW_CALLS lims"
    and "vertexCountInDrawCalls (flush_before lims env p vc s) + vc \<le> VERTEX_BUFFER_MAX lims"
  using assms
  by (auto simp: flush_before_counters cap_inv_def flush_due_def split: if_splits)

lemma submitted_cap_inv:
  assumes "1 \<le> MAX_DEFERRED_DRAW_CALLS lims" and "cap_inv lims s" and "0 \<le> vc"
    and "vc \<le> VERTEX_BUFFER_MAX lims"
  shows "cap_inv lims (submitted lims env verts inds prim vc vt s)"
proof -
  let ?s1 = "flush_before lims env prim vc s"
  let ?p = "resolve_prim prim ?s1"
  let ?s2 = "SetupVertexDecoderInternal env vt (note_prim prim ?s1)"
  note room = flush_before_room[OF assms, of env prim]
  have c2: "cap_inv lims ?s2"
    using room(1) by (simp add: cap_inv_def)
  show ?thesis
  proof (cases "below_minimum vc ?p")
    case True
    with c2 show ?thesis by (simp add: submitted_def Let_def)
  next
    case False
    let ?s4 = "skinning_decode lims env vt (append_call env verts inds ?p vc vt ?s2)"
    have "cap_inv lims ?s4"
      using room assms(3) by (simp add: cap_inv_def)
    then have "cap_inv lims (flush_after lims env ?p ?s4)"
      by (rule flush_after_cap_inv)
    with False show ?thesis by (simp add: submitted_def Let_def)
  qed
qed

lemma Submit_all_inv:
  assumes "1 \<le> MAX_DEFERRED_DRAW_CALLS lims"
  shows "cap_inv lims s \<Longrightarrow> dec_ok s \<Longrightarrow> \<forall>c \<in> set cs. call_ok lims c
           \<Longrightarrow> \<exists>s'. Submit_all lims s cs = Some s' \<and> cap_inv lims s' \<and> dec_ok s'"
proof (induction cs arbitrary: s)
  case Nil
  then show ?case by simp
next
  case (Cons c cs)
  let ?s1 = "submitted lims (sub_env c) (sub_verts c) (sub_inds c) (sub_prim c)
               (sub_vertexCount c) (sub_vertType c) s"
  from Cons.prems(3) have ok: "call_ok lims c" by simp
  then have e: "effective_vtype (sub_env c) (sub_vertType c) \<noteq> - 1"
    by (simp add: call_ok_def effective_vtype_not_minus1)
  have step: "SubmitPrim lims (sub_env c) (sub_verts c) (sub_inds c) (sub_prim c)
                (sub_vertexCount c) (sub_vertType c) s
              = Some (?s1, sub_vertexCount c
                        * VertexSize (sub_env c) (VertexDecoder (effective_vtype (sub_env c) (sub_vertType c))))"
    using Cons.prems(2) e by (rule SubmitPrim_eq)
  have "cap_inv lims ?s1"
    using assms Cons.prems(1) ok by (simp add: call_ok_def submitted_cap_inv)
  moreover have "dec_ok ?s1"
    using Cons.prems(2) e by (rule submitted_dec_ok)
  moreover have "\<forall>c \<in> set cs. call_ok lims c"
    using Cons.prems(3) by simp
  ultimately obtain s' where "Submit_all lims ?s1 cs = Some s'" "cap_inv lims s'" "dec_ok s'"
    using Cons.IH by blast
  with step show ?case by simp
qed

lemma below_minimum_too_few: "below_minimum vc p = too_few vc p"
  by (cases p) (auto simp: below_minimum_def too_few_def)

lemma dec_ok_new: "dec_ok new_DrawEngine"
  by (simp add: dec_ok_def new_DrawEngine_def)

lemma ex_env_vtype: "effective_vtype ex_env 0 \<noteq> - 1"
  by (simp add: effective_vtype_def ex_env_def)

lemma ex_submit_counters:
  "counters (submitted ex_lims ex_env 0x08800000 0 GE_PRIM_TRIANGLES 65535 0 new_DrawEngine) = (1, 65535)"
  "counters (submitted ex_lims ex_env 0x08800000 0 GE_PRIM_POINTS 65537 0 new_DrawEngine) = (1, 65537)"
  "counters (submitted ex_lims ex_env 0x08800000 0 GE_PRIM_LINES 1 0 new_DrawEngine) = (0, 0)"
  by (simp_all add: counters_def submitted_def Let_def flush_before_counters flush_due_def
        below_minimum_def resolve_prim_def flush_after_def ex_env_def ex_lims_def new_DrawEngine_def)

lemma ex_submit_reject_full:
  "counters s = (1, 65535) \<Longrightarrow>
   counters (submitted ex_lims ex_env 0x08800000 0 GE_PRIM_TRIANGLES 2 0 s) = (0, 0)"
  by (simp add: counters_def submitted_def Let_def flush_before_counters flush_due_def
        below_minimum_def resolve_prim_def flush_after_def ex_env_def ex_lims_def)

lemma DecodeVertsStep_indexed_eq:
  assumes "indexed_call (cursor_call s)" and "merged_range s = (lo, hi, lm)"
  shows "DecodeVertsStep lims s
           = decode_merged lims (dc_verts (cursor_call s)) lo hi lm
               (translate_switch (dc_indexType (cursor_call s)) lo lm (decodeCounter s)
                  (s\<lparr>indexGen := indexGen s @ [IG_SetIndex (decodedVerts s)]\<rparr>))"
  using assms
  by (simp add: DecodeVertsStep_def DecodeVertsStep_indexed_def indexed_call_def cursor_call_def
        merged_range_def Let_def)


lemma over_state_indexed: "indexed_call (cursor_call over_state)"
  by (simp add: indexed_call_def cursor_call_def over_state_def
        GE_VTYPE_IDX_NONE_def GE_VTYPE_IDX_SHIFT_def)

lemma int_range_insert: "j \<le> k \<Longrightarrow> {j..k} = insert j {j + 1..k}" for j k :: int
  by auto

lemma Min_insert_min: "finite S \<Longrightarrow> Min (insert (min a b) S) = Min (insert a (insert b S))"
  for a b :: int
  by (cases "S = {}") (simp_all add: min.assoc)

lemma Max_insert_max: "finite S \<Longrightarrow> Max (insert (max a b) S) = Max (insert a (insert b S))"
  for a b :: int
  by (cases "S = {}") (simp_all add: max.assoc)

lemma merge_scan_run:
  assumes "\<forall>m. j \<le> m \<and> m \<le> k \<longrightarrow> m < n \<and> dc_verts (dcs m) = v"
    and "k + 1 < n \<longrightarrow> dc_verts (dcs (k + 1)) \<noteq> v"
    and "j \<le> k + 1" and "j \<le> k \<or> lm = k"
  shows "merge_scan dcs n v j lo hi lm
           = (Min (insert lo ((\<lambda>m. dc_indexLowerBound (dcs m)) ` {j..k})),
              Max (insert hi ((\<lambda>m. dc_indexUpperBound (dcs m)) ` {j..k})), k)"
  using assms
proof (induction dcs n v j lo hi lm rule: merge_scan.induct)
  case (1 dcs n v j lo hi lm)
  show ?case
  proof (cases "j \<le> k")
    case True
    with "1.prems"(1) have jn: "j < n" and jv: "dc_verts (dcs j) = v" by auto
    have "merge_scan dcs n v (j + 1) (min lo (dc_indexLowerBound (dcs j)))
            (max hi (dc_indexUpperBound (dcs j))) j
          = (Min (insert (min lo (dc_indexLowerBound (dcs j)))
                    ((\<lambda>m. dc_indexLowerBound (dcs m)) ` {j + 1..k})),
             Max (insert (max hi (dc_indexUpperBound (dcs j)))
                    ((\<lambda>m. dc_indexUpperBound (dcs m)) ` {j + 1..k})), k)"
      using jn jv "1.prems" True by (intro "1.IH") auto
    moreover have "merge_scan dcs n v j lo hi lm
          = merge_scan dcs n v (j + 1) (min lo (dc_indexLowerBound (dcs j)))
              (max hi (dc_indexUpperBound (dcs j))) j"
      using jn jv by (subst merge_scan.simps) simp
    ultimately show ?thesis
      by (simp add: int_range_insert[OF True] Min_insert_min Max_insert_max)
  next
    case False
    with "1.prems" have jk: "j = k + 1" and lm: "lm = k" by auto
    from jk "1.prems"(2) have "\<not> (j < n \<and> dc_verts (dcs j) = v)" by auto
    then have "merge_scan dcs n v j lo hi lm = (lo, hi, lm)"
      by (subst merge_scan.simps) auto
    with jk lm show ?thesis by simp
  qed
qed

lemma merged_range_run:
  assumes "is_run (drawCalls s) (numDrawCalls s) (decodeCounter s) k"
  shows "merged_range s
           = (run_lower (drawCalls s) (decodeCounter s) k,
              run_upper (drawCalls s) (decodeCounter s) k, k)"
proof -
  let ?i = "decodeCounter s"
  from assms have ik: "?i \<le> k" and kn: "k < numDrawCalls s"
    and same: "\<forall>m. ?i + 1 \<le> m \<and> m \<le> k \<longrightarrow> dc_verts (drawCalls s m) = dc_verts (drawCalls s ?i)"
    and stop: "k + 1 < numDrawCalls s \<longrightarrow> dc_verts (drawCalls s (k + 1)) \<noteq> dc_verts (drawCalls s ?i)"
    by (auto simp: is_run_def list_all_iff split: if_splits)
  have "merge_scan (drawCalls s) (numDrawCalls s) (dc_verts (drawCalls s ?i)) (?i + 1)
          (dc_indexLowerBound (drawCalls s ?i)) (dc_indexUpperBound (drawCalls s ?i)) ?i
        = (Min (insert (dc_indexLowerBound (drawCalls s ?i))
                  ((\<lambda>m. dc_indexLowerBound (drawCalls s m)) ` {?i + 1..k})),
           Max (insert (dc_indexUpperBound (drawCalls s ?i))
                  ((\<lambda>m. dc_indexUpperBound (drawCalls s m)) ` {?i + 1..k})), k)"
    using ik kn same stop by (intro merge_scan_run) auto
  then show ?thesis
    by (simp add: merged_range_def cursor_call_def run_lower_def run_upper_def
          int_range_insert[OF ik])
qed







lemma range_1_2: "{1..2::int} = {1, 2}"
  by auto

lemma upto_1_2: "[1..2::int] = [1, 2]"
  by (simp add: upto.simps)

lemma upto_0_2: "[0..2::int] = [0, 1, 2]"
  by (simp add: upto.simps)

lemma over_state_run:
  "index_bits (dc_indexType (cursor_call over_state)) = Some 16"
  "is_run (drawCalls over_state) (numDrawCalls over_state) 1 2"
  "run_lower (drawCalls over_state) 1 2 = 0"
  "run_upper (drawCalls over_state) 1 2 = 65530"
  by (simp_all add: index_bits_def cursor_call_def over_state_def is_run_def
        run_lower_def run_upper_def range_1_2
        GE_VTYPE_IDX_8BIT_def GE_VTYPE_IDX_16BIT_def GE_VTYPE_IDX_SHIFT_def)

lemma fit_state_run:
  "index_bits (dc_indexType (cursor_call fit_state)) = Some 16"
  "is_run (drawCalls fit_state) (numDrawCalls fit_state) 1 2"
  "run_lower (drawCalls fit_state) 1 2 = 0"
  "run_upper (drawCalls fit_state) 1 2 = 200"
  "decodeCounter fit_state = 1"
  "decodedVerts fit_state = 10"
  by (simp_all add: index_bits_def cursor_call_def fit_state_def over_state_def is_run_def
        run_lower_def run_upper_def range_1_2
        GE_VTYPE_IDX_8BIT_def GE_VTYPE_IDX_16BIT_def GE_VTYPE_IDX_SHIFT_def)


lemma fit_state_translated:
  "concat (map (TranslatePrim_indices fit_memory 10)
             (run_translations (drawCalls fit_state) 16 0 1 2))
     = [10, 60, 110, 15, 110, 210]"
  by (simp add: run_translations_def fit_state_def over_state_def raw_index_def fit_memory_def
        upto_1_2 upto_0_2)

text \<open>
  The examples evaluated: the batch of a call with the index bounds \<open>[0, 65000]\<close>
  followed by a call without indices of 1002 vertices, and the two engines in the middle
  of decoding.
\<close>

lemma Setup_decode_fields [simp]:
  "decodeCounter (SetupVertexDecoderInternal env vt s) = decodeCounter s"
  "decodedVerts (SetupVertexDecoderInternal env vt s) = decodedVerts s"
  "decodeCounter (note_prim p s) = decodeCounter s"
  "decodedVerts (note_prim p s) = decodedVerts s"
  by (simp_all add: SetupVertexDecoderInternal_def GetVertexDecoder_def note_prim_def Let_def
        split: option.splits)

lemma wide_env_vtype: "effective_vtype wide_env 0x1000 \<noteq> - 1"
  by (simp add: effective_vtype_def wide_env_def ex_env_def)

lemma wide_batch_fields:
  fixes s1 s2 :: DrawEngine
  defines "s1 \<equiv> submitted ex_lims wide_env 0x08900000 0x08A00000 GE_PRIM_TRIANGLES 3 0x1000 new_DrawEngine"
  defines "s2 \<equiv> submitted ex_lims ex_env 0x08800000 0 GE_PRIM_TRIANGLES 1002 0 s1"
  shows "numDrawCalls s2 = 2" and "vertexCountInDrawCalls s2 = 1005"
    and "decodeCounter s2 = 0" and "decodedVerts s2 = 0"
    and "drawCalls s2 0 =
           \<lparr>dc_verts = 0x08900000, dc_inds = 0x08A00000, dc_vertType = 0x1000, dc_indexType = 2,
            dc_prim = GE_PRIM_TRIANGLES, dc_vertexCount = 3,
            dc_indexLowerBound = 0, dc_indexUpperBound = 65000\<rparr>"
    and "drawCalls s2 1 =
           \<lparr>dc_verts = 0x08800000, dc_inds = 0, dc_vertType = 0, dc_indexType = 0,
            dc_prim = GE_PRIM_TRIANGLES, dc_vertexCount = 1002,
            dc_indexLowerBound = 0, dc_indexUpperBound = 1001\<rparr>"
proof -
  have a: "numDrawCalls s1 = 1" "vertexCountInDrawCalls s1 = 3" "decodeCounter s1 = 0"
    "decodedVerts s1 = 0" "prevPrim s1 = GE_PRIM_TRIANGLES"
    "drawCalls s1 0 =
           \<lparr>dc_verts = 0x08900000, dc_inds = 0x08A00000, dc_vertType = 0x1000, dc_indexType = 2,
            dc_prim = GE_PRIM_TRIANGLES, dc_vertexCount = 3,
            dc_indexLowerBound = 0, dc_indexUpperBound = 65000\<rparr>"
    unfolding s1_def
    by (simp_all add: submitted_def Let_def flush_before_def below_minimum_def resolve_prim_def
          note_prim_def append_call_def skinning_decode_def flush_after_def
          SetupVertexDecoderInternal_def GetVertexDecoder_def
          wide_env_def ex_env_def ex_lims_def new_DrawEngine_def
          GE_VTYPE_IDX_MASK_def GE_VTYPE_IDX_SHIFT_def split: option.splits)
  show "numDrawCalls s2 = 2" and "vertexCountInDrawCalls s2 = 1005"
    and "decodeCounter s2 = 0" and "decodedVerts s2 = 0"
    and "drawCalls s2 0 =
           \<lparr>dc_verts = 0x08900000, dc_inds = 0x08A00000, dc_vertType = 0x1000, dc_indexType = 2,
            dc_prim = GE_PRIM_TRIANGLES, dc_vertexCount = 3,
            dc_indexLowerBound = 0, dc_indexUpperBound = 65000\<rparr>"
    and "drawCalls s2 1 =
           \<lparr>dc_verts = 0x08800000, dc_inds = 0, dc_vertType = 0, dc_indexType = 0,
            dc_prim = GE_PRIM_TRIANGLES, dc_vertexCount = 1002,
            dc_indexLowerBound = 0, dc_indexUpperBound = 1001\<rparr>"
    unfolding s2_def
    by (simp_all add: submitted_def Let_def flush_before_def below_minimum_def resolve_prim_def
          append_call_def skinning_decode_def flush_after_def a
          ex_env_def ex_lims_def GE_VTYPE_IDX_MASK_def GE_VTYPE_IDX_SHIFT_def)
qed

lemma DecodeVerts_decodedVerts:
  "decodedVerts (DecodeVerts lims env s) = decodedVerts (DecodeVerts_loop lims s)"
  by (simp add: DecodeVerts_def Let_def)

lemma DecodeVertsStep_plain_eq:
  assumes "\<not> indexed_call (cursor_call s)"
  shows "DecodeVertsStep lims s
           = DecodeVertsStep_plain (cursor_call s)
               (s\<lparr>indexGen := indexGen s @ [IG_SetIndex (decodedVerts s)]\<rparr>)"
  using assms
  by (simp add: DecodeVertsStep_def indexed_call_def cursor_call_def Let_def)

lemma wide_batch_decoded:
  fixes s1 s2 :: DrawEngine
  defines "s1 \<equiv> submitted ex_lims wide_env 0x08900000 0x08A00000 GE_PRIM_TRIANGLES 3 0x1000 new_DrawEngine"
  defines "s2 \<equiv> submitted ex_lims ex_env 0x08800000 0 GE_PRIM_TRIANGLES 1002 0 s1"
  shows "decodedVerts (DecodeVerts ex_lims ex_env s2) = 66003"
proof -
  note f = wide_batch_fields[folded s1_def, folded s2_def]
  let ?t = "DecodeVertsStep ex_lims s2"
  let ?s3 = "?t\<lparr>decodeCounter := decodeCounter ?t + 1\<rparr>"
  let ?u = "DecodeVertsStep ex_lims ?s3"
  let ?s4 = "?u\<lparr>decodeCounter := decodeCounter ?u + 1\<rparr>"
  have i: "indexed_call (cursor_call s2)"
    by (simp add: indexed_call_def cursor_call_def f GE_VTYPE_IDX_NONE_def GE_VTYPE_IDX_SHIFT_def)
  have m: "merged_range s2 = (0, 65000, 0)"
    by (simp add: merged_range_def cursor_call_def f merge_scan.simps)
  have t: "decodedVerts ?t = 65001" "decodeCounter ?t = 0"
    unfolding DecodeVertsStep_indexed_eq[OF i m]
    by (simp_all add: decode_merged_def f ex_lims_def)
  have s3: "decodedVerts ?s3 = 65001" "decodeCounter ?s3 = 1" "numDrawCalls ?s3 = 2"
    "drawCalls ?s3 1 = drawCalls s2 1"
    by (simp_all add: t f)
  have c: "cursor_call ?s3 = drawCalls s2 1"
    unfolding cursor_call_def s3(2) by (rule s3(4))
  have ni: "\<not> indexed_call (cursor_call ?s3)"
    unfolding c by (simp add: indexed_call_def f GE_VTYPE_IDX_NONE_def GE_VTYPE_IDX_SHIFT_def)
  have u: "decodedVerts ?u = 66003" "decodeCounter ?u = 1"
    unfolding DecodeVertsStep_plain_eq[OF ni] c
    by (simp_all add: DecodeVertsStep_plain_def s3 t f)
  have s4: "decodedVerts ?s4 = 66003" "decodeCounter ?s4 = 2" "numDrawCalls ?s4 = 2"
    by (simp_all add: u f)
  have "DecodeVerts_loop ex_lims s2 = DecodeVerts_loop ex_lims ?s3"
    by (subst DecodeVerts_loop.simps) (simp add: f)
  also have "\<dots> = DecodeVerts_loop ex_lims ?s4"
    by (subst DecodeVerts_loop.simps) (simp add: s3 t f)
  also have "\<dots> = ?s4"
    by (subst DecodeVerts_loop.simps) (simp add: s4 u f)
  finally show ?thesis
    by (simp add: DecodeVerts_decodedVerts s4)
qed

lemma fit_state_indexed: "indexed_call (cursor_call fit_state)"
  by (simp add: indexed_call_def cursor_call_def fit_state_def over_state_def
        GE_VTYPE_IDX_NONE_def GE_VTYPE_IDX_SHIFT_def)


lemma example_counts:
  "decodedVerts over_state = 10" "decodeCounter over_state = 1"
  "decoded over_state = [DecodeVertsCall (Some (VertexDecoder 0x1000)) 0 0x08800000 0 9]"
  "decodedVerts fit_state = 10" "decodeCounter fit_state = 1"
  "decoded fit_state = [DecodeVertsCall (Some (VertexDecoder 0x1000)) 0 0x08800000 0 9]"
  "VERTEX_BUFFER_MAX ex_lims = 65536"
  by (simp_all add: fit_state_def over_state_def ex_lims_def)

section \<open>Properties of the rasterizer\<close>

subsection \<open>The depth test\<close>

text \<open>
  Claim C5. \<^verbatim>\<open>DepthTestPassed\<close> passes in clear mode and otherwise decides by the
  eight-function table on the unsigned incoming depth and the depth that the depth
  buffer holds at the pixel's place \<open>x + y * stride\<close>. At a covered pixel within the
  ranges where depth testing applies: if the test on the interpolated depth fails, the
  loop body leaves the two buffers and the trace of writes as they were (neither colour
  nor depth is written); if it passes, the depth buffer receives the interpolated depth
  at the pixel's place if and only if depth write is enabled or the clear-mode bit is
  set, and is otherwise unchanged, and the colour buffer receives a colour at the
  pixel's place. (The body has no result exactly when a texture of an unhandled format
  is sampled.)
\<close>

theorem depth_test_table_and_skip:
  "(coord_ok x \<and> coord_ok y \<and> gstate_ok gstate \<longrightarrow>
      DepthTestPassed gstate x y z m =
        (isModeClear gstate \<or>
         depth_compare_table (getDepthTestFunc gstate) (unat z)
           (unat (depthbuf m (pixel_index (DepthBufStride gstate) x y)))))
   \<and> (vertex_ok v0 \<and> vertex_ok v1 \<and> vertex_ok v2 \<and> coord_ok x \<and> coord_ok y \<and> gstate_ok gstate
        \<and> covered v0 v1 v2 x y \<and> depth_test_applies gstate \<longrightarrow>
        (if depth_passes ops gstate v0 v1 v2 x y m
         then (case DrawPixel ops gstate mem v0 v1 v2 x y m of
                 None \<Rightarrow> texture_undefined gstate
               | Some m' \<Rightarrow>
                   \<not> texture_undefined gstate \<and>
                   (\<exists>c. fb m' = (fb m)(pixel_index (FrameBufStride gstate) x y := c)
                      \<and> depthbuf m'
                          = (if depth_write_on gstate
                             then (depthbuf m)(pixel_index (DepthBufStride gstate) x y
                                                 := pixel_z ops v0 v1 v2 x y)
                             else depthbuf m)
                      \<and> writes m'
                          = writes m
                            @ (if depth_write_on gstate
                               then [DepthWrite x y (pixel_z ops v0 v1 v2 x y)] else [])
                            @ [ColorWrite x y c]))
         else DrawPixel ops gstate mem v0 v1 v2 x y m = Some m))"
proof -
  have table: "DepthTestPassed gstate x y z m =
     (isModeClear gstate \<or>
      depth_compare_table (getDepthTestFunc gstate) (unat z)
        (unat (depthbuf m (pixel_index (DepthBufStride gstate) x y))))"
    by (rule DepthTestPassed_table)
  have body: "(if depth_passes ops gstate v0 v1 v2 x y m
         then (case DrawPixel ops gstate mem v0 v1 v2 x y m of
                 None \<Rightarrow> texture_undefined gstate
               | Some m' \<Rightarrow>
                   \<not> texture_undefined gstate \<and>
                   (\<exists>c. fb m' = (fb m)(pixel_index (FrameBufStride gstate) x y := c)
                      \<and> depthbuf m'
                          = (if depth_write_on gstate
                             then (depthbuf m)(pixel_index (DepthBufStride gstate) x y
                                                 := pixel_z ops v0 v1 v2 x y)
                             else depthbuf m)
                      \<and> writes m'
                          = writes m
                            @ (if depth_write_on gstate
                               then [DepthWrite x y (pixel_z ops v0 v1 v2 x y)] else [])
                            @ [ColorWrite x y c]))
         else DrawPixel ops gstate mem v0 v1 v2 x y m = Some m)"
    if ok: "vertex_ok v0" "vertex_ok v1" "vertex_ok v2" "coord_ok x" "coord_ok y"
      and cov: "covered v0 v1 v2 x y" and app: "depth_test_applies gstate"
  proof (cases "pixel_final_color ops gstate mem v0 v1 v2 x y")
    case None
    then have "texture_undefined gstate"
      by (simp add: pixel_final_color_None)
    with None cov app show ?thesis
      by (simp add: DrawPixel_effect[OF ok])
  next
    case (Some c)
    then have "\<not> texture_undefined gstate"
      using pixel_final_color_None[of ops gstate mem v0 v1 v2 x y] by simp
    with Some cov app show ?thesis
      by (simp add: DrawPixel_effect[OF ok])
  qed
  from table body show ?thesis by blast
qed

text \<open>
  The theorem at two pixels. At the pixel \<open>(1, 1)\<close> of the triangle
  \<open>(0,0), (200,0), (0,200)\<close> with depth 65535 at the three vertices, the function
  \<^verbatim>\<open>GEQUAL\<close> and the buffer depth 30000: the 32-bit product \<open>65535 * 39600\<close>
  wraps, the interpolated depth is 23697, the test fails and nothing is written. At the
  pixel \<open>(1, 1)\<close> of the triangle \<open>(0,0), (10,0), (0,10)\<close> with depth 5, the
  function \<^verbatim>\<open>LESS\<close>, depth write enabled and the buffer depth 9: the test passes,
  the depth 5 and the colour \<open>0xF0\<close> are stored at the place 513, and the
  neighbouring place 514 keeps its contents.
\<close>

theorem depth_test_witness:
  "vertex_ok (vertex_at 0 0 65535 0) \<and> vertex_ok (vertex_at 200 0 65535 0)
   \<and> vertex_ok (vertex_at 0 200 65535 0) \<and> coord_ok 1 \<and> gstate_ok (depth_gstate GE_COMP_GEQUAL)
   \<and> covered (vertex_at 0 0 65535 0) (vertex_at 200 0 65535 0) (vertex_at 0 200 65535 0) 1 1
   \<and> depth_test_applies (depth_gstate GE_COMP_GEQUAL)
   \<and> pixel_z exact_ops (vertex_at 0 0 65535 0) (vertex_at 200 0 65535 0) (vertex_at 0 200 65535 0) 1 1
       = 23697
   \<and> DrawPixel exact_ops (depth_gstate GE_COMP_GEQUAL) (\<lambda>_. 0)
        (vertex_at 0 0 65535 0) (vertex_at 200 0 65535 0) (vertex_at 0 200 65535 0) 1 1
        (depth_mem 30000)
       = Some (depth_mem 30000)
   \<and> vertex_ok (vertex_at 0 0 5 0) \<and> vertex_ok (vertex_at 10 0 5 0)
   \<and> vertex_ok (vertex_at 0 10 5 0xF0) \<and> gstate_ok (depth_gstate GE_COMP_LESS)
   \<and> covered (vertex_at 0 0 5 0) (vertex_at 10 0 5 0) (vertex_at 0 10 5 0xF0) 1 1
   \<and> depth_test_applies (depth_gstate GE_COMP_LESS)
   \<and> (\<exists>m'. DrawPixel exact_ops (depth_gstate GE_COMP_LESS) (\<lambda>_. 0)
              (vertex_at 0 0 5 0) (vertex_at 10 0 5 0) (vertex_at 0 10 5 0xF0) 1 1 (depth_mem 9)
            = Some m'
          \<and> depthbuf m' 513 = 5 \<and> depthbuf m' 514 = 9
          \<and> fb m' 513 = 0xF0 \<and> fb m' 514 = 0
          \<and> writes m' = [DepthWrite 1 1 5, ColorWrite 1 1 0xF0])"
proof -
  let ?g = "depth_gstate GE_COMP_GEQUAL" and ?l = "depth_gstate GE_COMP_LESS"
  let ?a0 = "vertex_at 0 0 65535 0" and ?a1 = "vertex_at 200 0 65535 0"
  let ?a2 = "vertex_at 0 200 65535 0"
  let ?b0 = "vertex_at 0 0 5 0" and ?b1 = "vertex_at 10 0 5 0" and ?b2 = "vertex_at 0 10 5 0xF0"
  have c: "coord_ok 0" "coord_ok 1" "coord_ok 10" "coord_ok 200"
    by (simp_all add: coord_ok_def)
  have va: "vertex_ok ?a0" "vertex_ok ?a1" "vertex_ok ?a2"
    and vb: "vertex_ok ?b0" "vertex_ok ?b1" "vertex_ok ?b2"
    using c by (simp_all add: vertex_at_ok)
  have g: "gstate_ok ?g" "gstate_ok ?l"
    by (simp_all add: gstate_ok_def depth_gstate_def ex_gstate_def coord_ok_def)
  have app: "depth_test_applies ?g" "depth_test_applies ?l"
    by (simp_all add: depth_test_applies_def depth_gstate_def ex_gstate_def)
  have won: "depth_write_on ?l"
    by (simp add: depth_write_on_def depth_gstate_def ex_gstate_def)
  have tu: "\<not> texture_undefined ?l"
    by (simp add: texture_undefined_def depth_gstate_def ex_gstate_def)
  have ix: "pixel_index (DepthBufStride ?l) 1 1 = 513" "pixel_index (FrameBufStride ?l) 1 1 = 513"
    by (simp_all add: pixel_index_def depth_gstate_def ex_gstate_def)
  have fails: "\<not> depth_passes exact_ops ?g ?a0 ?a1 ?a2 1 1 (depth_mem 30000)"
    by (simp add: depth_passes_def ex_pixel_z_wraps depth_gstate_def ex_gstate_def depth_mem_def)
  have passes: "depth_passes exact_ops ?l ?b0 ?b1 ?b2 1 1 (depth_mem 9)"
    by (simp add: depth_passes_def ex_pixel_z_flat depth_gstate_def ex_gstate_def depth_mem_def)
  have skip: "DrawPixel exact_ops ?g (\<lambda>_. 0) ?a0 ?a1 ?a2 1 1 (depth_mem 30000)
                = Some (depth_mem 30000)"
    using depth_test_table_and_skip[of 1 1 ?g 0 "depth_mem 30000" ?a0 ?a1 ?a2 exact_ops "\<lambda>_. 0"]
      va c g(1) ex_covered(1) app(1) fails
    by simp
  have drawn: "\<exists>m'. DrawPixel exact_ops ?l (\<lambda>_. 0) ?b0 ?b1 ?b2 1 1 (depth_mem 9) = Some m'
          \<and> depthbuf m' 513 = 5 \<and> depthbuf m' 514 = 9
          \<and> fb m' 513 = 0xF0 \<and> fb m' 514 = 0
          \<and> writes m' = [DepthWrite 1 1 5, ColorWrite 1 1 0xF0]"
    using vb c(1,2) ex_covered(2)[of 5 0 5 0 5 "0xF0"] passes app(2) won tu
    by (simp add: DrawPixel_effect ex_flat_color ex_pixel_z_flat ix depth_mem_def)
  show ?thesis
    using va vb c g app ex_covered ex_pixel_z_wraps skip drawn by simp
qed

subsection \<open>Coverage\<close>

text \<open>
  Claim C6. Within the ranges, when depth testing does not apply (and no texture of an
  unhandled format is sampled, where the source has no defined result),
  \<^verbatim>\<open>DrawTriangle\<close> returns and only appends to the trace of writes; the positions
  at which it calls \<^verbatim>\<open>SetPixelColor\<close> are exactly the integer positions inside the
  bounding box and inside the scissor rectangle at which the three edge functions are
  non-negative, each written once; there is no depth write and the depth buffer is
  unchanged; the colour buffer is unchanged at every place that is not the place of a
  written position; and, when the scissor rectangle lies within a row of the colour
  buffer, the colour buffer holds at the place of each written position the colour
  computed for it.
\<close>

theorem raster_containment:
  "vertex_ok v0 \<and> vertex_ok v1 \<and> vertex_ok v2 \<and> gstate_ok gstate
   \<and> \<not> depth_test_applies gstate \<and> \<not> texture_undefined gstate \<longrightarrow>
     (\<exists>m' ws. DrawTriangle ops gstate mem v0 v1 v2 m = Some m'
        \<and> writes m' = writes m @ ws
        \<and> set (color_positions ws)
            = {(x, y). in_bounding_box v0 v1 v2 x y \<and> in_scissor gstate x y
                     \<and> covered v0 v1 v2 x y}
        \<and> distinct (color_positions ws)
        \<and> depth_positions ws = []
        \<and> depthbuf m' = depthbuf m
        \<and> (\<forall>i. i \<notin> (\<lambda>(x, y). pixel_index (FrameBufStride gstate) x y) ` set (color_positions ws)
               \<longrightarrow> fb m' i = fb m i)
        \<and> (getScissorX2 gstate < FrameBufStride gstate \<longrightarrow>
             (\<forall>(x, y) \<in> set (color_positions ws).
                Some (fb m' (pixel_index (FrameBufStride gstate) x y))
                  = pixel_final_color ops gstate mem v0 v1 v2 x y)))"
proof
  assume a: "vertex_ok v0 \<and> vertex_ok v1 \<and> vertex_ok v2 \<and> gstate_ok gstate
   \<and> \<not> depth_test_applies gstate \<and> \<not> texture_undefined gstate"
  then have v: "vertex_ok v0" "vertex_ok v1" "vertex_ok v2" and g: "gstate_ok gstate"
    and nd: "\<not> depth_test_applies gstate" and nt: "\<not> texture_undefined gstate"
    by simp_all
  let ?ix = "\<lambda>(x, y). pixel_index (FrameBufStride gstate) x y"
  obtain m' ws where r:
      "DrawTriangle_rows ops gstate mem v0 v1 v2 (tri_minX gstate v0 v1 v2) (tri_maxX gstate v0 v1 v2)
         (tri_maxY gstate v0 v1 v2) (tri_minY gstate v0 v1 v2) m = Some m'"
      "writes m' = writes m @ ws"
      "set (color_positions ws)
         = {(x', y'). tri_minY gstate v0 v1 v2 \<le> y' \<and> y' \<le> tri_maxY gstate v0 v1 v2
                    \<and> tri_minX gstate v0 v1 v2 \<le> x' \<and> x' \<le> tri_maxX gstate v0 v1 v2
                    \<and> covered v0 v1 v2 x' y'}"
      "distinct (color_positions ws)"
      "depth_positions ws = []"
      "(fb m', depthbuf m') = stored gstate ws (fb m, depthbuf m)"
      "list_all (writes_color ops gstate mem v0 v1 v2) ws"
    using DrawTriangle_rows_nodepth[OF nd nt v tri_bounds_range[OF g]] by blast
  have region: "set (color_positions ws)
            = {(x, y). in_bounding_box v0 v1 v2 x y \<and> in_scissor gstate x y
                     \<and> covered v0 v1 v2 x y}"
    unfolding r(3) using tri_bounds[of gstate v0 v1 v2] by auto
  have f: "fb m' = fst (stored gstate ws (fb m, depthbuf m))"
    and d: "depthbuf m' = snd (stored gstate ws (fb m, depthbuf m))"
    using r(6) by (simp_all flip: r(6))
  have dep: "depthbuf m' = depthbuf m"
    using stored_depth_unchanged[OF r(5), of gstate "(fb m, depthbuf m)"] d by simp
  have els: "\<forall>i. i \<notin> ?ix ` set (color_positions ws) \<longrightarrow> fb m' i = fb m i"
    using stored_color_elsewhere[of _ gstate ws "(fb m, depthbuf m)"] f by simp
  have at: "\<forall>(x, y) \<in> set (color_positions ws).
                Some (fb m' (pixel_index (FrameBufStride gstate) x y))
                  = pixel_final_color ops gstate mem v0 v1 v2 x y"
    if s: "getScissorX2 gstate < FrameBufStride gstate"
  proof -
    have "0 \<le> x \<and> x < FrameBufStride gstate" if "(x, y) \<in> set (color_positions ws)" for x y
      using that g s unfolding region in_scissor_def gstate_ok_def coord_ok_def by simp
    moreover have "0 < FrameBufStride gstate"
      using g s unfolding gstate_ok_def coord_ok_def by simp
    ultimately have "inj_on ?ix (set (color_positions ws))"
      using pixel_index_inj[of "FrameBufStride gstate" "set (color_positions ws)"] by blast
    then have "distinct (map ?ix (color_positions ws))"
      using r(4) by (simp add: distinct_map)
    then show ?thesis
      using stored_color_at[OF r(7), of _ _ "(fb m, depthbuf m)"] f by auto
  qed
  from r(1,2,4,5) region dep els at
  show "\<exists>m' ws. DrawTriangle ops gstate mem v0 v1 v2 m = Some m'
        \<and> writes m' = writes m @ ws
        \<and> set (color_positions ws)
            = {(x, y). in_bounding_box v0 v1 v2 x y \<and> in_scissor gstate x y
                     \<and> covered v0 v1 v2 x y}
        \<and> distinct (color_positions ws)
        \<and> depth_positions ws = []
        \<and> depthbuf m' = depthbuf m
        \<and> (\<forall>i. i \<notin> (\<lambda>(x, y). pixel_index (FrameBufStride gstate) x y) ` set (color_positions ws)
               \<longrightarrow> fb m' i = fb m i)
        \<and> (getScissorX2 gstate < FrameBufStride gstate \<longrightarrow>
             (\<forall>(x, y) \<in> set (color_positions ws).
                Some (fb m' (pixel_index (FrameBufStride gstate) x y))
                  = pixel_final_color ops gstate mem v0 v1 v2 x y))"
    unfolding DrawTriangle_def by blast
qed

text \<open>
  The theorem at the triangle \<open>(0,0), (10,0), (0,10)\<close>, flat-shaded with the colour
  \<open>0xF0\<close>, on an empty colour buffer. With the scissor rectangle
  \<open>(0,0)-(20,20)\<close> the pixels \<open>(0,0)\<close> and \<open>(1,1)\<close> are written and hold
  the colour, and \<open>(10,10)\<close> is not written and holds 0. With the scissor rectangle
  \<open>(2,2)-(5,5)\<close> the pixel \<open>(1,1)\<close>, inside the triangle and outside the
  rectangle, is not written, \<open>(2,2)\<close> is, and so is \<open>(5,5)\<close>, which lies on the
  longest edge.
\<close>

theorem raster_containment_example:
  "vertex_ok (vertex_at 0 0 0 0) \<and> vertex_ok (vertex_at 10 0 0 0) \<and> vertex_ok (vertex_at 0 10 0 0xF0)
   \<and> gstate_ok ex_gstate \<and> \<not> depth_test_applies ex_gstate \<and> \<not> texture_undefined ex_gstate
   \<and> getScissorX2 ex_gstate < FrameBufStride ex_gstate
   \<and> (\<exists>m'. DrawTriangle exact_ops ex_gstate (\<lambda>_. 0)
               (vertex_at 0 0 0 0) (vertex_at 10 0 0 0) (vertex_at 0 10 0 0xF0) ex_mem = Some m'
          \<and> (0, 0) \<in> set (color_positions (writes m'))
          \<and> (1, 1) \<in> set (color_positions (writes m'))
          \<and> (10, 10) \<notin> set (color_positions (writes m'))
          \<and> fb m' (pixel_index 512 0 0) = 0xF0
          \<and> fb m' (pixel_index 512 1 1) = 0xF0
          \<and> fb m' (pixel_index 512 10 10) = 0)
   \<and> gstate_ok cut_gstate \<and> \<not> depth_test_applies cut_gstate \<and> \<not> texture_undefined cut_gstate
   \<and> getScissorX2 cut_gstate < FrameBufStride cut_gstate
   \<and> (\<exists>m'. DrawTriangle exact_ops cut_gstate (\<lambda>_. 0)
               (vertex_at 0 0 0 0) (vertex_at 10 0 0 0) (vertex_at 0 10 0 0xF0) ex_mem = Some m'
          \<and> (1, 1) \<notin> set (color_positions (writes m'))
          \<and> (2, 2) \<in> set (color_positions (writes m'))
          \<and> (5, 5) \<in> set (color_positions (writes m'))
          \<and> (5, 6) \<notin> set (color_positions (writes m'))
          \<and> fb m' (pixel_index 512 1 1) = 0
          \<and> fb m' (pixel_index 512 2 2) = 0xF0
          \<and> fb m' (pixel_index 512 5 5) = 0xF0)"
proof -
  let ?v0 = "vertex_at 0 0 0 0" and ?v1 = "vertex_at 10 0 0 0" and ?v2 = "vertex_at 0 10 0 0xF0"
  have c: "coord_ok 0" "coord_ok 10"
    by (simp_all add: coord_ok_def)
  have v: "vertex_ok ?v0" "vertex_ok ?v1" "vertex_ok ?v2"
    using c by (simp_all add: vertex_at_ok)
  have st: "FrameBufStride ex_gstate = 512" "FrameBufStride cut_gstate = 512"
    "getScissorX2 ex_gstate = 20" "getScissorX2 cut_gstate = 5"
    by (simp_all add: ex_gstate_def cut_gstate_def)
  have w0: "writes ex_mem = []" and f0: "fb ex_mem = (\<lambda>_. 0)"
    by (simp_all add: ex_mem_def)
  have one: "\<exists>m'. DrawTriangle exact_ops ex_gstate (\<lambda>_. 0) ?v0 ?v1 ?v2 ex_mem = Some m'
          \<and> (0, 0) \<in> set (color_positions (writes m'))
          \<and> (1, 1) \<in> set (color_positions (writes m'))
          \<and> (10, 10) \<notin> set (color_positions (writes m'))
          \<and> fb m' (pixel_index 512 0 0) = 0xF0
          \<and> fb m' (pixel_index 512 1 1) = 0xF0
          \<and> fb m' (pixel_index 512 10 10) = 0"
  proof -
    have h: "vertex_ok ?v0 \<and> vertex_ok ?v1 \<and> vertex_ok ?v2 \<and> gstate_ok ex_gstate
               \<and> \<not> depth_test_applies ex_gstate \<and> \<not> texture_undefined ex_gstate"
      using v ex_gstate_ok(1) ex_nodepth(1) ex_texture_defined(1) by simp
    from raster_containment[of ?v0 ?v1 ?v2 ex_gstate exact_ops "\<lambda>_. 0" ex_mem, THEN mp, OF h]
    obtain m' ws where raw:
      "DrawTriangle exact_ops ex_gstate (\<lambda>_. 0) ?v0 ?v1 ?v2 ex_mem = Some m'"
      "writes m' = writes ex_mem @ ws"
      "set (color_positions ws)
         = {(x, y). in_bounding_box ?v0 ?v1 ?v2 x y \<and> in_scissor ex_gstate x y
                  \<and> covered ?v0 ?v1 ?v2 x y}"
      "\<forall>i. i \<notin> (\<lambda>(x, y). pixel_index (FrameBufStride ex_gstate) x y) ` set (color_positions ws)
           \<longrightarrow> fb m' i = fb ex_mem i"
      "getScissorX2 ex_gstate < FrameBufStride ex_gstate \<longrightarrow>
         (\<forall>(x, y) \<in> set (color_positions ws).
            Some (fb m' (pixel_index (FrameBufStride ex_gstate) x y))
              = pixel_final_color exact_ops ex_gstate (\<lambda>_. 0) ?v0 ?v1 ?v2 x y)"
      by blast
    have r2: "writes m' = ws"
      using raw(2) by (simp add: w0)
    have r3: "((x, y) \<in> set (color_positions ws)) = (0 \<le> x \<and> 0 \<le> y \<and> x + y \<le> 10)" for x y
      unfolding raw(3) by (rule ex_region(1))
    have r4: "fb m' i = 0" if "i \<notin> (\<lambda>(x, y). pixel_index 512 x y) ` set (color_positions ws)" for i
      using raw(4) that by (simp add: st f0)
    have r5: "fb m' (pixel_index 512 x y) = 0xF0" if "(x, y) \<in> set (color_positions ws)" for x y
      using raw(5) that by (auto simp: st ex_untextured_color)
    have "pixel_index 512 10 10 \<notin> (\<lambda>(x, y). pixel_index 512 x y) ` set (color_positions ws)"
      by (auto simp: r3 pixel_index_def)
    then have "fb m' (pixel_index 512 10 10) = 0"
      by (rule r4)
    with raw(1) r2 r3[of 0 0] r3[of 1 1] r3[of 10 10] r5[of 0 0] r5[of 1 1]
    show ?thesis by simp
  qed
  have two: "\<exists>m'. DrawTriangle exact_ops cut_gstate (\<lambda>_. 0) ?v0 ?v1 ?v2 ex_mem = Some m'
          \<and> (1, 1) \<notin> set (color_positions (writes m'))
          \<and> (2, 2) \<in> set (color_positions (writes m'))
          \<and> (5, 5) \<in> set (color_positions (writes m'))
          \<and> (5, 6) \<notin> set (color_positions (writes m'))
          \<and> fb m' (pixel_index 512 1 1) = 0
          \<and> fb m' (pixel_index 512 2 2) = 0xF0
          \<and> fb m' (pixel_index 512 5 5) = 0xF0"
  proof -
    have h: "vertex_ok ?v0 \<and> vertex_ok ?v1 \<and> vertex_ok ?v2 \<and> gstate_ok cut_gstate
               \<and> \<not> depth_test_applies cut_gstate \<and> \<not> texture_undefined cut_gstate"
      using v ex_gstate_ok(2) ex_nodepth(2) ex_texture_defined(2) by simp
    from raster_containment[of ?v0 ?v1 ?v2 cut_gstate exact_ops "\<lambda>_. 0" ex_mem, THEN mp, OF h]
    obtain m' ws where raw:
      "DrawTriangle exact_ops cut_gstate (\<lambda>_. 0) ?v0 ?v1 ?v2 ex_mem = Some m'"
      "writes m' = writes ex_mem @ ws"
      "set (color_positions ws)
         = {(x, y). in_bounding_box ?v0 ?v1 ?v2 x y \<and> in_scissor cut_gstate x y
                  \<and> covered ?v0 ?v1 ?v2 x y}"
      "\<forall>i. i \<notin> (\<lambda>(x, y). pixel_index (FrameBufStride cut_gstate) x y) ` set (color_positions ws)
           \<longrightarrow> fb m' i = fb ex_mem i"
      "getScissorX2 cut_gstate < FrameBufStride cut_gstate \<longrightarrow>
         (\<forall>(x, y) \<in> set (color_positions ws).
            Some (fb m' (pixel_index (FrameBufStride cut_gstate) x y))
              = pixel_final_color exact_ops cut_gstate (\<lambda>_. 0) ?v0 ?v1 ?v2 x y)"
      by blast
    have r2: "writes m' = ws"
      using raw(2) by (simp add: w0)
    have r3: "((x, y) \<in> set (color_positions ws)) = (2 \<le> x \<and> 2 \<le> y \<and> x + y \<le> 10 \<and> x \<le> 5 \<and> y \<le> 5)" for x y
      unfolding raw(3) by (rule ex_region(2))
    have r4: "fb m' i = 0" if "i \<notin> (\<lambda>(x, y). pixel_index 512 x y) ` set (color_positions ws)" for i
      using raw(4) that by (simp add: st f0)
    have r5: "fb m' (pixel_index 512 x y) = 0xF0" if "(x, y) \<in> set (color_positions ws)" for x y
      using raw(5) that by (auto simp: st ex_untextured_color)
    have "pixel_index 512 1 1 \<notin> (\<lambda>(x, y). pixel_index 512 x y) ` set (color_positions ws)"
      by (auto simp: r3 pixel_index_def)
    then have "fb m' (pixel_index 512 1 1) = 0"
      by (rule r4)
    with raw(1) r2 r3[of 1 1] r3[of 2 2] r3[of 5 5] r3[of 5 6] r5[of 2 2] r5[of 5 5]
    show ?thesis by simp
  qed
  show ?thesis
    using v ex_gstate_ok(1,2) ex_nodepth(1,2) ex_texture_defined one two by (simp add: st)
qed

subsection \<open>Texture combination\<close>

text \<open>
  Claim C1, as the specification states it, says that the texture sample replaces the
  base colour. The source combines them with \<^verbatim>\<open>color |= SampleNearest(0, s, t)\<close>. At
  the pixel \<open>(1,1)\<close> of the example triangle, flat-shaded with the base colour
  \<open>0xF0\<close> and with the texture sample \<open>0x0F\<close>, the colour buffer receives
  \<open>0xFF\<close> at the place 513, and not the sample.
\<close>

theorem texture_replace_counterexample:
  "covered (vertex_at 0 0 0 0) (vertex_at 10 0 0 0) (vertex_at 0 10 0 0xF0) 1 1
   \<and> \<not> depth_test_applies tex_gstate
   \<and> isTextureMapEnabled tex_gstate \<and> \<not> isModeClear tex_gstate
   \<and> pixel_base_color exact_ops tex_gstate (vertex_at 0 0 0 0) (vertex_at 10 0 0 0)
        (vertex_at 0 10 0 0xF0) 1 1 = 0xF0
   \<and> SampleNearest exact_ops tex_gstate tex_memory 0
        (pixel_s exact_ops (vertex_at 0 0 0 0) (vertex_at 10 0 0 0) (vertex_at 0 10 0 0xF0) 1 1)
        (pixel_t exact_ops (vertex_at 0 0 0 0) (vertex_at 10 0 0 0) (vertex_at 0 10 0 0xF0) 1 1)
       = Some 0x0F
   \<and> DrawPixel exact_ops tex_gstate tex_memory
        (vertex_at 0 0 0 0) (vertex_at 10 0 0 0) (vertex_at 0 10 0 0xF0) 1 1 ex_mem
       = Some \<lparr>fb = (\<lambda>_. 0)(pixel_index 512 1 1 := 0xFF), depthbuf = (\<lambda>_. 0),
               writes = [ColorWrite 1 1 0xFF]\<rparr>"
  using ex_covered(2)[of 0 0 0 0 0 "0xF0"] ex_nodepth(3) ex_tex_enabled ex_base_color tex_sample
    ex_tex_DrawPixel
  by (simp add: ex_pixel_st)

text \<open>
  Claim C1, amended. At every covered pixel within the ranges at which the depth test,
  where it applies, passes, when texture mapping is enabled and clear mode is off: the
  colour buffer receives, at the pixel's place \<open>x + y * stride\<close>, the bitwise OR of
  the base colour (interpolated or flat) and the texture sample that
  \<^verbatim>\<open>SampleNearest\<close> returns at mip level 0 for the interpolated texture
  coordinates, and is otherwise unchanged; this is the last write of the body and its
  only colour write. Where \<^verbatim>\<open>SampleNearest\<close> has no return value the body has no
  defined result.
\<close>

theorem texture_or_combination:
  "vertex_ok v0 \<and> vertex_ok v1 \<and> vertex_ok v2 \<and> coord_ok x \<and> coord_ok y \<and> gstate_ok gstate
   \<and> covered v0 v1 v2 x y
   \<and> (if depth_test_applies gstate then depth_passes ops gstate v0 v1 v2 x y m else True)
   \<and> isTextureMapEnabled gstate \<and> \<not> isModeClear gstate \<longrightarrow>
     (case SampleNearest ops gstate mem 0 (pixel_s ops v0 v1 v2 x y) (pixel_t ops v0 v1 v2 x y) of
        None \<Rightarrow> DrawPixel ops gstate mem v0 v1 v2 x y m = None
      | Some tex \<Rightarrow>
          (\<exists>m' ws. DrawPixel ops gstate mem v0 v1 v2 x y m = Some m'
             \<and> fb m' = (fb m)(pixel_index (FrameBufStride gstate) x y
                                := pixel_base_color ops gstate v0 v1 v2 x y OR tex)
             \<and> writes m'
                 = writes m @ ws @ [ColorWrite x y (pixel_base_color ops gstate v0 v1 v2 x y OR tex)]
             \<and> color_positions ws = []))"
proof
  assume a: "vertex_ok v0 \<and> vertex_ok v1 \<and> vertex_ok v2 \<and> coord_ok x \<and> coord_ok y \<and> gstate_ok gstate
   \<and> covered v0 v1 v2 x y
   \<and> (if depth_test_applies gstate then depth_passes ops gstate v0 v1 v2 x y m else True)
   \<and> isTextureMapEnabled gstate \<and> \<not> isModeClear gstate"
  then have ok: "vertex_ok v0" "vertex_ok v1" "vertex_ok v2" "coord_ok x" "coord_ok y"
    and cov: "covered v0 v1 v2 x y"
    and pass: "\<not> (depth_test_applies gstate \<and> \<not> depth_passes ops gstate v0 v1 v2 x y m)"
    and tex: "isTextureMapEnabled gstate" "\<not> isModeClear gstate"
    by (simp_all split: if_splits)
  show "case SampleNearest ops gstate mem 0 (pixel_s ops v0 v1 v2 x y) (pixel_t ops v0 v1 v2 x y) of
        None \<Rightarrow> DrawPixel ops gstate mem v0 v1 v2 x y m = None
      | Some tex \<Rightarrow>
          (\<exists>m' ws. DrawPixel ops gstate mem v0 v1 v2 x y m = Some m'
             \<and> fb m' = (fb m)(pixel_index (FrameBufStride gstate) x y
                                := pixel_base_color ops gstate v0 v1 v2 x y OR tex)
             \<and> writes m'
                 = writes m @ ws @ [ColorWrite x y (pixel_base_color ops gstate v0 v1 v2 x y OR tex)]
             \<and> color_positions ws = [])"
  proof (cases "SampleNearest ops gstate mem 0 (pixel_s ops v0 v1 v2 x y) (pixel_t ops v0 v1 v2 x y)")
    case None
    then have "pixel_final_color ops gstate mem v0 v1 v2 x y = None"
      using tex by (simp add: pixel_final_color_def)
    with None cov pass show ?thesis
      by (simp add: DrawPixel_effect[OF ok])
  next
    case (Some t)
    then have "pixel_final_color ops gstate mem v0 v1 v2 x y
                 = Some (pixel_base_color ops gstate v0 v1 v2 x y OR t)"
      using tex by (simp add: pixel_final_color_def)
    with Some cov pass show ?thesis
      by (simp add: DrawPixel_effect[OF ok])
  qed
qed

text \<open>
  The theorem at the pixel \<open>(1,1)\<close> of the example triangle, with the base colour
  \<open>0xF0\<close> and the texture sample \<open>0x0F\<close>: the colour buffer holds their OR
  at the place 513, and the colour write is the only write.
\<close>

theorem texture_or_witness:
  "vertex_ok (vertex_at 0 0 0 0) \<and> vertex_ok (vertex_at 10 0 0 0) \<and> vertex_ok (vertex_at 0 10 0 0xF0)
   \<and> coord_ok 1 \<and> gstate_ok tex_gstate
   \<and> covered (vertex_at 0 0 0 0) (vertex_at 10 0 0 0) (vertex_at 0 10 0 0xF0) 1 1
   \<and> \<not> depth_test_applies tex_gstate
   \<and> isTextureMapEnabled tex_gstate \<and> \<not> isModeClear tex_gstate
   \<and> (\<exists>m'. DrawPixel exact_ops tex_gstate tex_memory
              (vertex_at 0 0 0 0) (vertex_at 10 0 0 0) (vertex_at 0 10 0 0xF0) 1 1 ex_mem = Some m'
          \<and> fb m' (pixel_index 512 1 1) = 0xF0 OR 0x0F
          \<and> writes m' = [ColorWrite 1 1 (0xF0 OR 0x0F)])"
proof -
  let ?v0 = "vertex_at 0 0 0 0" and ?v1 = "vertex_at 10 0 0 0" and ?v2 = "vertex_at 0 10 0 0xF0"
  have c: "coord_ok 0" "coord_ok 1" "coord_ok 10"
    by (simp_all add: coord_ok_def)
  have v: "vertex_ok ?v0" "vertex_ok ?v1" "vertex_ok ?v2"
    using c by (simp_all add: vertex_at_ok)
  have cov: "covered ?v0 ?v1 ?v2 1 1"
    by (rule ex_covered(2))
  have st: "FrameBufStride tex_gstate = 512"
    by (simp add: tex_gstate_def ex_gstate_def)
  have h: "vertex_ok ?v0 \<and> vertex_ok ?v1 \<and> vertex_ok ?v2 \<and> coord_ok 1 \<and> coord_ok 1
           \<and> gstate_ok tex_gstate \<and> covered ?v0 ?v1 ?v2 1 1
           \<and> (if depth_test_applies tex_gstate
                then depth_passes exact_ops tex_gstate ?v0 ?v1 ?v2 1 1 ex_mem else True)
           \<and> isTextureMapEnabled tex_gstate \<and> \<not> isModeClear tex_gstate"
    using v c cov ex_gstate_ok(3) ex_nodepth(3) ex_tex_enabled by simp
  from texture_or_combination[of ?v0 ?v1 ?v2 1 1 tex_gstate exact_ops ex_mem tex_memory, THEN mp, OF h]
  obtain m' ws where r:
    "DrawPixel exact_ops tex_gstate tex_memory ?v0 ?v1 ?v2 1 1 ex_mem = Some m'"
    "fb m' = (fb ex_mem)(pixel_index 512 1 1 := 0xF0 OR 0x0F)"
    "writes m' = writes ex_mem @ ws @ [ColorWrite 1 1 (0xF0 OR 0x0F)]"
    "color_positions ws = []"
    by (auto simp: ex_pixel_st tex_sample ex_base_color st)
  have "ws = []"
    using r(1,3) ex_tex_DrawPixel by (simp add: ex_mem_def)
  with r have "\<exists>m'. DrawPixel exact_ops tex_gstate tex_memory ?v0 ?v1 ?v2 1 1 ex_mem = Some m'
          \<and> fb m' (pixel_index 512 1 1) = 0xF0 OR 0x0F
          \<and> writes m' = [ColorWrite 1 1 (0xF0 OR 0x0F)]"
    by (simp add: ex_mem_def)
  with v c cov ex_gstate_ok(3) ex_nodepth(3) ex_tex_enabled show ?thesis
    by simp
qed

subsection \<open>The 5-5-5-1 format\<close>

text \<open>
  Claim C2. The source reads the blue field with \<^verbatim>\<open>((*srcptr+1) & 0x7C) >> 2\<close>,
  which is the first byte plus one, where the green and alpha lines read the second byte
  \<^verbatim>\<open>*(srcptr+1)\<close>. On the texel \<open>0x7C00\<close> (blue 31) \<^verbatim>\<open>SampleNearest\<close> returns
  0, where the unpack rule gives \<open>0x0000FF00\<close>.
\<close>

theorem sample_5551_blue_from_wrong_byte:
  "SampleNearest exact_ops gstate_5551 memory_5551 0 0 0 = Some 0
   \<and> unpack_5551_spec (memory_5551 0) (memory_5551 1) = 0x0000FF00"
  by (simp add: SampleNearest_def gstate_5551_def ex_gstate_def memory_5551_def exact_ops_def
        c_trunc_def int32_def GE_TFMT_4444_def GE_TFMT_5551_def decode_5551_def pack_rgba_def
        unpack_5551_spec_def expand5_def)

subsection \<open>Interpolation with unit clip-space w\<close>

text \<open>
  The orthographic case of the perspective-correct interpolation. In an arithmetic with
  the unit laws, when the three clip-space \<^verbatim>\<open>w\<close> are \<^verbatim>\<open>1.0f\<close>, the
  denominator is the sum of the three edge weights, and the interpolated value of an
  integer attribute (depth, colour channel) or a float attribute (texture coordinate)
  is the weighted sum of the attribute values divided by the sum of the weights, each
  operation being the arithmetic's own and each product of an integer attribute and a
  weight being the 32-bit product.
\<close>

theorem orthographic_interpolation:
  "unit_laws ops \<longrightarrow>
     persp_den ops w0 w1 w2 (f_one ops) (f_one ops) (f_one ops)
       = f_add ops (f_add ops (f_of_int ops w0) (f_of_int ops w1)) (f_of_int ops w2)
     \<and> interp_int ops a0 a1 a2 w0 w1 w2 (f_one ops) (f_one ops) (f_one ops)
         (persp_den ops w0 w1 w2 (f_one ops) (f_one ops) (f_one ops))
       = f_div ops
           (f_add ops (f_add ops (f_of_int ops (int32 (a0 * w0))) (f_of_int ops (int32 (a1 * w1))))
              (f_of_int ops (int32 (a2 * w2))))
           (f_add ops (f_add ops (f_of_int ops w0) (f_of_int ops w1)) (f_of_int ops w2))
     \<and> interp_float ops t0 t1 t2 w0 w1 w2 (f_one ops) (f_one ops) (f_one ops)
         (persp_den ops w0 w1 w2 (f_one ops) (f_one ops) (f_one ops))
       = f_div ops
           (f_add ops (f_add ops (f_mul ops t0 (f_of_int ops w0)) (f_mul ops t1 (f_of_int ops w1)))
              (f_mul ops t2 (f_of_int ops w2)))
           (f_add ops (f_add ops (f_of_int ops w0) (f_of_int ops w1)) (f_of_int ops w2))"
proof
  assume u: "unit_laws ops"
  then have d: "\<And>x. f_div ops x (f_one ops) = x" and m: "\<And>x. f_mul ops (f_one ops) x = x"
    by (simp_all add: unit_laws_def)
  have den: "persp_den ops w0 w1 w2 (f_one ops) (f_one ops) (f_one ops)
       = f_add ops (f_add ops (f_of_int ops w0) (f_of_int ops w1)) (f_of_int ops w2)"
    by (simp add: persp_den_def d m)
  show "persp_den ops w0 w1 w2 (f_one ops) (f_one ops) (f_one ops)
       = f_add ops (f_add ops (f_of_int ops w0) (f_of_int ops w1)) (f_of_int ops w2)
     \<and> interp_int ops a0 a1 a2 w0 w1 w2 (f_one ops) (f_one ops) (f_one ops)
         (persp_den ops w0 w1 w2 (f_one ops) (f_one ops) (f_one ops))
       = f_div ops
           (f_add ops (f_add ops (f_of_int ops (int32 (a0 * w0))) (f_of_int ops (int32 (a1 * w1))))
              (f_of_int ops (int32 (a2 * w2))))
           (f_add ops (f_add ops (f_of_int ops w0) (f_of_int ops w1)) (f_of_int ops w2))
     \<and> interp_float ops t0 t1 t2 w0 w1 w2 (f_one ops) (f_one ops) (f_one ops)
         (persp_den ops w0 w1 w2 (f_one ops) (f_one ops) (f_one ops))
       = f_div ops
           (f_add ops (f_add ops (f_mul ops t0 (f_of_int ops w0)) (f_mul ops t1 (f_of_int ops w1)))
              (f_mul ops t2 (f_of_int ops w2)))
           (f_add ops (f_add ops (f_of_int ops w0) (f_of_int ops w1)) (f_of_int ops w2))"
    unfolding den by (simp add: interp_int_def interp_float_def d)
qed

text \<open>
  The theorem in exact arithmetic at the weights \<open>1, 2, 1\<close> and the attribute values
  \<open>10, 20, 30\<close>: the average is \<open>80 / 4 = 20\<close>.
\<close>

theorem orthographic_interpolation_witness:
  "unit_laws exact_ops
   \<and> interp_int exact_ops 10 20 30 1 2 1 1 1 1 (persp_den exact_ops 1 2 1 1 1 1) = 20"
proof -
  have u: "unit_laws exact_ops"
    by (simp add: unit_laws_def exact_ops_def)
  have one: "f_one exact_ops = 1"
    by (simp add: exact_ops_def)
  note r = orthographic_interpolation[of exact_ops 1 2 1 10 20 30 0 0 0, THEN mp, OF u]
  have "interp_int exact_ops 10 20 30 1 2 1 (f_one exact_ops) (f_one exact_ops) (f_one exact_ops)
         (persp_den exact_ops 1 2 1 (f_one exact_ops) (f_one exact_ops) (f_one exact_ops))
       = f_div exact_ops
           (f_add exact_ops (f_add exact_ops (f_of_int exact_ops (int32 (10 * 1))) (f_of_int exact_ops (int32 (20 * 2))))
              (f_of_int exact_ops (int32 (30 * 1))))
           (f_add exact_ops (f_add exact_ops (f_of_int exact_ops 1) (f_of_int exact_ops 2))
              (f_of_int exact_ops 1))"
    by (rule r[THEN conjunct2, THEN conjunct1])
  also have "\<dots> = 20"
    by (simp add: exact_ops_def int32_def)
  finally show ?thesis
    using u by (simp add: one)
qed

section \<open>Properties of the draw engine\<close>

subsection \<open>Capacity\<close>

text \<open>
  Claim C3, as the specification states it, asks only \<open>vertexCount \<ge> 0\<close> of a
  submission. A single submission of 65537 points to a new engine with the capacity
  65536 is accepted, since the flush before it finds nothing pending, and leaves
  \<^verbatim>\<open>vertexCountInDrawCalls\<close> at 65537.
\<close>

theorem capacity_counterexample:
  "0 \<le> sub_vertexCount (ex_call GE_PRIM_POINTS 65537)
   \<and> VERTEX_BUFFER_MAX ex_lims = 65536
   \<and> map_option counters (Submit_all ex_lims new_DrawEngine [ex_call GE_PRIM_POINTS 65537])
       = Some (1, 65537)"
proof -
  have "SubmitPrim ex_lims ex_env 0x08800000 0 GE_PRIM_POINTS 65537 0 new_DrawEngine
          = Some (submitted ex_lims ex_env 0x08800000 0 GE_PRIM_POINTS 65537 0 new_DrawEngine,
                  65537 * VertexSize ex_env (VertexDecoder (effective_vtype ex_env 0)))"
    using dec_ok_new ex_env_vtype by (rule SubmitPrim_eq)
  then have "map_option counters (Submit_all ex_lims new_DrawEngine [ex_call GE_PRIM_POINTS 65537])
               = Some (1, 65537)"
    by (simp add: ex_call_def ex_submit_counters)
  moreover have "VERTEX_BUFFER_MAX ex_lims = 65536"
    by (simp add: ex_lims_def)
  moreover have "0 \<le> sub_vertexCount (ex_call GE_PRIM_POINTS 65537)"
    by (simp add: ex_call_def)
  ultimately show ?thesis by simp
qed

text \<open>
  Claim C3, amended. For every sequence of submissions, each with
  \<open>0 \<le> vertexCount \<le> VERTEX_BUFFER_MAX\<close>, started in an engine that satisfies the
  invariant, every call returns and after every call
  \<open>numDrawCalls \<le> MAX_DEFERRED_DRAW_CALLS\<close> and
  \<open>vertexCountInDrawCalls \<le> VERTEX_BUFFER_MAX\<close>. (The list must have room for
  one call; the UV-generation mode is a two-bit value.)
\<close>

theorem capacity_invariant:
  "1 \<le> MAX_DEFERRED_DRAW_CALLS lims \<and> cap_inv lims s \<and> dec_ok s
     \<and> (\<forall>c \<in> set cs. call_ok lims c) \<longrightarrow>
   (\<forall>n. \<exists>s'. Submit_all lims s (take n cs) = Some s'
            \<and> numDrawCalls s' \<le> MAX_DEFERRED_DRAW_CALLS lims
            \<and> vertexCountInDrawCalls s' \<le> VERTEX_BUFFER_MAX lims)"
proof (intro impI allI)
  fix n
  assume a: "1 \<le> MAX_DEFERRED_DRAW_CALLS lims \<and> cap_inv lims s \<and> dec_ok s
     \<and> (\<forall>c \<in> set cs. call_ok lims c)"
  then have "\<forall>c \<in> set (take n cs). call_ok lims c"
    by (meson in_set_takeD)
  with a obtain s' where "Submit_all lims s (take n cs) = Some s'" "cap_inv lims s'"
    using Submit_all_inv[of lims s "take n cs"] by blast
  then show "\<exists>s'. Submit_all lims s (take n cs) = Some s'
            \<and> numDrawCalls s' \<le> MAX_DEFERRED_DRAW_CALLS lims
            \<and> vertexCountInDrawCalls s' \<le> VERTEX_BUFFER_MAX lims"
    by (auto simp: cap_inv_def)
qed

theorem capacity_witness:
  "1 \<le> MAX_DEFERRED_DRAW_CALLS ex_lims \<and> cap_inv ex_lims new_DrawEngine \<and> dec_ok new_DrawEngine
   \<and> call_ok ex_lims (ex_call GE_PRIM_TRIANGLES 65535)
   \<and> (\<exists>s'. Submit_all ex_lims new_DrawEngine [ex_call GE_PRIM_TRIANGLES 65535] = Some s'
          \<and> numDrawCalls s' \<le> 128 \<and> vertexCountInDrawCalls s' \<le> 65536)"
proof -
  have h: "1 \<le> MAX_DEFERRED_DRAW_CALLS ex_lims \<and> cap_inv ex_lims new_DrawEngine
             \<and> dec_ok new_DrawEngine \<and> call_ok ex_lims (ex_call GE_PRIM_TRIANGLES 65535)"
    by (simp add: ex_lims_def cap_inv_def new_DrawEngine_def dec_ok_def call_ok_def ex_call_def
          ex_env_def)
  with capacity_invariant[of ex_lims new_DrawEngine "[ex_call GE_PRIM_TRIANGLES 65535]"]
  have "\<forall>n. \<exists>s'. Submit_all ex_lims new_DrawEngine (take n [ex_call GE_PRIM_TRIANGLES 65535]) = Some s'
            \<and> numDrawCalls s' \<le> MAX_DEFERRED_DRAW_CALLS ex_lims
            \<and> vertexCountInDrawCalls s' \<le> VERTEX_BUFFER_MAX ex_lims"
    by simp
  then have "\<exists>s'. Submit_all ex_lims new_DrawEngine (take 1 [ex_call GE_PRIM_TRIANGLES 65535]) = Some s'
            \<and> numDrawCalls s' \<le> MAX_DEFERRED_DRAW_CALLS ex_lims
            \<and> vertexCountInDrawCalls s' \<le> VERTEX_BUFFER_MAX ex_lims"
    by (rule spec)
  with h show ?thesis by (simp add: ex_lims_def)
qed

subsection \<open>Rejected submissions\<close>

text \<open>
  Claim C9, as the specification states it, says that a rejected submission leaves the
  two counters unchanged. The flush at the start of \<^verbatim>\<open>SubmitPrim\<close> comes before
  the test: after one call of 65535 triangle vertices the counters are
  \<open>(1, 65535)\<close>, and a second call of two triangle vertices, which exceeds the vertex
  capacity and is rejected, leaves them at \<open>(0, 0)\<close>.
\<close>

theorem reject_counterexample:
  "map_option counters (Submit_all ex_lims new_DrawEngine [ex_call GE_PRIM_TRIANGLES 65535])
     = Some (1, 65535)
   \<and> below_minimum 2 GE_PRIM_TRIANGLES
   \<and> map_option counters
        (Submit_all ex_lims new_DrawEngine
           [ex_call GE_PRIM_TRIANGLES 65535, ex_call GE_PRIM_TRIANGLES 2])
     = Some (0, 0)"
proof -
  let ?s1 = "submitted ex_lims ex_env 0x08800000 0 GE_PRIM_TRIANGLES 65535 0 new_DrawEngine"
  have 1: "SubmitPrim ex_lims ex_env 0x08800000 0 GE_PRIM_TRIANGLES 65535 0 new_DrawEngine
             = Some (?s1, 65535 * VertexSize ex_env (VertexDecoder (effective_vtype ex_env 0)))"
    using dec_ok_new ex_env_vtype by (rule SubmitPrim_eq)
  have "dec_ok ?s1"
    using dec_ok_new ex_env_vtype by (rule submitted_dec_ok)
  then have 2: "SubmitPrim ex_lims ex_env 0x08800000 0 GE_PRIM_TRIANGLES 2 0 ?s1
             = Some (submitted ex_lims ex_env 0x08800000 0 GE_PRIM_TRIANGLES 2 0 ?s1,
                     2 * VertexSize ex_env (VertexDecoder (effective_vtype ex_env 0)))"
    using ex_env_vtype by (rule SubmitPrim_eq)
  have 3: "counters (submitted ex_lims ex_env 0x08800000 0 GE_PRIM_TRIANGLES 2 0 ?s1) = (0, 0)"
    using ex_submit_counters(1) by (rule ex_submit_reject_full)
  show ?thesis
    using 1 2 3 by (simp add: ex_call_def ex_submit_counters below_minimum_def)
qed

text \<open>
  Claim C9, amended. A submission below the minimum vertex count of its (resolved)
  primitive kind returns without appending: the array of deferred calls is as before,
  and the two counters are as the flush at the start of \<^verbatim>\<open>SubmitPrim\<close> leaves
  them: unchanged when no flush is due, zero when the pending batch is flushed.
\<close>

theorem reject_below_minimum:
  "dec_ok s \<and> getUVGenMode env \<le> 3
     \<and> too_few vertexCount (resolve_prim prim (flush_before lims env prim vertexCount s)) \<longrightarrow>
   (\<exists>s' bytesRead.
      SubmitPrim lims env verts inds prim vertexCount vertType s = Some (s', bytesRead)
      \<and> drawCalls s' = drawCalls s
      \<and> numDrawCalls s' = (if flush_due lims env prim vertexCount s then 0 else numDrawCalls s)
      \<and> vertexCountInDrawCalls s'
          = (if flush_due lims env prim vertexCount s \<and> numDrawCalls s \<noteq> 0 then 0
             else vertexCountInDrawCalls s))"
proof
  assume a: "dec_ok s \<and> getUVGenMode env \<le> 3
     \<and> too_few vertexCount (resolve_prim prim (flush_before lims env prim vertexCount s))"
  then have e: "effective_vtype env vertType \<noteq> - 1"
    by (simp add: effective_vtype_not_minus1)
  from a have d: "dec_ok s" by simp
  from a have rej: "below_minimum vertexCount (resolve_prim prim (flush_before lims env prim vertexCount s))"
    by (simp add: below_minimum_too_few)
  let ?s' = "submitted lims env verts inds prim vertexCount vertType s"
  have s': "?s' = SetupVertexDecoderInternal env vertType
                    (note_prim prim (flush_before lims env prim vertexCount s))"
    using rej by (simp add: submitted_def Let_def)
  have "drawCalls ?s' = drawCalls s"
    and "numDrawCalls ?s' = (if flush_due lims env prim vertexCount s then 0 else numDrawCalls s)"
    and "vertexCountInDrawCalls ?s'
          = (if flush_due lims env prim vertexCount s \<and> numDrawCalls s \<noteq> 0 then 0
             else vertexCountInDrawCalls s)"
    unfolding s' by (simp_all add: flush_before_counters)
  then show "\<exists>s' bytesRead.
      SubmitPrim lims env verts inds prim vertexCount vertType s = Some (s', bytesRead)
      \<and> drawCalls s' = drawCalls s
      \<and> numDrawCalls s' = (if flush_due lims env prim vertexCount s then 0 else numDrawCalls s)
      \<and> vertexCountInDrawCalls s'
          = (if flush_due lims env prim vertexCount s \<and> numDrawCalls s \<noteq> 0 then 0
             else vertexCountInDrawCalls s)"
    using SubmitPrim_eq[OF d e, of lims verts inds prim vertexCount] by blast
qed

theorem reject_witness:
  "dec_ok new_DrawEngine \<and> getUVGenMode ex_env \<le> 3
   \<and> too_few 1 (resolve_prim GE_PRIM_LINES (flush_before ex_lims ex_env GE_PRIM_LINES 1 new_DrawEngine))
   \<and> (\<exists>s' bytesRead.
         SubmitPrim ex_lims ex_env 0x08800000 0 GE_PRIM_LINES 1 0 new_DrawEngine = Some (s', bytesRead)
         \<and> drawCalls s' = drawCalls new_DrawEngine \<and> numDrawCalls s' = 0
         \<and> vertexCountInDrawCalls s' = 0)"
proof -
  have h: "dec_ok new_DrawEngine \<and> getUVGenMode ex_env \<le> 3
   \<and> too_few 1 (resolve_prim GE_PRIM_LINES (flush_before ex_lims ex_env GE_PRIM_LINES 1 new_DrawEngine))"
    by (simp add: dec_ok_new ex_env_def too_few_def resolve_prim_def)
  have n: "numDrawCalls new_DrawEngine = 0" "vertexCountInDrawCalls new_DrawEngine = 0"
    by (simp_all add: new_DrawEngine_def)
  from reject_below_minimum[of new_DrawEngine ex_env 1 GE_PRIM_LINES ex_lims "0x08800000" 0 0] h
  show ?thesis by (simp add: n split: if_splits)
qed

subsection \<open>Bytes consumed\<close>



subsection \<open>The overflow check of the indexed path\<close>

text \<open>
  Claim C7, as the specification states it, concludes that the decoded vertex count
  never exceeds \<open>VERTEX_BUFFER_MAX\<close>. Only the indexed path has the check. A call
  of three indices with the index bounds \<open>[0, 65000]\<close> followed by a call without
  indices of 1002 vertices, both of triangles, is a batch of 1005 submitted vertices
  that passes the capacity checks of \<^verbatim>\<open>SubmitPrim\<close>; \<^verbatim>\<open>DecodeVerts\<close> decodes
  the 65001 vertices of the first range, which fit, and then the 1002 vertices of the
  second call without a check, and leaves the decoded vertex count at 66003.
\<close>

theorem decoded_count_counterexample:
  "call_ok ex_lims wide_call \<and> call_ok ex_lims (ex_call GE_PRIM_TRIANGLES 1002)
   \<and> VERTEX_BUFFER_MAX ex_lims = 65536
   \<and> map_option counters
        (Submit_all ex_lims new_DrawEngine [wide_call, ex_call GE_PRIM_TRIANGLES 1002])
     = Some (2, 1005)
   \<and> map_option (\<lambda>s. decodedVerts (DecodeVerts ex_lims ex_env s))
        (Submit_all ex_lims new_DrawEngine [wide_call, ex_call GE_PRIM_TRIANGLES 1002])
     = Some 66003"
proof -
  let ?s1 = "submitted ex_lims wide_env 0x08900000 0x08A00000 GE_PRIM_TRIANGLES 3 0x1000 new_DrawEngine"
  let ?s2 = "submitted ex_lims ex_env 0x08800000 0 GE_PRIM_TRIANGLES 1002 0 ?s1"
  have 1: "SubmitPrim ex_lims wide_env 0x08900000 0x08A00000 GE_PRIM_TRIANGLES 3 0x1000 new_DrawEngine
             = Some (?s1, 3 * VertexSize wide_env (VertexDecoder (effective_vtype wide_env 0x1000)))"
    using dec_ok_new wide_env_vtype by (rule SubmitPrim_eq)
  have "dec_ok ?s1"
    using dec_ok_new wide_env_vtype by (rule submitted_dec_ok)
  then have 2: "SubmitPrim ex_lims ex_env 0x08800000 0 GE_PRIM_TRIANGLES 1002 0 ?s1
             = Some (?s2, 1002 * VertexSize ex_env (VertexDecoder (effective_vtype ex_env 0)))"
    using ex_env_vtype by (rule SubmitPrim_eq)
  have all: "Submit_all ex_lims new_DrawEngine [wide_call, ex_call GE_PRIM_TRIANGLES 1002] = Some ?s2"
    using 1 2 by (simp add: wide_call_def ex_call_def)
  have ok: "call_ok ex_lims wide_call" "call_ok ex_lims (ex_call GE_PRIM_TRIANGLES 1002)"
    "VERTEX_BUFFER_MAX ex_lims = 65536"
    by (simp_all add: call_ok_def wide_call_def wide_env_def ex_call_def ex_env_def ex_lims_def)
  show ?thesis
    unfolding all
    using ok wide_batch_fields(1,2) wide_batch_decoded
    by (simp add: counters_def)
qed

text \<open>
  Claim C7, amended. Let the call at the cursor have indices and let the run that starts
  at the cursor end at \<open>k\<close>; the merged range reaches from the least lower to the
  greatest upper index bound of the run. When the merged range would take the decoded
  vertex count beyond \<open>VERTEX_BUFFER_MAX\<close>, \<^verbatim>\<open>DecodeVertsStep\<close> returns with the
  decoded vertex count, the trace of decoder calls and the cursor as they were;
  otherwise the count advances by the size of the merged range and is within the
  capacity. So a step of the indexed path leaves a count that is within the capacity
  within it.
\<close>

theorem overflow_guard:
  "indexed_call (cursor_call s) \<and> is_run (drawCalls s) (numDrawCalls s) (decodeCounter s) k \<longrightarrow>
     (if decodedVerts s
           + (run_upper (drawCalls s) (decodeCounter s) k
                - run_lower (drawCalls s) (decodeCounter s) k + 1)
         > VERTEX_BUFFER_MAX lims
      then decodedVerts (DecodeVertsStep lims s) = decodedVerts s
         \<and> decoded (DecodeVertsStep lims s) = decoded s
         \<and> decodeCounter (DecodeVertsStep lims s) = decodeCounter s
      else decodedVerts (DecodeVertsStep lims s)
             = decodedVerts s
                 + (run_upper (drawCalls s) (decodeCounter s) k
                      - run_lower (drawCalls s) (decodeCounter s) k + 1)
         \<and> decodedVerts (DecodeVertsStep lims s) \<le> VERTEX_BUFFER_MAX lims)
     \<and> (if decodedVerts s \<le> VERTEX_BUFFER_MAX lims
        then decodedVerts (DecodeVertsStep lims s) \<le> VERTEX_BUFFER_MAX lims else True)"
proof
  let ?L = "run_lower (drawCalls s) (decodeCounter s) k"
  let ?U = "run_upper (drawCalls s) (decodeCounter s) k"
  assume a: "indexed_call (cursor_call s) \<and> is_run (drawCalls s) (numDrawCalls s) (decodeCounter s) k"
  then have i: "indexed_call (cursor_call s)"
    and run: "is_run (drawCalls s) (numDrawCalls s) (decodeCounter s) k"
    by simp_all
  have m: "merged_range s = (?L, ?U, k)"
    using run by (rule merged_range_run)
  show "(if decodedVerts s + (?U - ?L + 1) > VERTEX_BUFFER_MAX lims
      then decodedVerts (DecodeVertsStep lims s) = decodedVerts s
         \<and> decoded (DecodeVertsStep lims s) = decoded s
         \<and> decodeCounter (DecodeVertsStep lims s) = decodeCounter s
      else decodedVerts (DecodeVertsStep lims s) = decodedVerts s + (?U - ?L + 1)
         \<and> decodedVerts (DecodeVertsStep lims s) \<le> VERTEX_BUFFER_MAX lims)
     \<and> (if decodedVerts s \<le> VERTEX_BUFFER_MAX lims
        then decodedVerts (DecodeVertsStep lims s) \<le> VERTEX_BUFFER_MAX lims else True)"
    unfolding DecodeVertsStep_indexed_eq[OF i m]
    by (simp add: decode_merged_def Let_def)
qed

text \<open>
  The theorem at the two example engines, where 10 vertices are decoded: the merged
  range \<open>[0, 65530]\<close> has 65531 vertices and the step leaves everything as it was;
  the merged range \<open>[0, 200]\<close> has 201 and the step takes the count to 211.
\<close>

theorem overflow_guard_witness:
  "indexed_call (cursor_call over_state)
   \<and> is_run (drawCalls over_state) (numDrawCalls over_state) (decodeCounter over_state) 2
   \<and> decodedVerts over_state + (65530 - 0 + 1) > VERTEX_BUFFER_MAX ex_lims
   \<and> decodedVerts (DecodeVertsStep ex_lims over_state) = 10
   \<and> decoded (DecodeVertsStep ex_lims over_state) = decoded over_state
   \<and> decodeCounter (DecodeVertsStep ex_lims over_state) = 1
   \<and> indexed_call (cursor_call fit_state)
   \<and> is_run (drawCalls fit_state) (numDrawCalls fit_state) (decodeCounter fit_state) 2
   \<and> decodedVerts fit_state + (200 - 0 + 1) \<le> VERTEX_BUFFER_MAX ex_lims
   \<and> decodedVerts (DecodeVertsStep ex_lims fit_state) = 211"
proof -
  from overflow_guard[of over_state 2 ex_lims] overflow_guard[of fit_state 2 ex_lims]
    over_state_indexed fit_state_indexed over_state_run fit_state_run
  show ?thesis by (simp add: example_counts)
qed

subsection \<open>The index merge\<close>




end
